theory Spec2Isabelle
  imports Complex_Main "HOL-Library.Word" "HOL-Library.Log_Nat"
begin

unbundle bit_operations_syntax

section \<open>Scalar types\<close>

text \<open>
  \<^verbatim>\<open>uint32_t\<close> is a 32-bit word: addition and subtraction wrap, division and the order are
  the unsigned ones.
\<close>

type_synonym u32 = "32 word"

section \<open>Utils\<close>

text \<open>
  \<^verbatim>\<open>uint32_t bit_width(uint32_t m) {
    if (m == 0) return 0;
    else { uint32_t w = 0; while (m >>= 1) ++w; return w; }
  }\<close>

  The loop first shifts \<open>m\<close> right by one, stores it, and runs the body only when the
  shifted value is not zero. \<open>bit_width_loop m w\<close> is the loop entered with the current
  \<open>m\<close> and \<open>w\<close>.
\<close>

function bit_width_loop :: "u32 \<Rightarrow> u32 \<Rightarrow> u32" where
  "bit_width_loop m w =
     (let m' = drop_bit 1 m in if m' \<noteq> 0 then bit_width_loop m' (w + 1) else w)"
  by pat_completeness auto
termination
proof (relation "measure (\<lambda>(m, w). unat m)")
  show "wf (measure (\<lambda>(m :: u32, w :: u32). unat m))"
    by simp
next
  fix m w m' :: u32
  assume m': "m' = drop_bit 1 m" and nz: "m' \<noteq> 0"
  have half: "unat (drop_bit 1 m) = unat m div 2"
    by (simp add: drop_bit_eq_div unat_div)
  from m' nz have "unat (drop_bit 1 m) \<noteq> 0"
    by (simp add: unat_eq_0)
  with half have "unat (drop_bit 1 m) < unat m"
    by simp
  with m' show "((m', w + 1), (m, w)) \<in> measure (\<lambda>(m, w). unat m)"
    by simp
qed

declare bit_width_loop.simps [simp del]

definition bit_width :: "u32 \<Rightarrow> u32" where
  "bit_width m = (if m = 0 then 0 else bit_width_loop m 0)"

record Extent3D =
  width :: u32
  height :: u32
  depthOrArrayLayers :: u32

definition getMaxMipLevelCount :: "Extent3D \<Rightarrow> u32" where
  "getMaxMipLevelCount textureSize = bit_width (max (width textureSize) (height textureSize))"

section \<open>Single precision\<close>

text \<open>
  A C++ \<^verbatim>\<open>float\<close> is an IEEE 754 binary32 number, and every operation on floats rounds its
  exact result to the nearest one, ties to the number with an even significand (the
  default rounding mode; intermediate results are not kept in a wider format and the
  compiler does not reassociate). A float is a finite number (\<open>Num q\<close>, \<open>q\<close> a rational that
  binary32 represents, \<open>Num 0\<close> being the positive zero), the negative zero, an infinity or
  a NaN; the NaNs are not told apart.
\<close>

datatype f32 = Num rat | NegZero | PInf | NInf | NaN

fun valof :: "f32 \<Rightarrow> rat" where
  "valof (Num q) = q"
| "valof NegZero = 0"
| "valof PInf = 0"
| "valof NInf = 0"
| "valof NaN = 0"

text \<open>The sign bit.\<close>

fun is_neg :: "f32 \<Rightarrow> bool" where
  "is_neg (Num q) = (q < 0)"
| "is_neg NegZero = True"
| "is_neg PInf = False"
| "is_neg NInf = True"
| "is_neg NaN = False"

definition is_inf :: "f32 \<Rightarrow> bool" where
  "is_inf a = (a = PInf \<or> a = NInf)"

definition is_zero :: "f32 \<Rightarrow> bool" where
  "is_zero a = (a = Num 0 \<or> a = NegZero)"

text \<open>
  The exponent of a positive rational \<open>x\<close>, the integer \<open>e\<close> with \<open>2\<^sup>e \<le> x < 2\<^sup>e\<^sup>+\<^sup>1\<close>: the
  difference of the bit lengths of numerator and denominator, or one less.
\<close>

definition floor_log2 :: "rat \<Rightarrow> int" where
  "floor_log2 x =
     (let (p, q) = quotient_of x;
          e = bitlen p - bitlen q
      in if 2 powi e \<le> x then e else e - 1)"

text \<open>The nearest integer, a tie going to the even one.\<close>

definition round_half_even :: "rat \<Rightarrow> int" where
  "round_half_even r =
     (let f = \<lfloor>r\<rfloor>; d = r - of_int f
      in if d < 1 / 2 then f
         else if d > 1 / 2 then f + 1
         else if even f then f else f + 1)"

text \<open>
  Rounding to 24 significant bits: the multiples of \<open>2\<^sup>e\<^sup>-\<^sup>2\<^sup>3\<close> are the binary32 numbers
  between \<open>2\<^sup>e\<close> and \<open>2\<^sup>e\<^sup>+\<^sup>1\<close>, and below \<open>2\<^sup>-\<^sup>1\<^sup>2\<^sup>6\<close> (the subnormal numbers) the spacing stays
  \<open>2\<^sup>-\<^sup>1\<^sup>4\<^sup>9\<close>. The exponent is not bounded above here.
\<close>

definition f32_round :: "rat \<Rightarrow> rat" where
  "f32_round x =
     (if x = 0 then 0
      else let e = max (floor_log2 \<bar>x\<bar>) (- 126);
               u = 2 powi (e - 23)
           in of_int (round_half_even (x / u)) * u)"

text \<open>
  The float of an exact result \<open>x\<close>: what rounds to \<open>2\<^sup>1\<^sup>2\<^sup>8\<close> or beyond is an infinity; what
  rounds to zero keeps the sign of \<open>x\<close>, and \<open>neg\<close> is the sign of a result that is zero
  exactly.
\<close>

definition f32_of_rat :: "bool \<Rightarrow> rat \<Rightarrow> f32" where
  "f32_of_rat neg x =
     (let y = f32_round x in
      if y \<ge> 2 ^ 128 then PInf
      else if y \<le> - (2 ^ 128) then NInf
      else if y = 0 then (if x < 0 \<or> (x = 0 \<and> neg) then NegZero else Num 0)
      else Num y)"

text \<open>
  \<^verbatim>\<open>a + b\<close>, \<^verbatim>\<open>a * b\<close> and \<^verbatim>\<open>a / b\<close> on floats. A sum that is zero exactly is the positive
  zero unless both terms are the negative zero; the sign of a product and of a quotient
  is the exclusive or of the signs.
\<close>

definition f32_add :: "f32 \<Rightarrow> f32 \<Rightarrow> f32" where
  "f32_add a b =
     (if a = NaN \<or> b = NaN \<or> (a = PInf \<and> b = NInf) \<or> (a = NInf \<and> b = PInf) then NaN
      else if a = PInf \<or> b = PInf then PInf
      else if a = NInf \<or> b = NInf then NInf
      else f32_of_rat (a = NegZero \<and> b = NegZero) (valof a + valof b))"

definition f32_mul :: "f32 \<Rightarrow> f32 \<Rightarrow> f32" where
  "f32_mul a b =
     (if a = NaN \<or> b = NaN \<or> (is_inf a \<and> is_zero b) \<or> (is_zero a \<and> is_inf b) then NaN
      else if is_inf a \<or> is_inf b then (if is_neg a \<noteq> is_neg b then NInf else PInf)
      else f32_of_rat (is_neg a \<noteq> is_neg b) (valof a * valof b))"

definition f32_div :: "f32 \<Rightarrow> f32 \<Rightarrow> f32" where
  "f32_div a b =
     (if a = NaN \<or> b = NaN \<or> (is_inf a \<and> is_inf b) \<or> (is_zero a \<and> is_zero b) then NaN
      else if is_inf a \<or> is_zero b then (if is_neg a \<noteq> is_neg b then NInf else PInf)
      else if is_inf b then (if is_neg a \<noteq> is_neg b then NegZero else Num 0)
      else f32_of_rat (is_neg a \<noteq> is_neg b) (valof a / valof b))"

text \<open>\<^verbatim>\<open>std::abs\<close> on a float clears the sign bit.\<close>

fun f32_abs :: "f32 \<Rightarrow> f32" where
  "f32_abs (Num q) = Num \<bar>q\<bar>"
| "f32_abs NegZero = Num 0"
| "f32_abs PInf = PInf"
| "f32_abs NInf = PInf"
| "f32_abs NaN = NaN"

text \<open>
  \<^verbatim>\<open>x > 1e-6\<close> for a float \<^verbatim>\<open>x\<close>: the literal is a \<^verbatim>\<open>double\<close>, the binary64 number nearest to
  \<open>10\<^sup>-\<^sup>6\<close>, which is \<open>4722366482869645 / 2\<^sup>7\<^sup>2\<close>; the float is converted to \<^verbatim>\<open>double\<close>, which
  changes no value, and compared. A NaN exceeds nothing.
\<close>

definition double_1e_6 :: rat where
  "double_1e_6 = 4722366482869645 / 2 ^ 72"

fun exceeds_1e_6 :: "f32 \<Rightarrow> bool" where
  "exceeds_1e_6 (Num q) = (q > double_1e_6)"
| "exceeds_1e_6 NegZero = False"
| "exceeds_1e_6 PInf = True"
| "exceeds_1e_6 NInf = False"
| "exceeds_1e_6 NaN = False"

section \<open>Data\<close>

type_synonym vec3 = "f32 \<times> f32 \<times> f32"

type_synonym vec4 = "f32 \<times> f32 \<times> f32 \<times> f32"

text \<open>
  \<^verbatim>\<open>m_parameters.kernel\<close> is multiplied by a \<^verbatim>\<open>vec3\<close> and the product is the second argument
  of a \<^verbatim>\<open>dot\<close> whose first is a \<^verbatim>\<open>vec4\<close>; its elements \<^verbatim>\<open>kernel[0]\<close>, \<^verbatim>\<open>kernel[1]\<close>,
  \<^verbatim>\<open>kernel[2]\<close> are edited three floats at a time. It is a matrix of three columns of four
  components each (glm's \<^verbatim>\<open>mat3x4\<close>), stored here as its three columns.
\<close>

type_synonym mat3x4 = "vec4 \<times> vec4 \<times> vec4"

text \<open>
  The operators of glm, in the order in which its scalar code (no \<^verbatim>\<open>GLM_FORCE_INTRINSICS\<close>)
  evaluates them. \<^verbatim>\<open>mat3x4 * vec3\<close> is the linear combination of the columns, a \<^verbatim>\<open>vec4\<close>, each
  component \<^verbatim>\<open>m[0][i] * v.x + m[1][i] * v.y + m[2][i] * v.z\<close>.
\<close>

fun mat3x4_times_vec3 :: "mat3x4 \<Rightarrow> vec3 \<Rightarrow> vec4" where
  "mat3x4_times_vec3 ((a0, a1, a2, a3), (b0, b1, b2, b3), (c0, c1, c2, c3)) (x, y, z) =
     (f32_add (f32_add (f32_mul a0 x) (f32_mul b0 y)) (f32_mul c0 z),
      f32_add (f32_add (f32_mul a1 x) (f32_mul b1 y)) (f32_mul c1 z),
      f32_add (f32_add (f32_mul a2 x) (f32_mul b2 y)) (f32_mul c2 z),
      f32_add (f32_add (f32_mul a3 x) (f32_mul b3 y)) (f32_mul c3 z))"

text \<open>
  \<^verbatim>\<open>dot\<close> of two \<^verbatim>\<open>vec4\<close>: \<^verbatim>\<open>tmp = a * b\<close> component by component, then
  \<^verbatim>\<open>(tmp.x + tmp.y) + (tmp.z + tmp.w)\<close>.
\<close>

fun dot :: "vec4 \<Rightarrow> vec4 \<Rightarrow> f32" where
  "dot (x0, x1, x2, x3) (y0, y1, y2, y3) =
     f32_add (f32_add (f32_mul x0 y0) (f32_mul x1 y1))
             (f32_add (f32_mul x2 y2) (f32_mul x3 y3))"

fun vec4_div :: "vec4 \<Rightarrow> f32 \<Rightarrow> vec4" where
  "vec4_div (x0, x1, x2, x3) s = (f32_div x0 s, f32_div x1 s, f32_div x2 s, f32_div x3 s)"

text \<open>\<^verbatim>\<open>mat3x4 / float\<close>: every component divided by the scalar.\<close>

fun mat3x4_div :: "mat3x4 \<Rightarrow> f32 \<Rightarrow> mat3x4" where
  "mat3x4_div (a, b, c) s = (vec4_div a s, vec4_div b s, vec4_div c s)"

text \<open>
  \<^verbatim>\<open>ImGui::SliderFloat3(label, glm::value_ptr(kernel[i]), ...)\<close> writes the first three
  floats of column \<open>i\<close>; the fourth stays.
\<close>

fun set_xyz :: "vec3 \<Rightarrow> vec4 \<Rightarrow> vec4" where
  "set_xyz (x, y, z) (x0, x1, x2, x3) = (x, y, z, x3)"

record Parameters =
  filterType :: int
  kernel :: mat3x4
  normalize :: bool

record Uniforms =
  uniforms_kernel :: mat3x4
  uniforms_filterType :: u32

record Settings =
  scale :: f32
  outputSizeLog :: int

datatype TextureUsage = TextureBinding | StorageBinding | CopySrc | CopyDst

record TextureDescriptor =
  td_label :: string
  td_size :: Extent3D
  td_sampleCount :: u32
  td_mipLevelCount :: u32
  td_usage :: "TextureUsage list"

text \<open>Every object the program obtains from the window, GUI and graphics libraries.\<close>

datatype handle =
    GlfwLibrary | Window
  | Instance | Surface | Adapter | Device | Queue
  | SwapChain
  | ImGuiContext | ImGuiGlfwBackend | ImGuiWgpuBackend
  | BindGroupLayout
  | ShaderModule | PipelineLayout | ComputePipeline
  | UniformBuffer
  | InputTexture | OutputTexture
  | InputTextureView | OutputTextureLayer nat | OutputTextureView
  | BindGroup
  | CommandEncoder | ComputePassEncoder | RenderPassEncoder | CommandBuffer | NextTexture

datatype TextureViewDimension = View_2D | View_2DArray

record TextureViewDescriptor =
  tv_label :: string
  tv_baseArrayLayer :: u32
  tv_arrayLayerCount :: u32
  tv_dimension :: TextureViewDimension
  tv_baseMipLevel :: u32
  tv_mipLevelCount :: u32

text \<open>A texture view: the texture it was created from and the descriptor it was created with.\<close>

type_synonym TextureView = "handle \<times> TextureViewDescriptor"

datatype BindGroupEntry =
    EntryTextureView u32 "TextureView option"
  | EntryBuffer u32 handle

datatype stream = Cout | Cerr

text \<open>
  What the program does to the outside, in the order it does it: console output, objects
  obtained from and given back to the libraries, the upload of the image, the commands of
  the compute pass and the saving of a layer. The remaining library calls are recorded by
  name. The descriptors that only the libraries read (the required limits, the entries of
  the bind group layout, the pipeline and swap chain descriptors) are left out.
\<close>

datatype call =
    Log stream string
  | Create handle
  | Destroy handle
  | Release handle
  | WriteTexture handle u32 Extent3D
  | WriteBuffer handle
  | SetPipeline handle
  | SetBindGroup u32 "BindGroupEntry list option"
  | DispatchWorkgroups u32 u32 u32
  | SaveTexture string handle u32 u32
  | Call string

datatype error =
    RuntimeError string
  | NullHandle string
  | OutOfRangeConversion

text \<open>
  What the program is built with and what the libraries answer. \<^verbatim>\<open>RESOURCE_DIR\<close> and
  \<^verbatim>\<open>WEBGPU_BACKEND_WGPU\<close> are macros of the build. A field \<open>f_ok\<close> says that the library call
  \<open>f\<close> gives an object and not a null handle. \<open>stbi_load_result\<close> is \<open>None\<close> when
  \<^verbatim>\<open>stbi_load\<close> returns a null pointer, and the \<^verbatim>\<open>int\<close> width and height of the image
  otherwise.
\<close>

record Env =
  RESOURCE_DIR :: string
  WEBGPU_BACKEND_WGPU :: bool
  glfwInit_ok :: bool
  glfwCreateWindow_ok :: bool
  createInstance_ok :: bool
  requestAdapter_ok :: bool
  requestDevice_ok :: bool
  stbi_load_result :: "(int \<times> int) option"

text \<open>
  The members of \<^verbatim>\<open>Application\<close> that the functions below read or write, and the trace of
  calls made so far (oldest first). A handle member holds what the object was created
  with, \<open>None\<close> while it is null. \<^verbatim>\<open>m_outputTextureLayers\<close> is an array of six views, a
  function of the index.
\<close>

record Application =
  m_shouldCompute :: bool
  m_shouldReallocateTextures :: bool
  m_parameters :: Parameters
  m_uniforms :: Uniforms
  m_settings :: Settings
  m_inputTexture :: "TextureDescriptor option"
  m_outputTexture :: "TextureDescriptor option"
  m_inputTextureView :: "TextureView option"
  m_outputTextureLayers :: "nat \<Rightarrow> TextureView option"
  m_outputTextureView :: "TextureView option"
  m_bindGroup :: "BindGroupEntry list option"
  trace :: "call list"

definition emit :: "call list \<Rightarrow> Application \<Rightarrow> Application" where
  "emit cs app = app\<lparr>trace := trace app @ cs\<rparr>"

text \<open>The calls made between two states of one run.\<close>

definition since :: "Application \<Rightarrow> Application \<Rightarrow> call list" where
  "since app app' = drop (length (trace app)) (trace app')"

section \<open>Initialisation and termination\<close>

text \<open>
  \<^verbatim>\<open>initWindow\<close> returns \<^verbatim>\<open>false\<close> after a line on \<^verbatim>\<open>std::cerr\<close> when the window library
  or the window cannot be had.
\<close>

definition initWindow :: "Env \<Rightarrow> Application \<Rightarrow> bool \<times> Application" where
  "initWindow env app =
     (if \<not> glfwInit_ok env then
        (False, emit [Log Cerr ''Could not initialize GLFW!''] app)
      else
        let app1 = emit [Create GlfwLibrary, Call ''glfwWindowHint'', Call ''glfwWindowHint''] app in
        if \<not> glfwCreateWindow_ok env then
          (False, emit [Log Cerr ''Could not open window!''] app1)
        else
          (True, emit [Create Window, Call ''glfwSetWindowUserPointer'',
                       Call ''glfwSetFramebufferSizeCallback''] app1))"

definition terminateWindow :: "Application \<Rightarrow> Application" where
  "terminateWindow app = emit [Release Window, Release GlfwLibrary] app"

text \<open>
  \<^verbatim>\<open>initDevice\<close> tests the instance only. The adapter and the device are requested, printed
  after \<^verbatim>\<open>"Got adapter: "\<close> and \<^verbatim>\<open>"Got device: "\<close> on \<^verbatim>\<open>std::cout\<close> (the trace keeps the text
  before the handle) and used, with no test of either handle; what a library call does on
  a null handle is outside this source, and the trace records the call like any other.
\<close>

definition initDevice :: "Env \<Rightarrow> Application \<Rightarrow> bool \<times> Application" where
  "initDevice env app =
     (if \<not> createInstance_ok env then
        (False, emit [Log Cerr ''Could not initialize WebGPU!''] app)
      else
        (True,
         emit ([Create Instance,
                Log Cout ''Requesting adapter...'',
                Create Surface]
               @ (if requestAdapter_ok env then [Create Adapter] else [])
               @ [Log Cout ''Got adapter: '',
                  Log Cout ''Requesting device...'',
                  Call ''Adapter::getLimits'']
               @ (if requestDevice_ok env then [Create Device] else [])
               @ [Log Cout ''Got device: '',
                  Call ''Device::setUncapturedErrorCallback'',
                  Call ''Device::setDeviceLostCallback'',
                  Create Queue,
                  Call (if WEBGPU_BACKEND_WGPU env then ''Queue::submit''
                        else ''Instance::processEvents'')]) app))"

definition terminateDevice :: "Env \<Rightarrow> Application \<Rightarrow> Application" where
  "terminateDevice env app =
     emit ((if WEBGPU_BACKEND_WGPU env then [] else [Release Queue])
           @ [Release Device, Release Instance]) app"

definition initSwapChain :: "Application \<Rightarrow> Application" where
  "initSwapChain app =
     emit [Call ''glfwGetFramebufferSize'',
           Log Cout ''Creating swapchain...'',
           Create SwapChain,
           Log Cout ''Swapchain: ''] app"

definition terminateSwapChain :: "Application \<Rightarrow> Application" where
  "terminateSwapChain app = emit [Release SwapChain] app"

definition initGui :: "Application \<Rightarrow> Application" where
  "initGui app =
     emit [Create ImGuiContext, Call ''ImGui::GetIO'',
           Create ImGuiGlfwBackend, Create ImGuiWgpuBackend] app"

definition terminateGui :: "Application \<Rightarrow> Application" where
  "terminateGui app = emit [Release ImGuiWgpuBackend, Release ImGuiGlfwBackend] app"

definition initBuffers :: "Application \<Rightarrow> Application" where
  "initBuffers app = emit [Create UniformBuffer] app"

definition terminateBuffers :: "Application \<Rightarrow> Application" where
  "terminateBuffers app = emit [Destroy UniformBuffer, Release UniformBuffer] app"

text \<open>
  \<^verbatim>\<open>(uint32_t)std::pow(2, e)\<close> for an \<^verbatim>\<open>int e\<close>: the power is a \<^verbatim>\<open>double\<close>, exact for these
  exponents; the conversion drops the fraction of a negative power and is undefined once
  the power no longer fits 32 bits.
\<close>

definition pow_2_to_u32 :: "int \<Rightarrow> u32 option" where
  "pow_2_to_u32 e =
     (if e < 0 then Some 0 else if e < 32 then Some (2 ^ nat e) else None)"

text \<open>
  \<^verbatim>\<open>initTextures\<close>: one \<^verbatim>\<open>TextureDescriptor\<close> serves both textures, so the output texture
  keeps every field that is not assigned again (sample count, mip level count).
\<close>

definition initTextures :: "Env \<Rightarrow> Application \<Rightarrow> (error + unit) \<times> Application" where
  "initTextures env app =
     (let app1 = emit [Call ''stbi_load''] app in
      case stbi_load_result env of
        None \<Rightarrow> (Inl (RuntimeError ''Could not load input texture!''), app1)
      | Some (w, h) \<Rightarrow>
          let textureSize =
                \<lparr>width = word_of_int w, height = word_of_int h, depthOrArrayLayers = 1\<rparr>;
              textureDesc =
                \<lparr>td_label = ''Input'', td_size = textureSize, td_sampleCount = 1,
                 td_mipLevelCount = 1, td_usage = [TextureBinding, CopyDst]\<rparr>;
              app2 = emit [Create InputTexture] (app1\<lparr>m_inputTexture := Some textureDesc\<rparr>)
          in
          case pow_2_to_u32 (outputSizeLog (m_settings app2)) of
            None \<Rightarrow> (Inl OutOfRangeConversion, app2)
          | Some size' \<Rightarrow>
              let textureDesc' =
                    textureDesc
                      \<lparr>td_size := \<lparr>width = size', height = size', depthOrArrayLayers = 6\<rparr>,
                       td_label := ''Output'',
                       td_usage := [TextureBinding, StorageBinding, CopySrc]\<rparr>;
                  app3 = emit [Create OutputTexture] (app2\<lparr>m_outputTexture := Some textureDesc'\<rparr>)
              in (Inr (),
                  emit [WriteTexture InputTexture 0 textureSize, Call ''stbi_image_free''] app3))"

definition terminateTextures :: "Application \<Rightarrow> Application" where
  "terminateTextures app =
     emit [Destroy InputTexture, Release InputTexture,
           Destroy OutputTexture, Release OutputTexture] app"

definition outputLabels :: "string list" where
  "outputLabels =
     [''Output Positive X'', ''Output Negative X'',
      ''Output Positive Y'', ''Output Negative Y'',
      ''Output Positive Z'', ''Output Negative Z'']"

text \<open>
  \<^verbatim>\<open>for (uint32_t i = 0; i < 6; ++i)\<close> of \<^verbatim>\<open>initTextureViews\<close>: the loop entered at \<open>i\<close> with
  the running descriptor.
\<close>

function createLayerViews ::
  "nat \<Rightarrow> TextureViewDescriptor \<Rightarrow> Application \<Rightarrow> TextureViewDescriptor \<times> Application" where
  "createLayerViews i textureViewDesc app =
     (if i < 6 then
        let d = textureViewDesc\<lparr>tv_label := outputLabels ! i, tv_baseArrayLayer := of_nat i\<rparr> in
        createLayerViews (i + 1) d
          (emit [Create (OutputTextureLayer i)]
             (app\<lparr>m_outputTextureLayers :=
                    (m_outputTextureLayers app)(i := Some (OutputTexture, d))\<rparr>))
      else (textureViewDesc, app))"
  by pat_completeness auto
termination
  by (relation "measure (\<lambda>(i, d, app). 6 - i)") simp_all

declare createLayerViews.simps [simp del]

definition initTextureViews :: "Application \<Rightarrow> Application" where
  "initTextureViews app =
     (let textureViewDesc =
            \<lparr>tv_label = ''Input'', tv_baseArrayLayer = 0, tv_arrayLayerCount = 1,
             tv_dimension = View_2D, tv_baseMipLevel = 0, tv_mipLevelCount = 1\<rparr>;
          app1 = emit [Create InputTextureView]
                   (app\<lparr>m_inputTextureView := Some (InputTexture, textureViewDesc)\<rparr>);
          (d, app2) = createLayerViews 0 textureViewDesc app1;
          d' = d\<lparr>tv_baseArrayLayer := 0, tv_arrayLayerCount := 6, tv_dimension := View_2DArray\<rparr>
      in emit [Create OutputTextureView]
           (app2\<lparr>m_outputTextureView := Some (OutputTexture, d')\<rparr>))"

text \<open>
  \<^verbatim>\<open>for (TextureView v : m_outputTextureLayers) wgpuTextureViewRelease(v);\<close> walks the six
  elements of the array in index order.
\<close>

definition terminateTextureViews :: "Application \<Rightarrow> Application" where
  "terminateTextureViews app =
     emit ([Release InputTextureView, Release OutputTextureView]
           @ map (\<lambda>i. Release (OutputTextureLayer i)) [0, 1, 2, 3, 4, 5]) app"

definition initBindGroup :: "Application \<Rightarrow> Application" where
  "initBindGroup app =
     (let entries =
            [EntryTextureView 0 (m_inputTextureView app),
             EntryTextureView 1 (m_outputTextureView app),
             EntryBuffer 2 UniformBuffer]
      in emit [Create BindGroup] (app\<lparr>m_bindGroup := Some entries\<rparr>))"

definition terminateBindGroup :: "Application \<Rightarrow> Application" where
  "terminateBindGroup app = emit [Release BindGroup] app"

definition initBindGroupLayout :: "Application \<Rightarrow> Application" where
  "initBindGroupLayout app = emit [Create BindGroupLayout] app"

definition terminateBindGroupLayout :: "Application \<Rightarrow> Application" where
  "terminateBindGroupLayout app = emit [Release BindGroupLayout] app"

definition initComputePipeline :: "Application \<Rightarrow> Application" where
  "initComputePipeline app =
     emit [Create ShaderModule, Create PipelineLayout, Create ComputePipeline] app"

definition terminateComputePipeline :: "Application \<Rightarrow> Application" where
  "terminateComputePipeline app = emit [Release ComputePipeline, Release PipelineLayout] app"

section \<open>Application\<close>

text \<open>
  \<^verbatim>\<open>onInit\<close> returns \<^verbatim>\<open>false\<close> as soon as \<^verbatim>\<open>initWindow\<close> or \<^verbatim>\<open>initDevice\<close> does; the exception
  of \<^verbatim>\<open>initTextures\<close> is not caught and leaves \<^verbatim>\<open>onInit\<close> with it.
\<close>

definition onInit :: "Env \<Rightarrow> Application \<Rightarrow> (error + bool) \<times> Application" where
  "onInit env app =
     (case initWindow env app of
        (False, app1) \<Rightarrow> (Inr False, app1)
      | (True, app1) \<Rightarrow>
          (case initDevice env app1 of
             (False, app2) \<Rightarrow> (Inr False, app2)
           | (True, app2) \<Rightarrow>
               (case initTextures env
                       (initBuffers (initComputePipeline (initBindGroupLayout
                          (initGui (initSwapChain app2))))) of
                  (Inl e, app3) \<Rightarrow> (Inl e, app3)
                | (Inr u, app3) \<Rightarrow> (Inr True, initBindGroup (initTextureViews app3)))))"

definition onFinish :: "Env \<Rightarrow> Application \<Rightarrow> Application" where
  "onFinish env app =
     terminateWindow (terminateDevice env (terminateSwapChain (terminateGui
       (terminateBindGroupLayout (terminateComputePipeline (terminateBuffers
          (terminateTextures (terminateTextureViews (terminateBindGroup app)))))))))"

definition shouldCompute :: "Application \<Rightarrow> bool" where
  "shouldCompute app = m_shouldCompute app"

definition onResize :: "Application \<Rightarrow> Application" where
  "onResize app = initSwapChain (terminateSwapChain app)"

section \<open>The GUI\<close>

text \<open>
  What the widgets of one frame report. A widget that returns \<^verbatim>\<open>true\<close> has written a value
  through the pointer it was given (\<open>Some\<close> of that value); one that returns \<^verbatim>\<open>false\<close> has
  left it alone (\<open>None\<close>). The combo box writes the index of the chosen entry of
  \<^verbatim>\<open>"Sum\0Maximum\0Minimum\0"\<close> into \<^verbatim>\<open>m_parameters.filterType\<close>.
\<close>

record GuiInput =
  combo_filterType :: "int option"
  slider_kernelX :: "vec3 option"
  slider_kernelY :: "vec3 option"
  slider_kernelZ :: "vec3 option"
  checkbox_normalize :: "bool option"
  slider_scale :: "f32 option"
  slider_outputSizeLog :: "int option"
  button_saveOutput :: bool

text \<open>\<^verbatim>\<open>changed = Widget(..., &field) || changed;\<close>\<close>

definition edit :: "'a option \<Rightarrow> ('a \<Rightarrow> 'p \<Rightarrow> 'p) \<Rightarrow> 'p \<times> bool \<Rightarrow> 'p \<times> bool" where
  "edit widget write pc =
     (case widget of
        None \<Rightarrow> (fst pc, False \<or> snd pc)
      | Some v \<Rightarrow> (write v (fst pc), True \<or> snd pc))"

definition editParameters :: "GuiInput \<Rightarrow> Parameters \<Rightarrow> Parameters \<times> bool" where
  "editParameters inp p =
     edit (checkbox_normalize inp) (\<lambda>v q. q\<lparr>normalize := v\<rparr>)
       (edit (slider_kernelZ inp)
          (\<lambda>v q. case kernel q of (a, b, c) \<Rightarrow> q\<lparr>kernel := (a, b, set_xyz v c)\<rparr>)
          (edit (slider_kernelY inp)
             (\<lambda>v q. case kernel q of (a, b, c) \<Rightarrow> q\<lparr>kernel := (a, set_xyz v b, c)\<rparr>)
             (edit (slider_kernelX inp)
                (\<lambda>v q. case kernel q of (a, b, c) \<Rightarrow> q\<lparr>kernel := (set_xyz v a, b, c)\<rparr>)
                (edit (combo_filterType inp) (\<lambda>v q. q\<lparr>filterType := v\<rparr>) (p, False)))))"

text \<open>
  \<^verbatim>\<open>float sum = dot(vec4(1.0, 1.0, 1.0, 0.0), m_parameters.kernel * vec3(1.0));\<close>
\<close>

definition kernel_sum :: "mat3x4 \<Rightarrow> f32" where
  "kernel_sum k = dot (Num 1, Num 1, Num 1, Num 0) (mat3x4_times_vec3 k (Num 1, Num 1, Num 1))"

text \<open>
  \<^verbatim>\<open>m_uniforms.kernel = m_parameters.normalize && std::abs(sum) > 1e-6
       ? m_parameters.kernel / sum : m_parameters.kernel;
  m_uniforms.filterType = (uint32_t)m_parameters.filterType;\<close>
\<close>

definition updateUniforms :: "Parameters \<Rightarrow> Uniforms \<Rightarrow> Uniforms" where
  "updateUniforms p u =
     (let sum = kernel_sum (kernel p) in
      u\<lparr>uniforms_kernel :=
           (if normalize p \<and> exceeds_1e_6 (f32_abs sum) then mat3x4_div (kernel p) sum
            else kernel p),
        uniforms_filterType := word_of_int (filterType p)\<rparr>)"

definition outputPaths :: "Env \<Rightarrow> string list" where
  "outputPaths env =
     [RESOURCE_DIR env @ ''/cubemap-posX.png'',
      RESOURCE_DIR env @ ''/cubemap-negX.png'',
      RESOURCE_DIR env @ ''/cubemap-posY.png'',
      RESOURCE_DIR env @ ''/cubemap-negY.png'',
      RESOURCE_DIR env @ ''/cubemap-posZ.png'',
      RESOURCE_DIR env @ ''/cubemap-negZ.png'']"

text \<open>
  \<^verbatim>\<open>for (uint32_t layer = 0; layer < 6; ++layer)
    saveTexture(outputPaths[layer], m_device, m_outputTexture, 0, layer);\<close>
\<close>

function saveLayers :: "Env \<Rightarrow> nat \<Rightarrow> Application \<Rightarrow> Application" where
  "saveLayers env layer app =
     (if layer < 6 then
        saveLayers env (layer + 1)
          (emit [SaveTexture (outputPaths env ! layer) OutputTexture 0 (of_nat layer)] app)
      else app)"
  by pat_completeness auto
termination
  by (relation "measure (\<lambda>(env, layer, app). 6 - layer)") simp_all

declare saveLayers.simps [simp del]

text \<open>
  The "Parameters" window of \<^verbatim>\<open>onGui\<close> and what follows it: the five widgets, the update
  of the uniforms when one of them reported a change, and
  \<^verbatim>\<open>m_shouldCompute = m_shouldCompute || changed;\<close>
\<close>

definition guiParameters :: "GuiInput \<Rightarrow> Application \<Rightarrow> Application" where
  "guiParameters inp app =
     (let (p, changed) = editParameters inp (m_parameters app);
          app1 = app\<lparr>m_parameters := p\<rparr>;
          app2 = (if changed then app1\<lparr>m_uniforms := updateUniforms p (m_uniforms app1)\<rparr>
                  else app1)
      in app2\<lparr>m_shouldCompute := (m_shouldCompute app2 \<or> changed)\<rparr>)"

text \<open>
  The "Settings" window: the scale slider (its result is not tested), the output size
  slider, which raises both flags, and the "Save Output" button.
\<close>

definition guiSettings :: "Env \<Rightarrow> GuiInput \<Rightarrow> Application \<Rightarrow> Application" where
  "guiSettings env inp app =
     (let app1 = (case slider_scale inp of
                    None \<Rightarrow> app
                  | Some v \<Rightarrow> app\<lparr>m_settings := (m_settings app)\<lparr>scale := v\<rparr>\<rparr>);
          app2 = (case slider_outputSizeLog inp of
                    None \<Rightarrow> app1
                  | Some v \<Rightarrow>
                      app1\<lparr>m_settings := (m_settings app1)\<lparr>outputSizeLog := v\<rparr>,
                           m_shouldReallocateTextures := True,
                           m_shouldCompute := True\<rparr>)
      in if button_saveOutput inp then saveLayers env 0 app2 else app2)"

text \<open>
  \<^verbatim>\<open>onGui\<close>. Its first block draws the input image and the six faces (seven
  \<^verbatim>\<open>AddImage\<close> calls) and changes no member.
\<close>

definition onGui :: "Env \<Rightarrow> GuiInput \<Rightarrow> Application \<Rightarrow> Application" where
  "onGui env inp app =
     emit [Call ''ImGui::Render'', Call ''ImGui_ImplWGPU_RenderDrawData'']
       (guiSettings env inp
          (guiParameters inp
             (emit [Call ''ImGui_ImplWGPU_NewFrame'', Call ''ImGui_ImplGlfw_NewFrame'',
                    Call ''ImGui::NewFrame'',
                    Call ''ImDrawList::AddImage'', Call ''ImDrawList::AddImage'',
                    Call ''ImDrawList::AddImage'', Call ''ImDrawList::AddImage'',
                    Call ''ImDrawList::AddImage'', Call ''ImDrawList::AddImage'',
                    Call ''ImDrawList::AddImage''] app)))"

text \<open>
  \<^verbatim>\<open>onFrame\<close>; \<open>nextTexture_ok\<close> says whether the swap chain gave a texture view.
\<close>

definition onFrame :: "Env \<Rightarrow> bool \<Rightarrow> GuiInput \<Rightarrow> Application \<Rightarrow> Application" where
  "onFrame env nextTexture_ok inp app =
     (let app1 = emit [Call ''glfwPollEvents''] app in
      if \<not> nextTexture_ok then
        emit [Log Cerr ''Cannot acquire next swap chain texture''] app1
      else
        let app2 = emit [Create NextTexture, Create CommandEncoder, Create RenderPassEncoder] app1;
            app3 = onGui env inp app2;
            app4 = emit [Call ''RenderPassEncoder::end'', Create CommandBuffer,
                         Call ''Queue::submit'', Call ''SwapChain::present''] app3;
            app5 = (if WEBGPU_BACKEND_WGPU env then app4
                    else emit [Release CommandBuffer, Release CommandEncoder,
                               Release RenderPassEncoder] app4)
        in emit [Release NextTexture,
                 Call (if WEBGPU_BACKEND_WGPU env then ''wgpuQueueSubmit''
                       else ''wgpuDeviceTick'')] app5)"

section \<open>The compute pass\<close>

text \<open>
  The body of the dispatch loop of \<^verbatim>\<open>onCompute\<close>. \<^verbatim>\<open>m_outputTexture.getWidth()\<close> and
  \<^verbatim>\<open>getHeight()\<close> give the size the texture was created with; the counts are computed in
  \<^verbatim>\<open>uint32_t\<close>.
\<close>

definition dispatchBody :: "Application \<Rightarrow> (error + unit) \<times> Application" where
  "dispatchBody app =
     (let app1 = emit [SetBindGroup 0 (m_bindGroup app)] app in
      case m_outputTexture app1 of
        None \<Rightarrow> (Inl (NullHandle ''m_outputTexture''), app1)
      | Some t \<Rightarrow>
          let invocationCountX = width (td_size t);
              invocationCountY = height (td_size t);
              workgroupSizePerDim = (4 :: u32);
              workgroupCountX = (invocationCountX + workgroupSizePerDim - 1) div workgroupSizePerDim;
              workgroupCountY = (invocationCountY + workgroupSizePerDim - 1) div workgroupSizePerDim
          in (Inr (), emit [DispatchWorkgroups workgroupCountX workgroupCountY 1] app1))"

text \<open>\<^verbatim>\<open>for (uint32_t i = 0; i < 1; ++i) { ... }\<close>\<close>

function dispatchLoop :: "nat \<Rightarrow> Application \<Rightarrow> (error + unit) \<times> Application" where
  "dispatchLoop i app =
     (if i < 1 then
        (case dispatchBody app of
           (Inl e, app1) \<Rightarrow> (Inl e, app1)
         | (Inr u, app1) \<Rightarrow> dispatchLoop (i + 1) app1)
      else (Inr (), app))"
  by pat_completeness auto
termination
  by (relation "measure (\<lambda>(i, app). 1 - i)") simp_all

declare dispatchLoop.simps [simp del]

definition reallocateTextures :: "Env \<Rightarrow> Application \<Rightarrow> (error + unit) \<times> Application" where
  "reallocateTextures env app =
     (if m_shouldReallocateTextures app then
        (case initTextures env
                (terminateTextures (terminateTextureViews (terminateBindGroup app))) of
           (Inl e, app1) \<Rightarrow> (Inl e, app1)
         | (Inr u, app1) \<Rightarrow>
             (Inr (), (initBindGroup (initTextureViews app1))
                         \<lparr>m_shouldReallocateTextures := False\<rparr>))
      else (Inr (), app))"

definition onCompute :: "Env \<Rightarrow> Application \<Rightarrow> (error + unit) \<times> Application" where
  "onCompute env app =
     (case reallocateTextures env (emit [Log Cout ''Computing...''] app) of
        (Inl e, app1) \<Rightarrow> (Inl e, app1)
      | (Inr u, app1) \<Rightarrow>
          (case dispatchLoop 0
                  (emit [WriteBuffer UniformBuffer, Create CommandEncoder,
                         Create ComputePassEncoder, SetPipeline ComputePipeline] app1) of
             (Inl e, app2) \<Rightarrow> (Inl e, app2)
           | (Inr u, app2) \<Rightarrow>
               (Inr (),
                (emit ([Call ''ComputePassEncoder::end'', Create CommandBuffer,
                        Call ''Queue::submit'']
                       @ (if WEBGPU_BACKEND_WGPU env then []
                          else [Release CommandBuffer, Release CommandEncoder,
                                Release ComputePassEncoder])) app2)
                  \<lparr>m_shouldCompute := False\<rparr>)))"

section \<open>The application as a state machine\<close>

text \<open>
  The member functions that can run on an \<^verbatim>\<open>Application\<close>, with what the outside answers
  during the call, and the state each leaves (also when it leaves by an exception).
\<close>

datatype operation =
    OnInit
  | OnFinish
  | IsRunning
  | ShouldCompute
  | OnFrame bool GuiInput
  | OnGui GuiInput
  | OnCompute
  | OnResize

fun run :: "Env \<Rightarrow> operation \<Rightarrow> Application \<Rightarrow> Application" where
  "run env OnInit app = snd (onInit env app)"
| "run env OnFinish app = onFinish env app"
| "run env IsRunning app = emit [Call ''glfwWindowShouldClose''] app"
| "run env ShouldCompute app = app"
| "run env (OnFrame nextTexture_ok inp) app = onFrame env nextTexture_ok inp app"
| "run env (OnGui inp) app = onGui env inp app"
| "run env OnCompute app = snd (onCompute env app)"
| "run env OnResize app = onResize app"

section \<open>Reading a trace\<close>

definition dispatches :: "call list \<Rightarrow> (u32 \<times> u32 \<times> u32) list" where
  "dispatches =
     List.map_filter (\<lambda>c. case c of DispatchWorkgroups x y z \<Rightarrow> Some (x, y, z) | _ \<Rightarrow> None)"

definition boundGroups :: "call list \<Rightarrow> (u32 \<times> BindGroupEntry list option) list" where
  "boundGroups =
     List.map_filter (\<lambda>c. case c of SetBindGroup i g \<Rightarrow> Some (i, g) | _ \<Rightarrow> None)"

definition saved :: "call list \<Rightarrow> (string \<times> handle \<times> u32 \<times> u32) list" where
  "saved =
     List.map_filter (\<lambda>c. case c of SaveTexture p t m l \<Rightarrow> Some (p, t, m, l) | _ \<Rightarrow> None)"

definition logged :: "call list \<Rightarrow> (stream \<times> string) list" where
  "logged = List.map_filter (\<lambda>c. case c of Log s m \<Rightarrow> Some (s, m) | _ \<Rightarrow> None)"

definition created :: "call list \<Rightarrow> handle list" where
  "created = List.map_filter (\<lambda>c. case c of Create h \<Rightarrow> Some h | _ \<Rightarrow> None)"

definition released :: "call list \<Rightarrow> handle list" where
  "released = List.map_filter (\<lambda>c. case c of Release h \<Rightarrow> Some h | _ \<Rightarrow> None)"

text \<open>
  The bind group gives the shader all six faces when its binding 1 is a view of the output
  texture as an array of the layers 0 to 5 (what \<^verbatim>\<open>initTextureViews\<close> stores in
  \<^verbatim>\<open>m_outputTextureView\<close>).
\<close>

fun bindsSixFaces :: "BindGroupEntry list option \<Rightarrow> bool" where
  "bindsSixFaces (Some [EntryTextureView b0 v0, EntryTextureView b1 (Some (t, d)), EntryBuffer b2 u]) =
     (b1 = 1 \<and> t = OutputTexture \<and> tv_dimension d = View_2DArray
      \<and> tv_baseArrayLayer d = 0 \<and> tv_arrayLayerCount d = 6)"
| "bindsSixFaces g = False"

text \<open>A run of the application: member functions called one after the other.\<close>

fun runAll :: "(Env \<times> operation) list \<Rightarrow> Application \<Rightarrow> Application" where
  "runAll [] app = app"
| "runAll ((env, op) # ops) app = runAll ops (run env op app)"

section \<open>A concrete run\<close>

text \<open>
  A build and an outside world in which every request succeeds and the equirectangular
  image is 2048 by 1024, and an \<^verbatim>\<open>Application\<close> before \<^verbatim>\<open>onInit\<close>. The member initialisers
  are in the header, which the source includes; the values here (a diagonal kernel,
  normalisation on, output size \<open>2\<^sup>9\<close>) stand for them. The theorems hold for every build,
  world and state; these serve as the input of their instances.
\<close>

definition exampleEnv :: Env where
  "exampleEnv =
     \<lparr>RESOURCE_DIR = ''resources'', WEBGPU_BACKEND_WGPU = True,
      glfwInit_ok = True, glfwCreateWindow_ok = True, createInstance_ok = True,
      requestAdapter_ok = True, requestDevice_ok = True,
      stbi_load_result = Some (2048, 1024)\<rparr>"

definition exampleApp :: Application where
  "exampleApp =
     \<lparr>m_shouldCompute = True,
      m_shouldReallocateTextures = False,
      m_parameters =
        \<lparr>filterType = 0, kernel = ((Num 1, Num 0, Num 0, Num 0), (Num 0, Num 1, Num 0, Num 0), (Num 0, Num 0, Num 1, Num 0)), normalize = True\<rparr>,
      m_uniforms =
        \<lparr>uniforms_kernel = ((Num 1, Num 0, Num 0, Num 0), (Num 0, Num 1, Num 0, Num 0), (Num 0, Num 0, Num 1, Num 0)), uniforms_filterType = 0\<rparr>,
      m_settings = \<lparr>scale = Num (1 / 2), outputSizeLog = 9\<rparr>,
      m_inputTexture = None,
      m_outputTexture = None,
      m_inputTextureView = None,
      m_outputTextureLayers = (\<lambda>i. None),
      m_outputTextureView = None,
      m_bindGroup = None,
      trace = []\<rparr>"

text \<open>No widget touched in a frame.\<close>

definition idleGui :: GuiInput where
  "idleGui =
     \<lparr>combo_filterType = None, slider_kernelX = None, slider_kernelY = None,
      slider_kernelZ = None, checkbox_normalize = None, slider_scale = None,
      slider_outputSizeLog = None, button_saveOutput = False\<rparr>"

text \<open>The example application once \<^verbatim>\<open>onInit\<close> has run in the example world.\<close>

definition exampleReady :: Application where
  "exampleReady = snd (onInit exampleEnv exampleApp)"

section \<open>Creation and release order\<close>

text \<open>The function of \<^verbatim>\<open>onInit\<close> that creates a handle; the objects of a single frame or compute pass apart.\<close>

datatype stage =
    WindowStage | DeviceStage | SwapChainStage | GuiStage
  | BindGroupLayoutStage | ComputePipelineStage | BuffersStage
  | TexturesStage | TextureViewsStage | BindGroupStage
  | PassStage

fun stage_of :: "handle \<Rightarrow> stage" where
  "stage_of GlfwLibrary = WindowStage"
| "stage_of Window = WindowStage"
| "stage_of Instance = DeviceStage"
| "stage_of Surface = DeviceStage"
| "stage_of Adapter = DeviceStage"
| "stage_of Device = DeviceStage"
| "stage_of Queue = DeviceStage"
| "stage_of SwapChain = SwapChainStage"
| "stage_of ImGuiContext = GuiStage"
| "stage_of ImGuiGlfwBackend = GuiStage"
| "stage_of ImGuiWgpuBackend = GuiStage"
| "stage_of BindGroupLayout = BindGroupLayoutStage"
| "stage_of ShaderModule = ComputePipelineStage"
| "stage_of PipelineLayout = ComputePipelineStage"
| "stage_of ComputePipeline = ComputePipelineStage"
| "stage_of UniformBuffer = BuffersStage"
| "stage_of InputTexture = TexturesStage"
| "stage_of OutputTexture = TexturesStage"
| "stage_of InputTextureView = TextureViewsStage"
| "stage_of (OutputTextureLayer i) = TextureViewsStage"
| "stage_of OutputTextureView = TextureViewsStage"
| "stage_of BindGroup = BindGroupStage"
| "stage_of CommandEncoder = PassStage"
| "stage_of ComputePassEncoder = PassStage"
| "stage_of RenderPassEncoder = PassStage"
| "stage_of CommandBuffer = PassStage"
| "stage_of NextTexture = PassStage"

text \<open>
  The objects named in the call or the descriptor that creates a handle: the bind group is
  built from its layout, the two texture views it binds and the uniform buffer; a view from
  its texture; the pipeline from its layout and the shader module; and so on down to the
  window library.
\<close>

fun built_from :: "handle \<Rightarrow> handle list" where
  "built_from BindGroup = [Device, BindGroupLayout, InputTextureView, OutputTextureView, UniformBuffer]"
| "built_from InputTextureView = [InputTexture]"
| "built_from (OutputTextureLayer i) = [OutputTexture]"
| "built_from OutputTextureView = [OutputTexture]"
| "built_from InputTexture = [Device]"
| "built_from OutputTexture = [Device]"
| "built_from UniformBuffer = [Device]"
| "built_from ComputePipeline = [Device, ShaderModule, PipelineLayout]"
| "built_from PipelineLayout = [Device, BindGroupLayout]"
| "built_from ShaderModule = [Device]"
| "built_from BindGroupLayout = [Device]"
| "built_from ImGuiWgpuBackend = [Device]"
| "built_from ImGuiGlfwBackend = [Window]"
| "built_from ImGuiContext = []"
| "built_from SwapChain = [Device, Surface]"
| "built_from Queue = [Device]"
| "built_from Device = [Adapter]"
| "built_from Adapter = [Instance, Surface]"
| "built_from Surface = [Instance, Window]"
| "built_from Instance = []"
| "built_from Window = [GlfwLibrary]"
| "built_from GlfwLibrary = []"
| "built_from CommandEncoder = [Device]"
| "built_from ComputePassEncoder = [CommandEncoder]"
| "built_from RenderPassEncoder = [CommandEncoder, NextTexture]"
| "built_from CommandBuffer = [CommandEncoder]"
| "built_from NextTexture = [SwapChain]"

text \<open>
  A sequence of releases in which nothing is released after an object it was built from:
  no handle released later in the sequence was built from the one released now.
\<close>

fun dependantsFirst :: "handle list \<Rightarrow> bool" where
  "dependantsFirst [] = True"
| "dependantsFirst (h # hs) = ((\<forall>b \<in> set hs. h \<notin> set (built_from b)) \<and> dependantsFirst hs)"

text \<open>
  What the example run creates in \<^verbatim>\<open>onInit\<close> and what it releases in an \<^verbatim>\<open>onFinish\<close> that
  follows at once, each in the order of the calls.
\<close>

definition exampleCreated :: "handle list" where
  "exampleCreated = created (since exampleApp exampleReady)"

definition exampleReleased :: "handle list" where
  "exampleReleased = released (since exampleReady (onFinish exampleEnv exampleReady))"

section \<open>The normalisation as the specification words it\<close>

text \<open>
  The specification's sentence on the kernel, for comparison with \<open>updateUniforms\<close>: the
  kernel is divided by the sum of the relevant components of its first two rows when
  normalisation is enabled and that sum exceeds \<open>10\<^sup>-\<^sup>6\<close>, and is taken unchanged otherwise.
  The sentence does not say which way the rows run. \<open>first_two_rows\<close> takes the rows of the
  matrix (the x and the y components of the three columns); \<open>first_two_sliders\<close> takes the
  rows of the GUI ("Kernel X" and "Kernel Y", the x, y, z components of \<^verbatim>\<open>kernel[0]\<close> and
  \<^verbatim>\<open>kernel[1]\<close>). Nor does it say in which order the six floats are added: here each row
  from left to right, then the two row sums.
\<close>

fun first_two_rows :: "mat3x4 \<Rightarrow> f32" where
  "first_two_rows ((a0, a1, a2, a3), (b0, b1, b2, b3), (c0, c1, c2, c3)) =
     f32_add (f32_add (f32_add a0 b0) c0) (f32_add (f32_add a1 b1) c1)"

fun first_two_sliders :: "mat3x4 \<Rightarrow> f32" where
  "first_two_sliders ((a0, a1, a2, a3), (b0, b1, b2, b3), (c0, c1, c2, c3)) =
     f32_add (f32_add (f32_add a0 a1) a2) (f32_add (f32_add b0 b1) b2)"

definition spec_uniform_kernel :: "(mat3x4 \<Rightarrow> f32) \<Rightarrow> Parameters \<Rightarrow> mat3x4" where
  "spec_uniform_kernel rows p =
     (if normalize p \<and> exceeds_1e_6 (rows (kernel p))
      then mat3x4_div (kernel p) (rows (kernel p))
      else kernel p)"

text \<open>
  Three frames of the GUI on the example application: the "Normalize" box is unticked;
  the three kernel sliders, which then range over \<open>[-2, 2]\<close>, are set to \<open>-1\<close>; the box is
  ticked again. And a frame that chooses "Maximum" in the combo box.
\<close>

definition untickNormalize :: GuiInput where
  "untickNormalize = idleGui\<lparr>checkbox_normalize := Some False\<rparr>"

definition slideKernelDown :: GuiInput where
  "slideKernelDown =
     idleGui\<lparr>slider_kernelX := Some (Num (- 1), Num (- 1), Num (- 1)),
             slider_kernelY := Some (Num (- 1), Num (- 1), Num (- 1)),
             slider_kernelZ := Some (Num (- 1), Num (- 1), Num (- 1))\<rparr>"

definition tickNormalize :: GuiInput where
  "tickNormalize = idleGui\<lparr>checkbox_normalize := Some True\<rparr>"

definition chooseMaximum :: GuiInput where
  "chooseMaximum = idleGui\<lparr>combo_filterType := Some 1\<rparr>"

definition negativeKernelApp :: Application where
  "negativeKernelApp =
     onGui exampleEnv tickNormalize
       (onGui exampleEnv slideKernelDown (onGui exampleEnv untickNormalize exampleReady))"

text \<open>
  A frame that sets the kernel sliders, with normalisation on, to two small numbers and
  zeros: \<open>8796093 \<times> 2\<^sup>-\<^sup>4\<^sup>3\<close>, the largest float below \<open>10\<^sup>-\<^sup>6\<close>, and \<open>2\<^sup>-\<^sup>4\<^sup>6\<close>, an eighth of the
  distance to the next float. Their exact sum exceeds \<open>10\<^sup>-\<^sup>6\<close>; their sum as floats is the
  first of them.
\<close>

definition slideKernelTiny :: GuiInput where
  "slideKernelTiny =
     idleGui\<lparr>slider_kernelX := Some (Num (8796093 / 2 ^ 43), Num (1 / 2 ^ 46), Num 0),
             slider_kernelY := Some (Num 0, Num 0, Num 0),
             slider_kernelZ := Some (Num 0, Num 0, Num 0)\<rparr>"

section \<open>Traces and members\<close>

text \<open>\<open>emit\<close> appends to the trace and touches no member.\<close>

lemma emit_fields [simp]:
  "trace (emit cs app) = trace app @ cs"
  "m_shouldCompute (emit cs app) = m_shouldCompute app"
  "m_shouldReallocateTextures (emit cs app) = m_shouldReallocateTextures app"
  "m_parameters (emit cs app) = m_parameters app"
  "m_uniforms (emit cs app) = m_uniforms app"
  "m_settings (emit cs app) = m_settings app"
  "m_inputTexture (emit cs app) = m_inputTexture app"
  "m_outputTexture (emit cs app) = m_outputTexture app"
  "m_inputTextureView (emit cs app) = m_inputTextureView app"
  "m_outputTextureLayers (emit cs app) = m_outputTextureLayers app"
  "m_outputTextureView (emit cs app) = m_outputTextureView app"
  "m_bindGroup (emit cs app) = m_bindGroup app"
  by (simp_all add: emit_def)

lemma since_append: "trace app' = trace app @ cs \<Longrightarrow> since app app' = cs"
  by (simp add: since_def)

lemma dispatches_simps [simp]:
  "dispatches [] = []"
  "dispatches (xs @ ys) = dispatches xs @ dispatches ys"
  "dispatches (c # cs) =
     (case c of DispatchWorkgroups x y z \<Rightarrow> [(x, y, z)] | _ \<Rightarrow> []) @ dispatches cs"
  by (simp_all add: dispatches_def List.map_filter_def split: call.splits)

lemma boundGroups_simps [simp]:
  "boundGroups [] = []"
  "boundGroups (xs @ ys) = boundGroups xs @ boundGroups ys"
  "boundGroups (c # cs) = (case c of SetBindGroup i g \<Rightarrow> [(i, g)] | _ \<Rightarrow> []) @ boundGroups cs"
  by (simp_all add: boundGroups_def List.map_filter_def split: call.splits)

lemma saved_simps [simp]:
  "saved [] = []"
  "saved (xs @ ys) = saved xs @ saved ys"
  "saved (c # cs) = (case c of SaveTexture p t m l \<Rightarrow> [(p, t, m, l)] | _ \<Rightarrow> []) @ saved cs"
  by (simp_all add: saved_def List.map_filter_def split: call.splits)

lemma logged_simps [simp]:
  "logged [] = []"
  "logged (xs @ ys) = logged xs @ logged ys"
  "logged (c # cs) = (case c of Log s m \<Rightarrow> [(s, m)] | _ \<Rightarrow> []) @ logged cs"
  by (simp_all add: logged_def List.map_filter_def split: call.splits)

lemma created_simps [simp]:
  "created [] = []"
  "created (xs @ ys) = created xs @ created ys"
  "created (c # cs) = (case c of Create h \<Rightarrow> [h] | _ \<Rightarrow> []) @ created cs"
  by (simp_all add: created_def List.map_filter_def split: call.splits)

lemma released_simps [simp]:
  "released [] = []"
  "released (xs @ ys) = released xs @ released ys"
  "released (c # cs) = (case c of Release h \<Rightarrow> [h] | _ \<Rightarrow> []) @ released cs"
  by (simp_all add: released_def List.map_filter_def split: call.splits)

section \<open>The loops\<close>

lemma dispatchLoop_0:
  "dispatchLoop 0 app =
     (case dispatchBody app of
        (Inl e, app1) \<Rightarrow> (Inl e, app1)
      | (Inr u, app1) \<Rightarrow> (Inr (), app1))"
  by (simp add: dispatchLoop.simps split: prod.splits sum.splits)

lemma createLayerViews_trace:
  "trace (snd (createLayerViews i d app)) =
     trace app @ map (\<lambda>j. Create (OutputTextureLayer j)) [i..<6]"
proof (induction i d app rule: createLayerViews.induct)
  case (1 i d app)
  show ?case
  proof (cases "i < 6")
    case True
    with 1 show ?thesis
      by (subst createLayerViews.simps) (simp add: Let_def upt_conv_Cons)
  next
    case False
    then show ?thesis by (subst createLayerViews.simps) simp
  qed
qed

lemma createLayerViews_fields:
  "m_shouldCompute (snd (createLayerViews i d app)) = m_shouldCompute app"
  "m_shouldReallocateTextures (snd (createLayerViews i d app)) = m_shouldReallocateTextures app"
  "m_outputTexture (snd (createLayerViews i d app)) = m_outputTexture app"
  "m_inputTexture (snd (createLayerViews i d app)) = m_inputTexture app"
  "m_inputTextureView (snd (createLayerViews i d app)) = m_inputTextureView app"
  "m_settings (snd (createLayerViews i d app)) = m_settings app"
  "m_parameters (snd (createLayerViews i d app)) = m_parameters app"
  "m_uniforms (snd (createLayerViews i d app)) = m_uniforms app"
  "m_bindGroup (snd (createLayerViews i d app)) = m_bindGroup app"
  by (induction i d app rule: createLayerViews.induct;
      subst createLayerViews.simps; simp add: Let_def)+

section \<open>Textures, views and the bind group\<close>

lemma initTextureViews_trace:
  "trace (initTextureViews app) =
     trace app @ [Create InputTextureView] @ map (\<lambda>j. Create (OutputTextureLayer j)) [0..<6]
       @ [Create OutputTextureView]"
  by (simp add: initTextureViews_def Let_def case_prod_beta createLayerViews_trace)

lemma initTextureViews_fields:
  "m_shouldCompute (initTextureViews app) = m_shouldCompute app"
  "m_shouldReallocateTextures (initTextureViews app) = m_shouldReallocateTextures app"
  "m_outputTexture (initTextureViews app) = m_outputTexture app"
  "m_inputTexture (initTextureViews app) = m_inputTexture app"
  "m_settings (initTextureViews app) = m_settings app"
  "m_parameters (initTextureViews app) = m_parameters app"
  "m_uniforms (initTextureViews app) = m_uniforms app"
  "m_bindGroup (initTextureViews app) = m_bindGroup app"
  by (simp_all add: initTextureViews_def Let_def case_prod_beta createLayerViews_fields)

lemma initTextureViews_outputView:
  "\<exists>d. m_outputTextureView (initTextureViews app) = Some (OutputTexture, d)
       \<and> tv_dimension d = View_2DArray \<and> tv_baseArrayLayer d = 0 \<and> tv_arrayLayerCount d = 6"
  by (simp add: initTextureViews_def Let_def case_prod_beta)

text \<open>What \<^verbatim>\<open>initTextures\<close> leaves when it returns, and when it does not.\<close>

lemma initTextures_Inr:
  assumes "initTextures env app = (Inr u, app')"
  shows "\<exists>w h sz. stbi_load_result env = Some (w, h)
     \<and> pow_2_to_u32 (outputSizeLog (m_settings app)) = Some sz
     \<and> app' = app
         \<lparr>m_inputTexture := Some
            \<lparr>td_label = ''Input'',
             td_size = \<lparr>width = word_of_int w, height = word_of_int h, depthOrArrayLayers = 1\<rparr>,
             td_sampleCount = 1, td_mipLevelCount = 1, td_usage = [TextureBinding, CopyDst]\<rparr>,
          m_outputTexture := Some
            \<lparr>td_label = ''Output'',
             td_size = \<lparr>width = sz, height = sz, depthOrArrayLayers = 6\<rparr>,
             td_sampleCount = 1, td_mipLevelCount = 1,
             td_usage = [TextureBinding, StorageBinding, CopySrc]\<rparr>,
          trace := trace app @
            [Call ''stbi_load'', Create InputTexture, Create OutputTexture,
             WriteTexture InputTexture 0
               \<lparr>width = word_of_int w, height = word_of_int h, depthOrArrayLayers = 1\<rparr>,
             Call ''stbi_image_free'']\<rparr>"
  using assms
  by (auto simp: initTextures_def emit_def Let_def split: option.splits prod.splits)

lemma initTextures_Inl:
  assumes "initTextures env app = (Inl e, app')"
  shows "m_bindGroup app' = m_bindGroup app \<and> m_shouldCompute app' = m_shouldCompute app
     \<and> m_shouldReallocateTextures app' = m_shouldReallocateTextures app
     \<and> (\<exists>cs. trace app' = trace app @ cs \<and> dispatches cs = [] \<and> boundGroups cs = []
          \<and> logged cs = [] \<and> released cs = [])"
  using assms
  by (auto simp: initTextures_def emit_def Let_def split: option.splits prod.splits)

section \<open>The compute pass, step by step\<close>

lemma initBindGroup_sixFaces: "bindsSixFaces (m_bindGroup (initBindGroup (initTextureViews app)))"
  using initTextureViews_outputView [of app]
  by (auto simp: initBindGroup_def Let_def)

lemma reallocateTextures_Inr:
  assumes "reallocateTextures env a = (Inr u, a1)"
  shows "\<not> m_shouldReallocateTextures a1 \<and> m_shouldCompute a1 = m_shouldCompute a
     \<and> (bindsSixFaces (m_bindGroup a) \<longrightarrow> bindsSixFaces (m_bindGroup a1))
     \<and> (\<exists>cs. trace a1 = trace a @ cs \<and> dispatches cs = [] \<and> boundGroups cs = [])"
proof (cases "m_shouldReallocateTextures a")
  case False
  with assms show ?thesis by (auto simp: reallocateTextures_def)
next
  case True
  let ?b = "terminateTextures (terminateTextureViews (terminateBindGroup a))"
  from True assms obtain a0 where i: "initTextures env ?b = (Inr (), a0)"
    and a1: "a1 = (initBindGroup (initTextureViews a0))\<lparr>m_shouldReallocateTextures := False\<rparr>"
    by (auto simp: reallocateTextures_def split: prod.splits sum.splits)
  from initTextures_Inr [OF i] obtain cs0 where
    t0: "trace a0 = trace ?b @ cs0" and d0: "dispatches cs0 = []" "boundGroups cs0 = []"
    and c0: "m_shouldCompute a0 = m_shouldCompute ?b"
    by auto
  have tb: "trace ?b = trace a @ [Release BindGroup, Release InputTextureView, Release OutputTextureView,
      Release (OutputTextureLayer 0), Release (OutputTextureLayer 1), Release (OutputTextureLayer 2),
      Release (OutputTextureLayer 3), Release (OutputTextureLayer 4), Release (OutputTextureLayer 5),
      Destroy InputTexture, Release InputTexture, Destroy OutputTexture, Release OutputTexture]"
    and cb: "m_shouldCompute ?b = m_shouldCompute a"
    by (simp_all add: terminateTextures_def terminateTextureViews_def terminateBindGroup_def)
  have t1: "trace a1 = trace a0 @ [Create InputTextureView] @ map (\<lambda>j. Create (OutputTextureLayer j)) [0..<6]
       @ [Create OutputTextureView] @ [Create BindGroup]"
    by (simp add: a1 initBindGroup_def Let_def initTextureViews_trace)
  have dd: "dispatches (map (\<lambda>j. Create (OutputTextureLayer j)) xs) = []"
       "boundGroups (map (\<lambda>j. Create (OutputTextureLayer j)) xs) = []" for xs
    by (induction xs) simp_all
  have "m_shouldCompute a1 = m_shouldCompute a"
    by (simp add: a1 initBindGroup_def Let_def initTextureViews_fields c0 cb)
  moreover have "bindsSixFaces (m_bindGroup a1)"
    using initBindGroup_sixFaces [of a0] by (simp add: a1)
  moreover have "\<not> m_shouldReallocateTextures a1" by (simp add: a1)
  moreover have "\<exists>cs. trace a1 = trace a @ cs \<and> dispatches cs = [] \<and> boundGroups cs = []"
  proof -
    let ?rel = "[Release BindGroup, Release InputTextureView, Release OutputTextureView,
      Release (OutputTextureLayer 0), Release (OutputTextureLayer 1), Release (OutputTextureLayer 2),
      Release (OutputTextureLayer 3), Release (OutputTextureLayer 4), Release (OutputTextureLayer 5),
      Destroy InputTexture, Release InputTexture, Destroy OutputTexture, Release OutputTexture]"
    let ?cs = "?rel @ cs0 @ [Create InputTextureView]
       @ map (\<lambda>j. Create (OutputTextureLayer j)) [0..<6] @ [Create OutputTextureView, Create BindGroup]"
    have "trace a1 = trace a @ ?cs" unfolding t1 t0 tb by simp
    moreover have "dispatches ?cs = []" using d0 dd by simp
    moreover have "boundGroups ?cs = []" using d0 dd by simp
    ultimately show ?thesis by blast
  qed
  ultimately show ?thesis by simp
qed

lemma reallocateTextures_Inl:
  assumes "reallocateTextures env a = (Inl e, a1)"
  shows "m_bindGroup a1 = m_bindGroup a \<and> m_shouldCompute a1 = m_shouldCompute a
     \<and> m_shouldReallocateTextures a1 = m_shouldReallocateTextures a"
proof -
  let ?b = "terminateTextures (terminateTextureViews (terminateBindGroup a))"
  from assms have i: "initTextures env ?b = (Inl e, a1)"
    by (auto simp: reallocateTextures_def split: prod.splits sum.splits if_splits)
  from initTextures_Inl [OF i] show ?thesis
    by (simp add: terminateTextures_def terminateTextureViews_def terminateBindGroup_def)
qed

lemma dispatchBody_Inr:
  assumes "dispatchBody a = (Inr u, a')"
  shows "\<exists>t. m_outputTexture a = Some t
     \<and> a' = emit [SetBindGroup 0 (m_bindGroup a),
                  DispatchWorkgroups ((width (td_size t) + 4 - 1) div 4)
                    ((height (td_size t) + 4 - 1) div 4) 1] a"
  using assms by (auto simp: dispatchBody_def Let_def emit_def split: option.splits)

lemma dispatchBody_Inl:
  assumes "dispatchBody a = (Inl e, a')"
  shows "a' = emit [SetBindGroup 0 (m_bindGroup a)] a"
  using assms by (auto simp: dispatchBody_def Let_def emit_def split: option.splits)

lemma onCompute_Inr:
  assumes "onCompute env app = (Inr u, app')"
  shows "\<exists>a1 t pre post.
       reallocateTextures env (emit [Log Cout ''Computing...''] app) = (Inr (), a1)
     \<and> m_outputTexture a1 = Some t
     \<and> m_outputTexture app' = Some t \<and> m_bindGroup app' = m_bindGroup a1
     \<and> \<not> m_shouldCompute app' \<and> \<not> m_shouldReallocateTextures app'
     \<and> since app app' =
         pre @ [SetBindGroup 0 (m_bindGroup a1),
                DispatchWorkgroups ((width (td_size t) + 4 - 1) div 4)
                  ((height (td_size t) + 4 - 1) div 4) 1] @ post
     \<and> dispatches pre = [] \<and> boundGroups pre = []
     \<and> dispatches post = [] \<and> boundGroups post = []"
proof -
  let ?a0 = "emit [Log Cout ''Computing...''] app"
  from assms obtain a1 where r: "reallocateTextures env ?a0 = (Inr (), a1)"
    by (auto simp: onCompute_def split: prod.splits sum.splits)
  let ?a2 = "emit [WriteBuffer UniformBuffer, Create CommandEncoder,
                   Create ComputePassEncoder, SetPipeline ComputePipeline] a1"
  from assms r obtain a3 where l: "dispatchLoop 0 ?a2 = (Inr (), a3)"
    by (auto simp: onCompute_def split: prod.splits sum.splits)
  let ?post = "[Call ''ComputePassEncoder::end'', Create CommandBuffer, Call ''Queue::submit'']
                @ (if WEBGPU_BACKEND_WGPU env then []
                   else [Release CommandBuffer, Release CommandEncoder, Release ComputePassEncoder])"
  from assms r l have app': "app' = (emit ?post a3)\<lparr>m_shouldCompute := False\<rparr>"
    by (simp add: onCompute_def)
  from l have "dispatchBody ?a2 = (Inr (), a3)"
    by (auto simp: dispatchLoop_0 split: prod.splits sum.splits)
  from dispatchBody_Inr [OF this] obtain t where t: "m_outputTexture a1 = Some t"
    and a3: "a3 = emit [SetBindGroup 0 (m_bindGroup a1),
                  DispatchWorkgroups ((width (td_size t) + 4 - 1) div 4)
                    ((height (td_size t) + 4 - 1) div 4) 1] ?a2"
    by auto
  from reallocateTextures_Inr [OF r] obtain cs where
    nr: "\<not> m_shouldReallocateTextures a1"
    and cs: "trace a1 = trace ?a0 @ cs" "dispatches cs = []" "boundGroups cs = []"
    by auto
  let ?pre = "[Log Cout ''Computing...''] @ cs @ [WriteBuffer UniformBuffer, Create CommandEncoder,
                   Create ComputePassEncoder, SetPipeline ComputePipeline]"
  have "trace app' = trace app @ (?pre @ [SetBindGroup 0 (m_bindGroup a1),
                DispatchWorkgroups ((width (td_size t) + 4 - 1) div 4)
                  ((height (td_size t) + 4 - 1) div 4) 1] @ ?post)"
    by (simp add: app' a3 cs(1))
  then have s: "since app app' = ?pre @ [SetBindGroup 0 (m_bindGroup a1),
                DispatchWorkgroups ((width (td_size t) + 4 - 1) div 4)
                  ((height (td_size t) + 4 - 1) div 4) 1] @ ?post"
    by (rule since_append)
  have pre: "dispatches ?pre = []" "boundGroups ?pre = []" using cs by simp_all
  have post: "dispatches ?post = []" "boundGroups ?post = []" by simp_all
  have f: "m_outputTexture app' = Some t" "m_bindGroup app' = m_bindGroup a1"
    "\<not> m_shouldCompute app'" "\<not> m_shouldReallocateTextures app'"
    using t nr by (simp_all add: app' a3)
  from r t f s pre post show ?thesis by blast
qed

lemma reallocateTextures_outputTexture:
  assumes "reallocateTextures env a = (Inr u, a1)"
  shows "(\<not> m_shouldReallocateTextures a \<longrightarrow> m_outputTexture a1 = m_outputTexture a)
     \<and> (m_shouldReallocateTextures a \<longrightarrow>
          (\<exists>sz. pow_2_to_u32 (outputSizeLog (m_settings a)) = Some sz
             \<and> m_outputTexture a1 = Some
                 \<lparr>td_label = ''Output'',
                  td_size = \<lparr>width = sz, height = sz, depthOrArrayLayers = 6\<rparr>,
                  td_sampleCount = 1, td_mipLevelCount = 1,
                  td_usage = [TextureBinding, StorageBinding, CopySrc]\<rparr>))"
proof (cases "m_shouldReallocateTextures a")
  case False
  with assms show ?thesis by (auto simp: reallocateTextures_def)
next
  case True
  let ?b = "terminateTextures (terminateTextureViews (terminateBindGroup a))"
  from True assms obtain a0 where i: "initTextures env ?b = (Inr (), a0)"
    and a1: "a1 = (initBindGroup (initTextureViews a0))\<lparr>m_shouldReallocateTextures := False\<rparr>"
    by (auto simp: reallocateTextures_def split: prod.splits sum.splits)
  have s: "m_settings ?b = m_settings a"
    by (simp add: terminateTextures_def terminateTextureViews_def terminateBindGroup_def)
  from initTextures_Inr [OF i] obtain sz where
    "pow_2_to_u32 (outputSizeLog (m_settings ?b)) = Some sz"
    and "m_outputTexture a0 = Some
                 \<lparr>td_label = ''Output'',
                  td_size = \<lparr>width = sz, height = sz, depthOrArrayLayers = 6\<rparr>,
                  td_sampleCount = 1, td_mipLevelCount = 1,
                  td_usage = [TextureBinding, StorageBinding, CopySrc]\<rparr>"
    by auto
  with True s show ?thesis
    by (simp add: a1 initBindGroup_def Let_def initTextureViews_fields)
qed

section \<open>Ceiling division in 32 bits\<close>

lemma ceil_div_4: "(n + 3) div 4 = nat \<lceil>real n / 4\<rceil>" for n :: nat
proof -
  have "\<lceil>real n / 4\<rceil> = \<lceil>of_int (int n) / (of_int 4 :: real)\<rceil>" by simp
  also have "\<dots> = - (- int n div 4)" by (rule ceiling_divide_eq_div)
  finally have "\<lceil>real n / 4\<rceil> = - (- int n div 4)" .
  moreover have "- (- int n div 4) = int ((n + 3) div 4)" by (simp add: zdiv_int)
  ultimately show ?thesis by simp
qed

lemma unat_workgroup_count:
  fixes W :: u32
  assumes "unat W \<le> 2 ^ 32 - 4"
  shows "unat ((W + 4 - 1) div 4) = (unat W + 3) div 4"
proof -
  have e: "W + 4 - 1 = W + 3" by simp
  have "unat (W + 3) = unat W + unat (3 :: u32)"
    using assms by (intro unat_add_lem [THEN iffD1]) simp
  then have "unat (W + 3) = unat W + 3" by simp
  then show ?thesis unfolding e by (simp only: unat_div) simp
qed

lemma covering_count:
  fixes W :: u32
  assumes "unat W \<le> 2 ^ 32 - 4"
  shows "unat W \<le> 4 * unat ((W + 4 - 1) div 4) \<and> 4 * unat ((W + 4 - 1) div 4) < unat W + 4"
proof -
  have "unat ((W + 4 - 1) div 4) = (unat W + 3) div 4"
    by (rule unat_workgroup_count [OF assms])
  then show ?thesis by presburger
qed

section \<open>Initialisation, and the example run\<close>

lemma onInit_example: "fst (onInit exampleEnv exampleApp) = Inr True"
  by (simp add: onInit_def initWindow_def initDevice_def initTextures_def exampleEnv_def
      exampleApp_def Let_def pow_2_to_u32_def initBuffers_def initComputePipeline_def
      initBindGroupLayout_def initGui_def initSwapChain_def)

lemma initWindow_fields:
  "fst (initWindow env app) = (glfwInit_ok env \<and> glfwCreateWindow_ok env)"
  "m_shouldCompute (snd (initWindow env app)) = m_shouldCompute app"
  "m_shouldReallocateTextures (snd (initWindow env app)) = m_shouldReallocateTextures app"
  "m_settings (snd (initWindow env app)) = m_settings app"
  "m_bindGroup (snd (initWindow env app)) = m_bindGroup app"
  by (simp_all add: initWindow_def Let_def)

lemma initDevice_fields:
  "fst (initDevice env app) = createInstance_ok env"
  "m_shouldCompute (snd (initDevice env app)) = m_shouldCompute app"
  "m_shouldReallocateTextures (snd (initDevice env app)) = m_shouldReallocateTextures app"
  "m_settings (snd (initDevice env app)) = m_settings app"
  "m_bindGroup (snd (initDevice env app)) = m_bindGroup app"
  by (simp_all add: initDevice_def)

text \<open>The state in which \<^verbatim>\<open>onInit\<close> calls \<^verbatim>\<open>initTextures\<close>.\<close>

lemma onInit_unfold:
  "onInit env app =
     (if \<not> fst (initWindow env app) then (Inr False, snd (initWindow env app))
      else if \<not> fst (initDevice env (snd (initWindow env app)))
      then (Inr False, snd (initDevice env (snd (initWindow env app))))
      else case initTextures env
                  (initBuffers (initComputePipeline (initBindGroupLayout (initGui (initSwapChain
                     (snd (initDevice env (snd (initWindow env app))))))))) of
             (Inl e, app3) \<Rightarrow> (Inl e, app3)
           | (Inr u, app3) \<Rightarrow> (Inr True, initBindGroup (initTextureViews app3)))"
  by (simp add: onInit_def split: prod.splits bool.splits)

lemma onInit_Inr_True:
  assumes "onInit env app = (Inr True, app1)"
  shows "\<exists>a0 a3. initTextures env a0 = (Inr (), a3) \<and> app1 = initBindGroup (initTextureViews a3)
     \<and> m_shouldCompute a0 = m_shouldCompute app
     \<and> m_shouldReallocateTextures a0 = m_shouldReallocateTextures app
     \<and> m_settings a0 = m_settings app"
proof -
  let ?a0 = "initBuffers (initComputePipeline (initBindGroupLayout (initGui (initSwapChain
                     (snd (initDevice env (snd (initWindow env app))))))))"
  from assms obtain a3 where "initTextures env ?a0 = (Inr (), a3)"
    and "app1 = initBindGroup (initTextureViews a3)"
    by (auto simp: onInit_unfold split: if_splits prod.splits sum.splits)
  moreover have "m_shouldCompute ?a0 = m_shouldCompute app"
     "m_shouldReallocateTextures ?a0 = m_shouldReallocateTextures app"
     "m_settings ?a0 = m_settings app"
    by (simp_all add: initBuffers_def initComputePipeline_def initBindGroupLayout_def
        initGui_def initSwapChain_def initDevice_fields initWindow_fields)
  ultimately show ?thesis by blast
qed

lemma exampleReady_fields:
  "m_outputTexture exampleReady =
     Some \<lparr>td_label = ''Output'',
           td_size = \<lparr>width = 512, height = 512, depthOrArrayLayers = 6\<rparr>,
           td_sampleCount = 1, td_mipLevelCount = 1,
           td_usage = [TextureBinding, StorageBinding, CopySrc]\<rparr>"
  "\<not> m_shouldReallocateTextures exampleReady"
  "m_shouldCompute exampleReady"
proof -
  have "onInit exampleEnv exampleApp = (Inr True, exampleReady)"
    using onInit_example by (simp add: exampleReady_def prod_eq_iff)
  from onInit_Inr_True [OF this] obtain a0 a3 where
    i: "initTextures exampleEnv a0 = (Inr (), a3)"
    and r: "exampleReady = initBindGroup (initTextureViews a3)"
    and f: "m_shouldCompute a0 = m_shouldCompute exampleApp"
      "m_shouldReallocateTextures a0 = m_shouldReallocateTextures exampleApp"
      "m_settings a0 = m_settings exampleApp"
    by blast
  from initTextures_Inr [OF i] obtain w h sz where
    "stbi_load_result exampleEnv = Some (w, h)"
    and sz: "pow_2_to_u32 (outputSizeLog (m_settings a0)) = Some sz"
    and a3: "m_outputTexture a3 = Some \<lparr>td_label = ''Output'',
             td_size = \<lparr>width = sz, height = sz, depthOrArrayLayers = 6\<rparr>,
             td_sampleCount = 1, td_mipLevelCount = 1,
             td_usage = [TextureBinding, StorageBinding, CopySrc]\<rparr>"
      "m_shouldCompute a3 = m_shouldCompute a0"
      "m_shouldReallocateTextures a3 = m_shouldReallocateTextures a0"
    by auto
  from sz f(3) have "sz = 512" by (simp add: pow_2_to_u32_def exampleApp_def)
  with a3 f show "m_outputTexture exampleReady =
     Some \<lparr>td_label = ''Output'',
           td_size = \<lparr>width = 512, height = 512, depthOrArrayLayers = 6\<rparr>,
           td_sampleCount = 1, td_mipLevelCount = 1,
           td_usage = [TextureBinding, StorageBinding, CopySrc]\<rparr>"
    "\<not> m_shouldReallocateTextures exampleReady"
    "m_shouldCompute exampleReady"
    by (simp_all add: r initBindGroup_def Let_def initTextureViews_fields exampleApp_def)
qed

lemma onCompute_returns:
  assumes "\<not> m_shouldReallocateTextures app \<longrightarrow> m_outputTexture app \<noteq> None"
    and "m_shouldReallocateTextures app \<longrightarrow>
           stbi_load_result env \<noteq> None \<and> outputSizeLog (m_settings app) < 32"
  shows "fst (onCompute env app) = Inr ()"
proof (cases "m_shouldReallocateTextures app")
  case False
  with assms(1) show ?thesis
    by (auto simp: onCompute_def reallocateTextures_def dispatchLoop_0 dispatchBody_def Let_def
        split: option.splits)
next
  case True
  with assms(2) obtain w h where img: "stbi_load_result env = Some (w, h)"
    and e: "outputSizeLog (m_settings app) < 32" by auto
  from e obtain sz where sz: "pow_2_to_u32 (outputSizeLog (m_settings app)) = Some sz"
    by (cases "outputSizeLog (m_settings app) < 0") (simp_all add: pow_2_to_u32_def)
  from True img sz show ?thesis
    by (simp add: onCompute_def reallocateTextures_def dispatchLoop_0 dispatchBody_def Let_def
        initTextures_def terminateTextures_def terminateTextureViews_def terminateBindGroup_def
        initBindGroup_def initTextureViews_fields)
qed

lemma onCompute_keeps_outputTexture:
  assumes "\<not> m_shouldReallocateTextures app"
  shows "m_outputTexture (snd (onCompute env app)) = m_outputTexture app"
  using assms
  by (auto simp: onCompute_def reallocateTextures_def dispatchLoop_0 dispatchBody_def Let_def
        split: option.splits)

section \<open>The GUI and the state machine, step by step\<close>

lemma saveLayers_trace:
  "trace (saveLayers env i app) =
     trace app @ map (\<lambda>l. SaveTexture (outputPaths env ! l) OutputTexture 0 (of_nat l)) [i..<6]"
proof (induction env i app rule: saveLayers.induct)
  case (1 env layer app)
  show ?case
  proof (cases "layer < 6")
    case True
    with 1 show ?thesis
      by (subst saveLayers.simps) (simp add: upt_conv_Cons)
  next
    case False
    then show ?thesis by (subst saveLayers.simps) simp
  qed
qed

lemma saveLayers_fields:
  "m_shouldCompute (saveLayers env i app) = m_shouldCompute app"
  "m_shouldReallocateTextures (saveLayers env i app) = m_shouldReallocateTextures app"
  "m_outputTexture (saveLayers env i app) = m_outputTexture app"
  "m_settings (saveLayers env i app) = m_settings app"
  "m_parameters (saveLayers env i app) = m_parameters app"
  "m_uniforms (saveLayers env i app) = m_uniforms app"
  "m_bindGroup (saveLayers env i app) = m_bindGroup app"
  by (induction env i app rule: saveLayers.induct; subst saveLayers.simps; simp)+

lemma guiParameters_fields:
  "trace (guiParameters inp app) = trace app"
  "m_bindGroup (guiParameters inp app) = m_bindGroup app"
  "m_outputTexture (guiParameters inp app) = m_outputTexture app"
  "m_settings (guiParameters inp app) = m_settings app"
  "m_shouldCompute (guiParameters inp app) =
     (m_shouldCompute app \<or> snd (editParameters inp (m_parameters app)))"
  "m_shouldReallocateTextures (guiParameters inp app) = m_shouldReallocateTextures app"
  "m_parameters (guiParameters inp app) = fst (editParameters inp (m_parameters app))"
  "m_uniforms (guiParameters inp app) =
     (if snd (editParameters inp (m_parameters app))
      then updateUniforms (fst (editParameters inp (m_parameters app))) (m_uniforms app)
      else m_uniforms app)"
  by (simp_all add: guiParameters_def Let_def case_prod_beta)

lemma guiSettings_fields:
  "m_bindGroup (guiSettings env inp app) = m_bindGroup app"
  "m_outputTexture (guiSettings env inp app) = m_outputTexture app"
  "m_parameters (guiSettings env inp app) = m_parameters app"
  "m_uniforms (guiSettings env inp app) = m_uniforms app"
  "m_shouldCompute (guiSettings env inp app) =
     (m_shouldCompute app \<or> slider_outputSizeLog inp \<noteq> None)"
  "m_shouldReallocateTextures (guiSettings env inp app) =
     (m_shouldReallocateTextures app \<or> slider_outputSizeLog inp \<noteq> None)"
  by (simp_all add: guiSettings_def Let_def saveLayers_fields split: option.splits)

lemma guiSettings_trace:
  "trace (guiSettings env inp app) =
     trace app @ (if button_saveOutput inp
       then map (\<lambda>l. SaveTexture (outputPaths env ! l) OutputTexture 0 (of_nat l)) [0..<6]
       else [])"
  by (simp add: guiSettings_def Let_def saveLayers_trace del: upt_Suc split: option.splits)

lemma editParameters_changed:
  "snd (editParameters inp p) =
     (combo_filterType inp \<noteq> None \<or> slider_kernelX inp \<noteq> None \<or> slider_kernelY inp \<noteq> None
      \<or> slider_kernelZ inp \<noteq> None \<or> checkbox_normalize inp \<noteq> None)"
  by (auto simp: editParameters_def edit_def split: option.splits)

lemma onGui_fields:
  "m_bindGroup (onGui env inp app) = m_bindGroup app"
  "m_outputTexture (onGui env inp app) = m_outputTexture app"
  "m_shouldCompute (onGui env inp app) =
     (m_shouldCompute app \<or> snd (editParameters inp (m_parameters app))
      \<or> slider_outputSizeLog inp \<noteq> None)"
  "m_shouldReallocateTextures (onGui env inp app) =
     (m_shouldReallocateTextures app \<or> slider_outputSizeLog inp \<noteq> None)"
  "m_parameters (onGui env inp app) = fst (editParameters inp (m_parameters app))"
  "m_uniforms (onGui env inp app) =
     (if snd (editParameters inp (m_parameters app))
      then updateUniforms (fst (editParameters inp (m_parameters app))) (m_uniforms app)
      else m_uniforms app)"
  by (simp_all add: onGui_def guiSettings_fields guiParameters_fields)

lemma onGui_saved:
  "saved (since app (onGui env inp app)) =
     (if button_saveOutput inp
      then map (\<lambda>l. (outputPaths env ! l, OutputTexture, 0, of_nat l)) [0..<6] else [])"
proof -
  have m: "saved (map (\<lambda>l. SaveTexture (outputPaths env ! l) OutputTexture 0 (of_nat l)) xs)
      = map (\<lambda>l. (outputPaths env ! l, OutputTexture, 0, of_nat l)) xs" for xs
    by (induction xs) simp_all
  show ?thesis
    by (simp add: onGui_def since_def guiSettings_trace guiParameters_fields m del: upt_Suc)
qed

lemma onFrame_fields:
  "m_bindGroup (onFrame env ok inp app) = m_bindGroup app"
  "m_shouldCompute (onFrame env ok inp app) =
     (m_shouldCompute app \<or> ok \<and> (snd (editParameters inp (m_parameters app))
      \<or> slider_outputSizeLog inp \<noteq> None))"
  by (auto simp: onFrame_def Let_def onGui_fields)

lemma onFinish_fields:
  "m_bindGroup (onFinish env app) = m_bindGroup app"
  "m_shouldCompute (onFinish env app) = m_shouldCompute app"
  by (simp_all add: onFinish_def terminateWindow_def terminateDevice_def terminateSwapChain_def
      terminateGui_def terminateBindGroupLayout_def terminateComputePipeline_def
      terminateBuffers_def terminateTextures_def terminateTextureViews_def terminateBindGroup_def)

lemma onResize_fields:
  "m_bindGroup (onResize app) = m_bindGroup app"
  "m_shouldCompute (onResize app) = m_shouldCompute app"
  by (simp_all add: onResize_def initSwapChain_def terminateSwapChain_def)

lemma onInit_sixFaces:
  assumes "bindsSixFaces (m_bindGroup app) \<or> fst (onInit env app) = Inr True"
  shows "bindsSixFaces (m_bindGroup (snd (onInit env app)))"
proof -
  let ?a0 = "initBuffers (initComputePipeline (initBindGroupLayout (initGui (initSwapChain
                     (snd (initDevice env (snd (initWindow env app))))))))"
  have a0: "m_bindGroup ?a0 = m_bindGroup app"
    by (simp add: initBuffers_def initComputePipeline_def initBindGroupLayout_def
        initGui_def initSwapChain_def initDevice_fields initWindow_fields)
  obtain r a3 where i: "initTextures env ?a0 = (r, a3)" by (cases "initTextures env ?a0")
  show ?thesis
  proof (cases r)
    case (Inl e)
    with i initTextures_Inl [of env ?a0 e a3] a0 assms show ?thesis
      by (auto simp: onInit_unfold initDevice_fields initWindow_fields)
  next
    case (Inr u)
    with i assms show ?thesis
      by (auto simp: onInit_unfold initDevice_fields initWindow_fields initBindGroup_sixFaces)
  qed
qed

lemma onInit_shouldCompute:
  "m_shouldCompute (snd (onInit env app)) = m_shouldCompute app"
proof -
  let ?a0 = "initBuffers (initComputePipeline (initBindGroupLayout (initGui (initSwapChain
                     (snd (initDevice env (snd (initWindow env app))))))))"
  have a0: "m_shouldCompute ?a0 = m_shouldCompute app"
    by (simp add: initBuffers_def initComputePipeline_def initBindGroupLayout_def
        initGui_def initSwapChain_def initDevice_fields initWindow_fields)
  obtain r a3 where i: "initTextures env ?a0 = (r, a3)" by (cases "initTextures env ?a0")
  show ?thesis
  proof (cases r)
    case (Inl e)
    with i initTextures_Inl [of env ?a0 e a3] a0 show ?thesis
      by (auto simp: onInit_unfold initDevice_fields initWindow_fields)
  next
    case (Inr u)
    with i initTextures_Inr [of env ?a0 u a3] a0 show ?thesis
      by (auto simp: onInit_unfold initDevice_fields initWindow_fields initBindGroup_def
          Let_def initTextureViews_fields)
  qed
qed

lemma onCompute_Inl:
  assumes "onCompute env app = (Inl e, app')"
  shows "m_shouldCompute app' = m_shouldCompute app
     \<and> (bindsSixFaces (m_bindGroup app) \<longrightarrow> bindsSixFaces (m_bindGroup app'))"
proof -
  let ?a0 = "emit [Log Cout ''Computing...''] app"
  obtain r a1 where r: "reallocateTextures env ?a0 = (r, a1)"
    by (cases "reallocateTextures env ?a0")
  show ?thesis
  proof (cases r)
    case (Inl e1)
    with r assms reallocateTextures_Inl [of env ?a0 e1 a1] show ?thesis
      by (auto simp: onCompute_def)
  next
    case (Inr u)
    let ?a2 = "emit [WriteBuffer UniformBuffer, Create CommandEncoder,
                   Create ComputePassEncoder, SetPipeline ComputePipeline] a1"
    from Inr r assms have "dispatchLoop 0 ?a2 = (Inl e, app')"
      by (auto simp: onCompute_def split: prod.splits sum.splits)
    then have "dispatchBody ?a2 = (Inl e, app')"
      by (auto simp: dispatchLoop_0 split: prod.splits sum.splits)
    from dispatchBody_Inl [OF this] Inr r reallocateTextures_Inr [of env ?a0 u a1]
    show ?thesis by auto
  qed
qed

lemma run_keeps_sixFaces:
  assumes "bindsSixFaces (m_bindGroup app)"
  shows "bindsSixFaces (m_bindGroup (run env op app))"
proof (cases op)
  case OnInit
  with assms show ?thesis by (simp add: onInit_sixFaces)
next
  case OnCompute
  obtain r app' where c: "onCompute env app = (r, app')" by (cases "onCompute env app")
  show ?thesis
  proof (cases r)
    case (Inl e)
    with c onCompute_Inl [of env app e app'] assms OnCompute show ?thesis by simp
  next
    case (Inr u)
    with c onCompute_Inr [of env app u app'] obtain a1 where
      "reallocateTextures env (emit [Log Cout ''Computing...''] app) = (Inr (), a1)"
      "m_bindGroup app' = m_bindGroup a1" by blast
    with reallocateTextures_Inr [OF this(1)] assms c OnCompute show ?thesis by simp
  qed
qed (use assms in \<open>simp_all add: onFinish_fields onFrame_fields onGui_fields onResize_fields\<close>)

lemma runAll_keeps_sixFaces:
  "bindsSixFaces (m_bindGroup app) \<Longrightarrow> bindsSixFaces (m_bindGroup (runAll ops app))"
  by (induction ops arbitrary: app) (auto simp: run_keeps_sixFaces)

lemma onGui_outputSizeLog:
  "outputSizeLog (m_settings (onGui env inp app)) =
     (case slider_outputSizeLog inp of None \<Rightarrow> outputSizeLog (m_settings app) | Some v \<Rightarrow> v)"
  by (simp add: onGui_def guiSettings_def Let_def saveLayers_fields guiParameters_fields
      split: option.splits)

lemma onCompute_throws:
  assumes "m_shouldReallocateTextures app" and "stbi_load_result env = None"
  shows "fst (onCompute env app) = Inl (RuntimeError ''Could not load input texture!'')"
  using assms by (simp add: onCompute_def reallocateTextures_def initTextures_def Let_def)

text \<open>
  A call of \<^verbatim>\<open>onCompute\<close> that does not return (the image cannot be loaded again in a
  reallocation, or there is no output texture) has dispatched nothing.
\<close>

lemma onCompute_Inl_dispatches:
  assumes "onCompute env app = (Inl e, app')"
  shows "dispatches (since app app') = []"
proof -
  let ?a0 = "emit [Log Cout ''Computing...''] app"
  obtain r a1 where r: "reallocateTextures env ?a0 = (r, a1)"
    by (cases "reallocateTextures env ?a0")
  show ?thesis
  proof (cases r)
    case (Inl e1)
    let ?b = "terminateTextures (terminateTextureViews (terminateBindGroup ?a0))"
    from Inl r assms have app': "app' = a1"
      by (simp add: onCompute_def)
    from Inl r have "initTextures env ?b = (Inl e1, a1)"
      by (auto simp: reallocateTextures_def split: prod.splits sum.splits if_splits)
    from initTextures_Inl [OF this] obtain cs where
      "trace a1 = trace ?b @ cs" and cs: "dispatches cs = []" by blast
    then have "trace a1 = trace app @ ([Log Cout ''Computing...'',
      Release BindGroup, Release InputTextureView, Release OutputTextureView,
      Release (OutputTextureLayer 0), Release (OutputTextureLayer 1), Release (OutputTextureLayer 2),
      Release (OutputTextureLayer 3), Release (OutputTextureLayer 4), Release (OutputTextureLayer 5),
      Destroy InputTexture, Release InputTexture, Destroy OutputTexture, Release OutputTexture] @ cs)"
      by (simp add: terminateTextures_def terminateTextureViews_def terminateBindGroup_def)
    from since_append [OF this] cs show ?thesis by (simp add: app')
  next
    case (Inr u)
    let ?a2 = "emit [WriteBuffer UniformBuffer, Create CommandEncoder,
                   Create ComputePassEncoder, SetPipeline ComputePipeline] a1"
    from Inr r assms have "dispatchLoop 0 ?a2 = (Inl e, app')"
      by (auto simp: onCompute_def split: prod.splits sum.splits)
    then have "dispatchBody ?a2 = (Inl e, app')"
      by (auto simp: dispatchLoop_0 split: prod.splits sum.splits)
    from dispatchBody_Inl [OF this] have app': "app' = emit [SetBindGroup 0 (m_bindGroup ?a2)] ?a2" .
    from Inr r reallocateTextures_Inr [of env ?a0 u a1] obtain cs where
      "trace a1 = trace ?a0 @ cs" and cs: "dispatches cs = []" by blast
    then have "trace app' = trace app @ ([Log Cout ''Computing...''] @ cs
        @ [WriteBuffer UniformBuffer, Create CommandEncoder,
           Create ComputePassEncoder, SetPipeline ComputePipeline,
           SetBindGroup 0 (m_bindGroup ?a2)])"
      by (simp add: app')
    from since_append [OF this] cs show ?thesis by simp
  qed
qed

section \<open>Properties of the utilities\<close>

text \<open>
  The loop counts the right shifts that leave a nonzero value, so for a nonzero \<open>m\<close> it
  adds \<open>\<lfloor>log\<^sub>2 m\<rfloor>\<close> to \<open>w\<close>. (\<open>floorlog 2 n\<close> is \<open>\<lfloor>log\<^sub>2 n\<rfloor> + 1\<close> for \<open>n > 0\<close>, the
  number of binary digits of \<open>n\<close>.)
\<close>

lemma bit_width_loop_floorlog:
  "m \<noteq> 0 \<Longrightarrow> bit_width_loop m w + 1 = w + of_nat (floorlog 2 (unat m))"
proof (induction m w rule: bit_width_loop.induct)
  case (1 m w)
  have e: "unat (drop_bit 1 m) = unat m div 2"
    by (simp add: drop_bit_eq_div unat_div)
  from "1.prems" have pos: "0 < unat m" by (simp add: unat_gt_0)
  have fl: "floorlog 2 (unat m) = floorlog 2 (unat m div 2) + 1"
    using pos by (subst compute_floorlog) simp
  show ?case
  proof (cases "drop_bit 1 m = 0")
    case True
    then have "unat m div 2 = 0" using e by simp
    then have "floorlog 2 (unat m div 2) = 0" by (simp add: floorlog_def)
    with fl True show ?thesis
      by (subst bit_width_loop.simps) simp
  next
    case False
    from "1.IH" [OF refl False False]
    have "bit_width_loop (drop_bit 1 m) (w + 1) + 1 = w + 1 + of_nat (floorlog 2 (unat m div 2))"
      using e by simp
    with fl False show ?thesis
      by (subst bit_width_loop.simps) (simp add: Let_def)
  qed
qed

lemma floorlog_le_32: "floorlog 2 (unat (m::u32)) \<le> 32"
proof -
  have "unat m < 2 ^ 32" using unsigned_less [of m] by simp
  then show ?thesis by (simp add: floorlog_le_iff)
qed

lemma bit_width_floorlog:
  assumes "m \<noteq> 0"
  shows "unat (bit_width m) + 1 = floorlog 2 (unat m)"
proof -
  from assms have pos: "0 < unat m" by (simp add: unat_gt_0)
  then have ge: "1 \<le> floorlog 2 (unat m)"
    by (subst compute_floorlog) simp
  have "bit_width m + 1 = of_nat (floorlog 2 (unat m))"
    using bit_width_loop_floorlog [OF assms, of 0] assms by (simp add: bit_width_def)
  then have "bit_width m = of_nat (floorlog 2 (unat m) - 1)"
    using ge by (metis add_diff_cancel_right' of_nat_1 of_nat_diff)
  then have "unat (bit_width m) = floorlog 2 (unat m) - 1"
    using floorlog_le_32 [of m] by (simp add: unat_of_nat)
  with ge show ?thesis by simp
qed

text \<open>
  Claim C10. The claim: \<open>bit_width 0 = 0\<close>, and for every nonzero \<open>m\<close> the function returns
  \<open>\<lfloor>log\<^sub>2 m\<rfloor> + 1\<close>, so that \<open>getMaxMipLevelCount\<close> returns \<open>\<lfloor>log\<^sub>2 (max width height)\<rfloor> + 1\<close>.
  The source's comment announces the equivalent of \<^verbatim>\<open>std::bit_width\<close>, which is that value.
  The code returns one less: at \<open>m = 1\<close> the first shift already gives zero, the body never
  runs and the result is \<open>0\<close>, where \<^verbatim>\<open>std::bit_width(1)\<close> is \<open>1\<close>; a 1 by 1 texture gets
  a maximal mip level count of \<open>0\<close>, and the largest 32-bit value gets \<open>31\<close>, not \<open>32\<close>.
\<close>

theorem bit_width_off_by_one:
  "bit_width 0 = 0
   \<and> bit_width 1 = 0
   \<and> bit_width 0xFFFFFFFF = 31
   \<and> getMaxMipLevelCount \<lparr>width = 1, height = 1, depthOrArrayLayers = 1\<rparr> = 0
   \<and> floorlog 2 (unat (1 :: u32)) = 1"
  by (simp add: bit_width_def bit_width_loop.simps getMaxMipLevelCount_def compute_floorlog)

section \<open>Texture creation\<close>

text \<open>
  Claim C4. \<^verbatim>\<open>initTextures\<close> throws \<^verbatim>\<open>std::runtime_error\<close> if and only if the image loader
  returns a null pointer. When the loader returns pixels, no exception is thrown, the input
  texture is created with the size of the image and one layer, and its pixels are written
  to mip level 0 by the queue. (The conversion of \<open>2\<close> to the power \<^verbatim>\<open>outputSizeLog\<close> to
  \<^verbatim>\<open>uint32_t\<close> is defined below \<open>32\<close>, which the slider range \<open>[2, 11]\<close> respects; the
  statement about the calls made is for such a setting.)
\<close>

theorem initTextures_throws_iff_unreadable:
  "((\<exists>msg. fst (initTextures env app) = Inl (RuntimeError msg)) \<longleftrightarrow> stbi_load_result env = None)
   \<and> (\<forall>w h. stbi_load_result env = Some (w, h) \<longrightarrow> outputSizeLog (m_settings app) < 32 \<longrightarrow>
         fst (initTextures env app) = Inr ()
         \<and> (\<exists>t. m_inputTexture (snd (initTextures env app)) = Some t
                \<and> td_size t = \<lparr>width = word_of_int w, height = word_of_int h, depthOrArrayLayers = 1\<rparr>)
         \<and> since app (snd (initTextures env app)) =
             [Call ''stbi_load'', Create InputTexture, Create OutputTexture,
              WriteTexture InputTexture 0
                \<lparr>width = word_of_int w, height = word_of_int h, depthOrArrayLayers = 1\<rparr>,
              Call ''stbi_image_free''])"
proof (intro conjI allI impI)
  show "(\<exists>msg. fst (initTextures env app) = Inl (RuntimeError msg)) \<longleftrightarrow> stbi_load_result env = None"
    by (auto simp: initTextures_def Let_def split: option.splits)
next
  fix w h
  assume img: "stbi_load_result env = Some (w, h)" and e: "outputSizeLog (m_settings app) < 32"
  from e obtain sz where sz: "pow_2_to_u32 (outputSizeLog (m_settings app)) = Some sz"
    by (cases "outputSizeLog (m_settings app) < 0") (simp_all add: pow_2_to_u32_def)
  from img sz show "fst (initTextures env app) = Inr ()"
    by (simp add: initTextures_def Let_def)
  from img sz show "\<exists>t. m_inputTexture (snd (initTextures env app)) = Some t
      \<and> td_size t = \<lparr>width = word_of_int w, height = word_of_int h, depthOrArrayLayers = 1\<rparr>"
    by (simp add: initTextures_def Let_def)
  from img sz show "since app (snd (initTextures env app)) =
             [Call ''stbi_load'', Create InputTexture, Create OutputTexture,
              WriteTexture InputTexture 0
                \<lparr>width = word_of_int w, height = word_of_int h, depthOrArrayLayers = 1\<rparr>,
              Call ''stbi_image_free'']"
    by (simp add: initTextures_def Let_def since_def)
qed

theorem initTextures_throws_iff_unreadable_witness:
  "fst (initTextures (exampleEnv\<lparr>stbi_load_result := None\<rparr>) exampleApp)
     = Inl (RuntimeError ''Could not load input texture!'')
   \<and> fst (initTextures exampleEnv exampleApp) = Inr ()
   \<and> since exampleApp (snd (initTextures exampleEnv exampleApp)) =
       [Call ''stbi_load'', Create InputTexture, Create OutputTexture,
        WriteTexture InputTexture 0 \<lparr>width = 2048, height = 1024, depthOrArrayLayers = 1\<rparr>,
        Call ''stbi_image_free'']"
proof -
  have img: "stbi_load_result exampleEnv = Some (2048, 1024)"
    by (simp add: exampleEnv_def)
  have e: "outputSizeLog (m_settings exampleApp) < 32"
    by (simp add: exampleApp_def)
  have none: "stbi_load_result (exampleEnv\<lparr>stbi_load_result := None\<rparr>) = None"
    by simp
  from initTextures_throws_iff_unreadable [of "exampleEnv\<lparr>stbi_load_result := None\<rparr>" exampleApp] none
  obtain msg where "fst (initTextures (exampleEnv\<lparr>stbi_load_result := None\<rparr>) exampleApp)
     = Inl (RuntimeError msg)" by blast
  then have 1: "fst (initTextures (exampleEnv\<lparr>stbi_load_result := None\<rparr>) exampleApp)
     = Inl (RuntimeError ''Could not load input texture!'')"
    by (simp add: initTextures_def Let_def)
  from initTextures_throws_iff_unreadable [of exampleEnv exampleApp] img e
  have 2: "fst (initTextures exampleEnv exampleApp) = Inr ()"
    and 3: "since exampleApp (snd (initTextures exampleEnv exampleApp)) =
       [Call ''stbi_load'', Create InputTexture, Create OutputTexture,
        WriteTexture InputTexture 0 \<lparr>width = word_of_int 2048, height = word_of_int 1024, depthOrArrayLayers = 1\<rparr>,
        Call ''stbi_image_free'']"
    by blast+
  from 1 2 3 show ?thesis by simp
qed

lemma unat_2p_small:
  assumes "n \<le> 11"
  shows "unat ((2 :: u32) ^ n) = 2 ^ n"
proof -
  have "(2 :: nat) ^ n \<le> 2 ^ 11" using assms by (intro power_increasing) simp_all
  then have lt: "(2 :: nat) ^ n < 2 ^ 32" by simp
  have "unat ((2 :: u32) ^ n) = unat (of_nat (2 ^ n) :: u32)" by simp
  also have "\<dots> = 2 ^ n" using lt by (simp only: unat_of_nat) simp
  finally show ?thesis .
qed

text \<open>
  Claim C8. For every value \<open>s\<close> of the output size setting in the slider's range \<open>[2, 11]\<close>,
  \<^verbatim>\<open>initTextures\<close> (given a readable image) returns with an output texture of width and
  height \<open>2\<^sup>s\<close>, between 4 and 2048, and six array layers. Whatever the setting, the input
  texture it creates has one layer and one mip level.
\<close>

theorem outputTexture_square_six_layers:
  assumes img: "stbi_load_result env = Some (w, h)"
  shows "(2 \<le> s \<and> s \<le> 11 \<and> outputSizeLog (m_settings app) = s \<longrightarrow>
           (\<exists>app' tout.
               initTextures env app = (Inr (), app')
             \<and> m_outputTexture app' = Some tout
             \<and> unat (width (td_size tout)) = 2 ^ nat s
             \<and> unat (height (td_size tout)) = 2 ^ nat s
             \<and> 4 \<le> unat (width (td_size tout)) \<and> unat (width (td_size tout)) \<le> 2048
             \<and> depthOrArrayLayers (td_size tout) = 6))
       \<and> (\<exists>tin. m_inputTexture (snd (initTextures env app)) = Some tin
             \<and> depthOrArrayLayers (td_size tin) = 1
             \<and> td_mipLevelCount tin = 1)"
proof (intro conjI impI)
  assume a: "2 \<le> s \<and> s \<le> 11 \<and> outputSizeLog (m_settings app) = s"
  then have n: "nat s \<le> 11" "2 \<le> nat s" by auto
  have u: "unat ((2 :: u32) ^ nat s) = 2 ^ nat s" by (rule unat_2p_small [OF n(1)])
  have "(2 :: nat) ^ 2 \<le> 2 ^ nat s" using n(2) by (intro power_increasing) simp_all
  then have lo: "4 \<le> (2 :: nat) ^ nat s" by simp
  have "(2 :: nat) ^ nat s \<le> 2 ^ 11" using n(1) by (intro power_increasing) simp_all
  then have hi: "(2 :: nat) ^ nat s \<le> 2048" by simp
  from a have p: "pow_2_to_u32 (outputSizeLog (m_settings app)) = Some (2 ^ nat s)"
    by (simp add: pow_2_to_u32_def)
  show "\<exists>app' tout.
               initTextures env app = (Inr (), app')
             \<and> m_outputTexture app' = Some tout
             \<and> unat (width (td_size tout)) = 2 ^ nat s
             \<and> unat (height (td_size tout)) = 2 ^ nat s
             \<and> 4 \<le> unat (width (td_size tout)) \<and> unat (width (td_size tout)) \<le> 2048
             \<and> depthOrArrayLayers (td_size tout) = 6"
    using img p u lo hi by (simp add: initTextures_def Let_def)
next
  show "\<exists>tin. m_inputTexture (snd (initTextures env app)) = Some tin
             \<and> depthOrArrayLayers (td_size tin) = 1
             \<and> td_mipLevelCount tin = 1"
    using img by (simp add: initTextures_def Let_def split: option.splits)
qed

theorem outputTexture_square_six_layers_witness:
  "stbi_load_result exampleEnv = Some (2048, 1024)
   \<and> outputSizeLog (m_settings exampleApp) = 9
   \<and> (\<exists>app' tout.
           initTextures exampleEnv exampleApp = (Inr (), app')
         \<and> m_outputTexture app' = Some tout
         \<and> unat (width (td_size tout)) = 512
         \<and> unat (height (td_size tout)) = 512
         \<and> depthOrArrayLayers (td_size tout) = 6)
   \<and> (\<exists>tin. m_inputTexture (snd (initTextures exampleEnv exampleApp)) = Some tin
         \<and> depthOrArrayLayers (td_size tin) = 1
         \<and> td_mipLevelCount tin = 1)"
proof -
  have set: "outputSizeLog (m_settings exampleApp) = 9"
    by (simp add: exampleApp_def)
  have img: "stbi_load_result exampleEnv = Some (2048, 1024)"
    by (simp add: exampleEnv_def)
  have "(2 :: nat) ^ nat 9 = 512" by simp
  with outputTexture_square_six_layers [OF img, of 9 exampleApp] set img
  show ?thesis by auto
qed

section \<open>The dispatch\<close>

text \<open>
  Claim C2. Whatever output texture the application holds when it dispatches, \<^verbatim>\<open>onCompute\<close>
  returns and has dispatched exactly once, with \<open>(W + 4 - 1) div 4\<close> and \<open>(H + 4 - 1) div 4\<close>
  workgroups in 32-bit unsigned arithmetic, \<open>W\<close> and \<open>H\<close> being the width and height of that
  texture: the texture it held before the call when it does not reallocate, and the
  square texture of side \<^verbatim>\<open>(uint32_t)std::pow(2, outputSizeLog)\<close> that it creates from the
  readable image when it does. For \<open>W\<close> and \<open>H\<close> up to \<open>2\<^sup>3\<^sup>2 - 4\<close> the counts are the ceilings of
  \<open>W / 4\<close> and \<open>H / 4\<close>.
\<close>

theorem onCompute_workgroup_counts:
  "(\<not> m_shouldReallocateTextures app \<and> m_outputTexture app = Some t \<longrightarrow>
      fst (onCompute env app) = Inr ()
      \<and> m_outputTexture (snd (onCompute env app)) = Some t
      \<and> dispatches (since app (snd (onCompute env app))) =
          [((width (td_size t) + 4 - 1) div 4, (height (td_size t) + 4 - 1) div 4, 1)])
   \<and> (m_shouldReallocateTextures app \<and> stbi_load_result env = Some (w, h)
        \<and> pow_2_to_u32 (outputSizeLog (m_settings app)) = Some sz \<longrightarrow>
      fst (onCompute env app) = Inr ()
      \<and> (\<exists>t'. m_outputTexture (snd (onCompute env app)) = Some t'
             \<and> td_size t' = \<lparr>width = sz, height = sz, depthOrArrayLayers = 6\<rparr>)
      \<and> dispatches (since app (snd (onCompute env app))) =
          [((sz + 4 - 1) div 4, (sz + 4 - 1) div 4, 1)])
   \<and> (\<forall>W :: u32. unat W \<le> 2 ^ 32 - 4 \<longrightarrow>
         unat ((W + 4 - 1) div 4) = nat \<lceil>real (unat W) / 4\<rceil>)"
proof -
  have ret: "onCompute env app = (Inr (), snd (onCompute env app))"
    if "fst (onCompute env app) = Inr ()"
    using that by (simp add: prod_eq_iff)
  have 1: "fst (onCompute env app) = Inr ()
      \<and> m_outputTexture (snd (onCompute env app)) = Some t
      \<and> dispatches (since app (snd (onCompute env app))) =
          [((width (td_size t) + 4 - 1) div 4, (height (td_size t) + 4 - 1) div 4, 1)]"
    if a: "\<not> m_shouldReallocateTextures app \<and> m_outputTexture app = Some t"
  proof -
    have f: "fst (onCompute env app) = Inr ()"
      using a by (intro onCompute_returns) simp_all
    from onCompute_Inr [OF ret [OF f]] obtain a1 pre post and t' :: TextureDescriptor where
      r: "reallocateTextures env (emit [Log Cout ''Computing...''] app) = (Inr (), a1)"
      and t': "m_outputTexture (snd (onCompute env app)) = Some t'"
      and s: "since app (snd (onCompute env app)) =
         pre @ [SetBindGroup 0 (m_bindGroup a1),
                DispatchWorkgroups ((width (td_size t') + 4 - 1) div 4)
                  ((height (td_size t') + 4 - 1) div 4) 1] @ post"
      and n: "dispatches pre = []" "dispatches post = []"
      by blast
    have "m_outputTexture (snd (onCompute env app)) = m_outputTexture app"
      using a by (intro onCompute_keeps_outputTexture) simp
    with t' a have "t' = t" by simp
    with f t' s n show ?thesis by simp
  qed
  have 2: "fst (onCompute env app) = Inr ()
      \<and> (\<exists>t'. m_outputTexture (snd (onCompute env app)) = Some t'
             \<and> td_size t' = \<lparr>width = sz, height = sz, depthOrArrayLayers = 6\<rparr>)
      \<and> dispatches (since app (snd (onCompute env app))) =
          [((sz + 4 - 1) div 4, (sz + 4 - 1) div 4, 1)]"
    if a: "m_shouldReallocateTextures app \<and> stbi_load_result env = Some (w, h)
        \<and> pow_2_to_u32 (outputSizeLog (m_settings app)) = Some sz"
  proof -
    from a have "outputSizeLog (m_settings app) < 32"
      by (auto simp: pow_2_to_u32_def split: if_splits)
    with a have f: "fst (onCompute env app) = Inr ()"
      by (intro onCompute_returns) simp_all
    from onCompute_Inr [OF ret [OF f]] obtain a1 pre post and t' :: TextureDescriptor where
      r: "reallocateTextures env (emit [Log Cout ''Computing...''] app) = (Inr (), a1)"
      and k: "m_outputTexture a1 = Some t'"
      and t': "m_outputTexture (snd (onCompute env app)) = Some t'"
      and s: "since app (snd (onCompute env app)) =
         pre @ [SetBindGroup 0 (m_bindGroup a1),
                DispatchWorkgroups ((width (td_size t') + 4 - 1) div 4)
                  ((height (td_size t') + 4 - 1) div 4) 1] @ post"
      and n: "dispatches pre = []" "dispatches post = []"
      by blast
    from reallocateTextures_outputTexture [OF r] a k
    have z: "td_size t' = \<lparr>width = sz, height = sz, depthOrArrayLayers = 6\<rparr>"
      by auto
    with f t' s n show ?thesis by simp
  qed
  have 3: "unat W \<le> 2 ^ 32 - 4 \<longrightarrow> unat ((W + 4 - 1) div 4) = nat \<lceil>real (unat W) / 4\<rceil>"
    for W :: u32
    using unat_workgroup_count [of W] ceil_div_4 [of "unat W"] by simp
  from 1 2 3 show ?thesis by blast
qed

theorem onCompute_workgroup_counts_witness:
  "\<not> m_shouldReallocateTextures exampleReady
   \<and> width (td_size (the (m_outputTexture exampleReady))) = 512
   \<and> height (td_size (the (m_outputTexture exampleReady))) = 512
   \<and> fst (onCompute exampleEnv exampleReady) = Inr ()
   \<and> dispatches (since exampleReady (snd (onCompute exampleEnv exampleReady))) = [(128, 128, 1)]
   \<and> m_shouldReallocateTextures
        (onGui exampleEnv (idleGui\<lparr>slider_outputSizeLog := Some 8\<rparr>) exampleReady)
   \<and> pow_2_to_u32 (outputSizeLog (m_settings
        (onGui exampleEnv (idleGui\<lparr>slider_outputSizeLog := Some 8\<rparr>) exampleReady))) = Some 256
   \<and> fst (onCompute exampleEnv
         (onGui exampleEnv (idleGui\<lparr>slider_outputSizeLog := Some 8\<rparr>) exampleReady)) = Inr ()
   \<and> dispatches (since
         (onGui exampleEnv (idleGui\<lparr>slider_outputSizeLog := Some 8\<rparr>) exampleReady)
         (snd (onCompute exampleEnv
            (onGui exampleEnv (idleGui\<lparr>slider_outputSizeLog := Some 8\<rparr>) exampleReady))))
       = [(64, 64, 1)]
   \<and> unat ((512 + 4 - 1) div 4 :: u32) = nat \<lceil>real (unat (512 :: u32)) / 4\<rceil>"
proof -
  let ?t = "\<lparr>td_label = ''Output'',
           td_size = \<lparr>width = 512, height = 512, depthOrArrayLayers = 6\<rparr>,
           td_sampleCount = 1, td_mipLevelCount = 1,
           td_usage = [TextureBinding, StorageBinding, CopySrc]\<rparr>"
  let ?app2 = "onGui exampleEnv (idleGui\<lparr>slider_outputSizeLog := Some 8\<rparr>) exampleReady"
  have t: "m_outputTexture exampleReady = Some ?t" and nr: "\<not> m_shouldReallocateTextures exampleReady"
    by (simp_all add: exampleReady_fields)
  have re: "m_shouldReallocateTextures ?app2"
    by (simp add: onGui_fields)
  have img: "stbi_load_result exampleEnv = Some (2048, 1024)"
    by (simp add: exampleEnv_def)
  have p: "pow_2_to_u32 (outputSizeLog (m_settings ?app2)) = Some 256"
    by (simp add: onGui_outputSizeLog pow_2_to_u32_def)
  from onCompute_workgroup_counts [where app = exampleReady and t = ?t and env = exampleEnv] nr t
  have 1: "fst (onCompute exampleEnv exampleReady) = Inr ()"
    and 2: "dispatches (since exampleReady (snd (onCompute exampleEnv exampleReady))) = [(128, 128, 1)]"
    and 3: "unat ((512 + 4 - 1) div 4 :: u32) = nat \<lceil>real (unat (512 :: u32)) / 4\<rceil>"
    by simp_all
  from onCompute_workgroup_counts [where app = ?app2 and env = exampleEnv and w = 2048
      and h = 1024 and sz = 256] re img p
  have 4: "fst (onCompute exampleEnv ?app2) = Inr ()"
    and 5: "dispatches (since ?app2 (snd (onCompute exampleEnv ?app2))) = [(64, 64, 1)]"
    by simp_all
  from nr t 1 2 re p 4 5 3 show ?thesis by simp
qed

text \<open>The bound is sharp: at \<open>W = 2\<^sup>3\<^sup>2 - 3\<close> the sum wraps to \<open>0\<close>.\<close>

lemma workgroup_count_wraps:
  "((0xFFFFFFFD :: u32) + 4 - 1) div 4 = 0 \<and> unat (((0xFFFFFFFC :: u32) + 4 - 1) div 4) = 2 ^ 30 - 1"
  by simp

text \<open>
  Claim C7, as the code has it. In any run of the application after a successful
  \<^verbatim>\<open>onInit\<close>, a call of \<^verbatim>\<open>onCompute\<close> that returns has issued exactly one dispatch, of
  \<open>(W + 4 - 1) div 4\<close> by \<open>(H + 4 - 1) div 4\<close> by 1 workgroups for the \<open>W\<close> by \<open>H\<close> output
  texture it then holds (workgroups of 4 by 4 invocations that cover the width and the
  height), with the one bind group that binds the view of all six layers of the output
  texture: the six faces are covered inside that dispatch and not by the Z dimension. A
  call that leaves by an exception has issued no dispatch.
\<close>

theorem onCompute_single_dispatch:
  assumes init: "onInit env0 app0 = (Inr True, app1)"
    and run: "app = runAll ops app1"
  shows "(onCompute env app = (Inr u, app') \<longrightarrow>
      (\<exists>t g. m_outputTexture app' = Some t
         \<and> (\<not> m_shouldReallocateTextures app \<longrightarrow> m_outputTexture app = Some t)
         \<and> (m_shouldReallocateTextures app \<longrightarrow>
              (\<exists>sz. pow_2_to_u32 (outputSizeLog (m_settings app)) = Some sz
                 \<and> td_size t = \<lparr>width = sz, height = sz, depthOrArrayLayers = 6\<rparr>))
         \<and> dispatches (since app app') =
             [((width (td_size t) + 4 - 1) div 4, (height (td_size t) + 4 - 1) div 4, 1)]
         \<and> (unat (width (td_size t)) \<le> 2 ^ 32 - 4 \<longrightarrow>
              unat (width (td_size t)) \<le> 4 * unat ((width (td_size t) + 4 - 1) div 4))
         \<and> (unat (height (td_size t)) \<le> 2 ^ 32 - 4 \<longrightarrow>
              unat (height (td_size t)) \<le> 4 * unat ((height (td_size t) + 4 - 1) div 4))
         \<and> boundGroups (since app app') = [(0, g)]
         \<and> bindsSixFaces g))
   \<and> (onCompute env app = (Inl e, app'') \<longrightarrow> dispatches (since app app'') = [])"
proof -
  from init have "bindsSixFaces (m_bindGroup (snd (onInit env0 app0)))"
    by (intro onInit_sixFaces) simp
  with init have "bindsSixFaces (m_bindGroup app1)" by simp
  with run have six: "bindsSixFaces (m_bindGroup app)"
    by (simp add: runAll_keeps_sixFaces)
  have 1: "\<exists>t g. m_outputTexture app' = Some t
         \<and> (\<not> m_shouldReallocateTextures app \<longrightarrow> m_outputTexture app = Some t)
         \<and> (m_shouldReallocateTextures app \<longrightarrow>
              (\<exists>sz. pow_2_to_u32 (outputSizeLog (m_settings app)) = Some sz
                 \<and> td_size t = \<lparr>width = sz, height = sz, depthOrArrayLayers = 6\<rparr>))
         \<and> dispatches (since app app') =
             [((width (td_size t) + 4 - 1) div 4, (height (td_size t) + 4 - 1) div 4, 1)]
         \<and> (unat (width (td_size t)) \<le> 2 ^ 32 - 4 \<longrightarrow>
              unat (width (td_size t)) \<le> 4 * unat ((width (td_size t) + 4 - 1) div 4))
         \<and> (unat (height (td_size t)) \<le> 2 ^ 32 - 4 \<longrightarrow>
              unat (height (td_size t)) \<le> 4 * unat ((height (td_size t) + 4 - 1) div 4))
         \<and> boundGroups (since app app') = [(0, g)]
         \<and> bindsSixFaces g"
    if comp: "onCompute env app = (Inr u, app')"
  proof -
    let ?a0 = "emit [Log Cout ''Computing...''] app"
    from onCompute_Inr [OF comp] obtain a1 pre post and t :: TextureDescriptor where
      r: "reallocateTextures env ?a0 = (Inr (), a1)"
      and k: "m_outputTexture a1 = Some t"
      and t: "m_outputTexture app' = Some t"
      and s: "since app app' =
           pre @ [SetBindGroup 0 (m_bindGroup a1),
                  DispatchWorkgroups ((width (td_size t) + 4 - 1) div 4)
                    ((height (td_size t) + 4 - 1) div 4) 1] @ post"
      and n: "dispatches pre = []" "boundGroups pre = []"
             "dispatches post = []" "boundGroups post = []"
      by blast
    from reallocateTextures_Inr [OF r] six have g: "bindsSixFaces (m_bindGroup a1)"
      by simp
    from reallocateTextures_outputTexture [OF r] k
    have o: "\<not> m_shouldReallocateTextures app \<longrightarrow> m_outputTexture app = Some t"
      and p: "m_shouldReallocateTextures app \<longrightarrow>
              (\<exists>sz. pow_2_to_u32 (outputSizeLog (m_settings app)) = Some sz
                 \<and> td_size t = \<lparr>width = sz, height = sz, depthOrArrayLayers = 6\<rparr>)"
      by auto
    have d: "dispatches (since app app') =
        [((width (td_size t) + 4 - 1) div 4, (height (td_size t) + 4 - 1) div 4, 1)]"
      unfolding s using n by simp
    have b: "boundGroups (since app app') = [(0, m_bindGroup a1)]"
      unfolding s using n by simp
    have c: "unat W \<le> 2 ^ 32 - 4 \<longrightarrow> unat W \<le> 4 * unat ((W + 4 - 1) div 4)" for W :: u32
      using covering_count [of W] by simp
    from t o p d c [of "width (td_size t)"] c [of "height (td_size t)"] b g
    show ?thesis by blast
  qed
  have 2: "dispatches (since app app'') = []" if "onCompute env app = (Inl e, app'')"
    using that by (rule onCompute_Inl_dispatches)
  from 1 2 show ?thesis by blast
qed

theorem onCompute_single_dispatch_witness:
  "onInit exampleEnv exampleApp = (Inr True, exampleReady)
   \<and> fst (onCompute exampleEnv (runAll [(exampleEnv, OnFrame True idleGui)] exampleReady)) = Inr ()
   \<and> dispatches (since (runAll [(exampleEnv, OnFrame True idleGui)] exampleReady)
         (snd (onCompute exampleEnv (runAll [(exampleEnv, OnFrame True idleGui)] exampleReady))))
       = [(128, 128, 1)]
   \<and> (\<exists>g. boundGroups (since (runAll [(exampleEnv, OnFrame True idleGui)] exampleReady)
            (snd (onCompute exampleEnv (runAll [(exampleEnv, OnFrame True idleGui)] exampleReady))))
           = [(0, g)]
         \<and> bindsSixFaces g)
   \<and> fst (onCompute (exampleEnv\<lparr>stbi_load_result := None\<rparr>)
          (runAll [(exampleEnv, OnGui (idleGui\<lparr>slider_outputSizeLog := Some 8\<rparr>))] exampleReady))
       = Inl (RuntimeError ''Could not load input texture!'')
   \<and> dispatches (since
         (runAll [(exampleEnv, OnGui (idleGui\<lparr>slider_outputSizeLog := Some 8\<rparr>))] exampleReady)
         (snd (onCompute (exampleEnv\<lparr>stbi_load_result := None\<rparr>)
            (runAll [(exampleEnv, OnGui (idleGui\<lparr>slider_outputSizeLog := Some 8\<rparr>))]
               exampleReady)))) = []"
proof -
  let ?t = "\<lparr>td_label = ''Output'',
           td_size = \<lparr>width = 512, height = 512, depthOrArrayLayers = 6\<rparr>,
           td_sampleCount = 1, td_mipLevelCount = 1,
           td_usage = [TextureBinding, StorageBinding, CopySrc]\<rparr>"
  let ?app = "runAll [(exampleEnv, OnFrame True idleGui)] exampleReady"
  let ?app2 = "runAll [(exampleEnv, OnGui (idleGui\<lparr>slider_outputSizeLog := Some 8\<rparr>))] exampleReady"
  let ?env = "exampleEnv\<lparr>stbi_load_result := None\<rparr>"
  have init: "onInit exampleEnv exampleApp = (Inr True, exampleReady)"
    using onInit_example by (simp add: exampleReady_def prod_eq_iff)
  have f: "m_outputTexture ?app = Some ?t" "\<not> m_shouldReallocateTextures ?app"
    by (simp_all add: onFrame_def Let_def onGui_fields idleGui_def exampleReady_fields)
  have "fst (onCompute exampleEnv ?app) = Inr ()"
    by (rule onCompute_returns) (simp_all only: f, simp_all)
  note ret = this
  then have comp: "onCompute exampleEnv ?app = (Inr (), snd (onCompute exampleEnv ?app))"
    by (simp add: prod_eq_iff)
  have thr: "fst (onCompute ?env ?app2) = Inl (RuntimeError ''Could not load input texture!'')"
    by (rule onCompute_throws) (simp_all add: onGui_fields)
  then have exc: "onCompute ?env ?app2
      = (Inl (RuntimeError ''Could not load input texture!''), snd (onCompute ?env ?app2))"
    by (simp add: prod_eq_iff)
  from onCompute_single_dispatch [OF init refl, where ops = "[(exampleEnv, OnFrame True idleGui)]"
      and env = exampleEnv and u = "()" and app' = "snd (onCompute exampleEnv ?app)"] comp
  obtain t g where "\<not> m_shouldReallocateTextures ?app \<longrightarrow> m_outputTexture ?app = Some t"
    and d: "dispatches (since ?app (snd (onCompute exampleEnv ?app))) =
             [((width (td_size t) + 4 - 1) div 4, (height (td_size t) + 4 - 1) div 4, 1)]"
    and b: "boundGroups (since ?app (snd (onCompute exampleEnv ?app))) = [(0, g)]"
      "bindsSixFaces g"
    by blast
  with f have "t = ?t" by simp
  with d have 1: "dispatches (since ?app (snd (onCompute exampleEnv ?app))) = [(128, 128, 1)]"
    by simp
  from onCompute_single_dispatch [OF init refl,
      where ops = "[(exampleEnv, OnGui (idleGui\<lparr>slider_outputSizeLog := Some 8\<rparr>))]"
      and env = ?env and e = "RuntimeError ''Could not load input texture!''"
      and app'' = "snd (onCompute ?env ?app2)"] exc
  have 2: "dispatches (since ?app2 (snd (onCompute ?env ?app2))) = []"
    by blast
  from init ret 1 b thr 2 show ?thesis by blast
qed

text \<open>
  Claim C7 as stated fails for a call that does not return. The example application is
  initialised, a frame moves the output size slider, and the image file is gone when
  \<^verbatim>\<open>onCompute\<close> reallocates the textures: \<^verbatim>\<open>initTextures\<close> throws, and this call of
  \<^verbatim>\<open>onCompute\<close> has issued no dispatch.
\<close>

theorem onCompute_no_dispatch_counterexample:
  "onInit exampleEnv exampleApp = (Inr True, exampleReady)
   \<and> fst (onCompute (exampleEnv\<lparr>stbi_load_result := None\<rparr>)
          (onGui exampleEnv (idleGui\<lparr>slider_outputSizeLog := Some 8\<rparr>) exampleReady))
       = Inl (RuntimeError ''Could not load input texture!'')
   \<and> dispatches (since
         (onGui exampleEnv (idleGui\<lparr>slider_outputSizeLog := Some 8\<rparr>) exampleReady)
         (snd (onCompute (exampleEnv\<lparr>stbi_load_result := None\<rparr>)
            (onGui exampleEnv (idleGui\<lparr>slider_outputSizeLog := Some 8\<rparr>) exampleReady)))) = []"
proof -
  let ?app2 = "onGui exampleEnv (idleGui\<lparr>slider_outputSizeLog := Some 8\<rparr>) exampleReady"
  let ?env = "exampleEnv\<lparr>stbi_load_result := None\<rparr>"
  have init: "onInit exampleEnv exampleApp = (Inr True, exampleReady)"
    using onInit_example by (simp add: exampleReady_def prod_eq_iff)
  have thr: "fst (onCompute ?env ?app2) = Inl (RuntimeError ''Could not load input texture!'')"
    by (rule onCompute_throws) (simp_all add: onGui_fields)
  then have "onCompute ?env ?app2
      = (Inl (RuntimeError ''Could not load input texture!''), snd (onCompute ?env ?app2))"
    by (simp add: prod_eq_iff)
  then have "dispatches (since ?app2 (snd (onCompute ?env ?app2))) = []"
    by (rule onCompute_Inl_dispatches)
  with init thr show ?thesis by simp
qed

section \<open>The GUI\<close>

lemma upt_0_6: "[0..<6] = [0, 1, 2, 3, 4, 5]"
  by code_simp

text \<open>
  Claim C6. A frame in which the "Save Output" button is pressed saves exactly six files,
  \<^verbatim>\<open>cubemap-posX.png\<close>, \<^verbatim>\<open>-negX\<close>, \<^verbatim>\<open>-posY\<close>, \<^verbatim>\<open>-negY\<close>, \<^verbatim>\<open>-posZ\<close>, \<^verbatim>\<open>-negZ\<close> in the resource
  directory, from mip level 0 of the layers 0 to 5 of the output texture, in this order,
  layer \<open>k\<close> to the \<open>k\<close>-th path. A frame in which it is not pressed saves nothing.
\<close>

theorem saveOutput_six_layers:
  "(button_saveOutput inp \<longrightarrow>
      saved (since app (onGui env inp app)) =
        [(RESOURCE_DIR env @ ''/cubemap-posX.png'', OutputTexture, 0, 0),
         (RESOURCE_DIR env @ ''/cubemap-negX.png'', OutputTexture, 0, 1),
         (RESOURCE_DIR env @ ''/cubemap-posY.png'', OutputTexture, 0, 2),
         (RESOURCE_DIR env @ ''/cubemap-negY.png'', OutputTexture, 0, 3),
         (RESOURCE_DIR env @ ''/cubemap-posZ.png'', OutputTexture, 0, 4),
         (RESOURCE_DIR env @ ''/cubemap-negZ.png'', OutputTexture, 0, 5)])
   \<and> (\<not> button_saveOutput inp \<longrightarrow> saved (since app (onGui env inp app)) = [])"
  by (simp add: onGui_saved upt_0_6 outputPaths_def)

theorem saveOutput_six_layers_witness:
  "button_saveOutput (idleGui\<lparr>button_saveOutput := True\<rparr>)
   \<and> saved (since exampleReady
        (onGui exampleEnv (idleGui\<lparr>button_saveOutput := True\<rparr>) exampleReady)) =
        [(''resources/cubemap-posX.png'', OutputTexture, 0, 0),
         (''resources/cubemap-negX.png'', OutputTexture, 0, 1),
         (''resources/cubemap-posY.png'', OutputTexture, 0, 2),
         (''resources/cubemap-negY.png'', OutputTexture, 0, 3),
         (''resources/cubemap-posZ.png'', OutputTexture, 0, 4),
         (''resources/cubemap-negZ.png'', OutputTexture, 0, 5)]
   \<and> \<not> button_saveOutput idleGui
   \<and> saved (since exampleReady (onGui exampleEnv idleGui exampleReady)) = []"
  using saveOutput_six_layers [of "idleGui\<lparr>button_saveOutput := True\<rparr>" exampleReady exampleEnv]
    saveOutput_six_layers [of idleGui exampleReady exampleEnv]
  by (simp add: idleGui_def exampleEnv_def)

text \<open>
  Claim C9. When \<^verbatim>\<open>onCompute\<close> returns, \<^verbatim>\<open>m_shouldCompute\<close> and
  \<^verbatim>\<open>m_shouldReallocateTextures\<close> are both false and \<^verbatim>\<open>shouldCompute()\<close> answers false. No
  other member function clears \<^verbatim>\<open>m_shouldCompute\<close>, nor does an \<^verbatim>\<open>onCompute\<close> that leaves by
  an exception. A member function that finds the flag false and leaves it true is \<^verbatim>\<open>onGui\<close>
  (alone or inside \<^verbatim>\<open>onFrame\<close>) in a frame where a parameter widget reported a change
  (\<^verbatim>\<open>changed\<close>) or the output size slider did.
\<close>

theorem shouldCompute_lifecycle:
  "(onCompute env app = (Inr u, app') \<longrightarrow>
      \<not> m_shouldCompute app' \<and> \<not> m_shouldReallocateTextures app' \<and> \<not> shouldCompute app')
   \<and> (onCompute env app = (Inl e, app') \<longrightarrow> m_shouldCompute app' = m_shouldCompute app)
   \<and> (op \<noteq> OnCompute \<and> m_shouldCompute app \<longrightarrow> m_shouldCompute (run env op app))
   \<and> (\<not> m_shouldCompute app \<and> m_shouldCompute (run env op app) \<longrightarrow>
        (\<exists>inp. (op = OnGui inp \<or> op = OnFrame True inp)
           \<and> (snd (editParameters inp (m_parameters app)) \<or> slider_outputSizeLog inp \<noteq> None)))"
proof -
  have 1: "\<not> m_shouldCompute app' \<and> \<not> m_shouldReallocateTextures app' \<and> \<not> shouldCompute app'"
    if "onCompute env app = (Inr u, app')"
    using onCompute_Inr [OF that] by (auto simp: shouldCompute_def)
  have 2: "m_shouldCompute app' = m_shouldCompute app" if "onCompute env app = (Inl e, app')"
    using onCompute_Inl [OF that] by simp
  have 3: "m_shouldCompute (run env op app)" if "op \<noteq> OnCompute \<and> m_shouldCompute app"
    using that
    by (cases op)
       (simp_all add: onInit_shouldCompute onFinish_fields onFrame_fields onGui_fields
          onResize_fields)
  have 4: "\<exists>inp. (op = OnGui inp \<or> op = OnFrame True inp)
           \<and> (snd (editParameters inp (m_parameters app)) \<or> slider_outputSizeLog inp \<noteq> None)"
    if a: "\<not> m_shouldCompute app \<and> m_shouldCompute (run env op app)"
  proof -
    have c: "\<not> m_shouldCompute (snd (onCompute env app))"
    proof (cases "onCompute env app")
      case (Pair r a')
      then show ?thesis
        using onCompute_Inr [of env app _ a'] onCompute_Inl [of env app _ a'] a
        by (cases r) auto
    qed
    from a c show ?thesis
      by (cases op)
         (auto simp: onInit_shouldCompute onFinish_fields onFrame_fields onGui_fields
            onResize_fields)
  qed
  from 1 2 3 4 show ?thesis by blast
qed

theorem shouldCompute_lifecycle_witness:
  "onCompute exampleEnv exampleReady = (Inr (), snd (onCompute exampleEnv exampleReady))
   \<and> \<not> m_shouldCompute (snd (onCompute exampleEnv exampleReady))
   \<and> \<not> m_shouldReallocateTextures (snd (onCompute exampleEnv exampleReady))
   \<and> \<not> shouldCompute (snd (onCompute exampleEnv exampleReady))
   \<and> m_shouldCompute exampleReady
   \<and> m_shouldCompute (run exampleEnv OnResize exampleReady)
   \<and> m_shouldCompute
        (run exampleEnv (OnGui (idleGui\<lparr>slider_outputSizeLog := Some 8\<rparr>))
           (snd (onCompute exampleEnv exampleReady)))
   \<and> fst (onCompute (exampleEnv\<lparr>stbi_load_result := None\<rparr>)
          (exampleReady\<lparr>m_shouldReallocateTextures := True\<rparr>))
        = Inl (RuntimeError ''Could not load input texture!'')
   \<and> m_shouldCompute
        (snd (onCompute (exampleEnv\<lparr>stbi_load_result := None\<rparr>)
           (exampleReady\<lparr>m_shouldReallocateTextures := True\<rparr>)))"
proof -
  let ?idle = "snd (onCompute exampleEnv exampleReady)"
  let ?gui = "idleGui\<lparr>slider_outputSizeLog := Some 8\<rparr>"
  let ?env = "exampleEnv\<lparr>stbi_load_result := None\<rparr>"
  let ?app = "exampleReady\<lparr>m_shouldReallocateTextures := True\<rparr>"
  have "fst (onCompute exampleEnv exampleReady) = Inr ()"
    by (rule onCompute_returns) (simp_all add: exampleReady_fields)
  then have r: "onCompute exampleEnv exampleReady = (Inr (), ?idle)"
    by (simp add: prod_eq_iff)
  have t: "fst (onCompute ?env ?app) = Inl (RuntimeError ''Could not load input texture!'')"
    by (rule onCompute_throws) simp_all
  then have l: "onCompute ?env ?app
      = (Inl (RuntimeError ''Could not load input texture!''), snd (onCompute ?env ?app))"
    by (simp add: prod_eq_iff)
  have c: "m_shouldCompute exampleReady" "m_shouldCompute ?app"
    by (simp_all add: exampleReady_fields)
  from shouldCompute_lifecycle [where env = exampleEnv and app = exampleReady and u = "()"
      and app' = ?idle and op = OnResize] r c
  have 1: "\<not> m_shouldCompute ?idle \<and> \<not> m_shouldReallocateTextures ?idle \<and> \<not> shouldCompute ?idle"
    and 2: "m_shouldCompute (run exampleEnv OnResize exampleReady)"
    by simp_all
  from shouldCompute_lifecycle [where env = ?env and app = ?app
      and app' = "snd (onCompute ?env ?app)"
      and e = "RuntimeError ''Could not load input texture!''" and op = OnResize] l c
  have 3: "m_shouldCompute (snd (onCompute ?env ?app))"
    by simp
  have 4: "m_shouldCompute (run exampleEnv (OnGui ?gui) ?idle)"
    by (simp add: onGui_fields)
  from r 1 c(1) 2 4 t 3 show ?thesis by simp
qed

section \<open>Failures of the initialisation\<close>

lemma initWindow_since:
  "since app (snd (initWindow env app)) =
     (if \<not> glfwInit_ok env then [Log Cerr ''Could not initialize GLFW!'']
      else [Create GlfwLibrary, Call ''glfwWindowHint'', Call ''glfwWindowHint'']
           @ (if \<not> glfwCreateWindow_ok env then [Log Cerr ''Could not open window!'']
              else [Create Window, Call ''glfwSetWindowUserPointer'',
                    Call ''glfwSetFramebufferSizeCallback'']))"
  by (simp add: initWindow_def Let_def since_def)

lemma initDevice_trace:
  "trace (snd (initDevice env app)) = trace app @
     (if \<not> createInstance_ok env then [Log Cerr ''Could not initialize WebGPU!'']
      else [Create Instance, Log Cout ''Requesting adapter...'', Create Surface]
           @ (if requestAdapter_ok env then [Create Adapter] else [])
           @ [Log Cout ''Got adapter: '', Log Cout ''Requesting device...'',
              Call ''Adapter::getLimits'']
           @ (if requestDevice_ok env then [Create Device] else [])
           @ [Log Cout ''Got device: '',
              Call ''Device::setUncapturedErrorCallback'',
              Call ''Device::setDeviceLostCallback'',
              Create Queue,
              Call (if WEBGPU_BACKEND_WGPU env then ''Queue::submit''
                    else ''Instance::processEvents'')])"
  by (simp add: initDevice_def)

text \<open>
  Claim C3, as the code has it. A failure of the window library, of the creation of the
  window or of the creation of the WebGPU instance is written to \<^verbatim>\<open>std::cerr\<close> and makes
  \<^verbatim>\<open>onInit\<close> return \<^verbatim>\<open>false\<close> at once, nothing more being created. A missing image file is
  not: \<^verbatim>\<open>initTextures\<close> throws \<^verbatim>\<open>std::runtime_error\<close>, \<^verbatim>\<open>onInit\<close> does not catch it, and
  nothing is written to \<^verbatim>\<open>std::cerr\<close>.
\<close>

theorem onInit_failures:
  "(\<not> glfwInit_ok env \<longrightarrow>
      fst (onInit env app) = Inr False
      \<and> since app (snd (onInit env app)) = [Log Cerr ''Could not initialize GLFW!''])
   \<and> (glfwInit_ok env \<and> \<not> glfwCreateWindow_ok env \<longrightarrow>
      fst (onInit env app) = Inr False
      \<and> since app (snd (onInit env app)) =
          [Create GlfwLibrary, Call ''glfwWindowHint'', Call ''glfwWindowHint'',
           Log Cerr ''Could not open window!''])
   \<and> (glfwInit_ok env \<and> glfwCreateWindow_ok env \<and> \<not> createInstance_ok env \<longrightarrow>
      fst (onInit env app) = Inr False
      \<and> since app (snd (onInit env app)) =
          [Create GlfwLibrary, Call ''glfwWindowHint'', Call ''glfwWindowHint'',
           Create Window, Call ''glfwSetWindowUserPointer'',
           Call ''glfwSetFramebufferSizeCallback'',
           Log Cerr ''Could not initialize WebGPU!''])
   \<and> (glfwInit_ok env \<and> glfwCreateWindow_ok env \<and> createInstance_ok env
        \<and> stbi_load_result env = None \<longrightarrow>
      fst (onInit env app) = Inl (RuntimeError ''Could not load input texture!'')
      \<and> Cerr \<notin> fst ` set (logged (since app (snd (onInit env app)))))"
proof -
  have 1: "fst (onInit env app) = Inr False
      \<and> since app (snd (onInit env app)) = [Log Cerr ''Could not initialize GLFW!'']"
    if "\<not> glfwInit_ok env"
    using that by (simp add: onInit_unfold initWindow_fields initWindow_since)
  have 2: "fst (onInit env app) = Inr False
      \<and> since app (snd (onInit env app)) =
          [Create GlfwLibrary, Call ''glfwWindowHint'', Call ''glfwWindowHint'',
           Log Cerr ''Could not open window!'']"
    if "glfwInit_ok env \<and> \<not> glfwCreateWindow_ok env"
    using that by (simp add: onInit_unfold initWindow_fields initWindow_since)
  have w: "trace (snd (initWindow env app)) = trace app @
       [Create GlfwLibrary, Call ''glfwWindowHint'', Call ''glfwWindowHint'',
        Create Window, Call ''glfwSetWindowUserPointer'',
        Call ''glfwSetFramebufferSizeCallback'']"
    if "glfwInit_ok env \<and> glfwCreateWindow_ok env"
    using that by (simp add: initWindow_def Let_def)
  have 3: "fst (onInit env app) = Inr False
      \<and> since app (snd (onInit env app)) =
          [Create GlfwLibrary, Call ''glfwWindowHint'', Call ''glfwWindowHint'',
           Create Window, Call ''glfwSetWindowUserPointer'',
           Call ''glfwSetFramebufferSizeCallback'',
           Log Cerr ''Could not initialize WebGPU!'']"
    if a: "glfwInit_ok env \<and> glfwCreateWindow_ok env \<and> \<not> createInstance_ok env"
  proof -
    from a have "trace (snd (onInit env app)) = trace app @
          [Create GlfwLibrary, Call ''glfwWindowHint'', Call ''glfwWindowHint'',
           Create Window, Call ''glfwSetWindowUserPointer'',
           Call ''glfwSetFramebufferSizeCallback'',
           Log Cerr ''Could not initialize WebGPU!'']"
      by (simp add: onInit_unfold initWindow_fields initDevice_fields initDevice_trace w)
    then show ?thesis
      using a by (simp add: since_append onInit_unfold initWindow_fields initDevice_fields)
  qed
  have 4: "fst (onInit env app) = Inl (RuntimeError ''Could not load input texture!'')
      \<and> Cerr \<notin> fst ` set (logged (since app (snd (onInit env app))))"
    if a: "glfwInit_ok env \<and> glfwCreateWindow_ok env \<and> createInstance_ok env
        \<and> stbi_load_result env = None"
  proof -
    let ?a0 = "initBuffers (initComputePipeline (initBindGroupLayout (initGui (initSwapChain
                     (snd (initDevice env (snd (initWindow env app))))))))"
    from a have i: "initTextures env ?a0
        = (Inl (RuntimeError ''Could not load input texture!''), emit [Call ''stbi_load''] ?a0)"
      by (simp add: initTextures_def Let_def)
    with a have r: "onInit env app
        = (Inl (RuntimeError ''Could not load input texture!''), emit [Call ''stbi_load''] ?a0)"
      by (simp add: onInit_unfold initWindow_fields initDevice_fields)
    have "\<exists>cs. trace (emit [Call ''stbi_load''] ?a0) = trace app @ cs
        \<and> Cerr \<notin> fst ` set (logged cs)"
      using a
      by (simp add: initBuffers_def initComputePipeline_def initBindGroupLayout_def
          initGui_def initSwapChain_def initDevice_trace w)
    then obtain cs where "trace (emit [Call ''stbi_load''] ?a0) = trace app @ cs"
      and "Cerr \<notin> fst ` set (logged cs)" by blast
    with r show ?thesis by (simp add: since_append)
  qed
  from 1 2 3 4 show ?thesis by blast
qed

theorem onInit_failures_witness:
  "fst (onInit (exampleEnv\<lparr>glfwInit_ok := False\<rparr>) exampleApp) = Inr False
   \<and> since exampleApp (snd (onInit (exampleEnv\<lparr>glfwInit_ok := False\<rparr>) exampleApp))
       = [Log Cerr ''Could not initialize GLFW!'']
   \<and> fst (onInit (exampleEnv\<lparr>glfwCreateWindow_ok := False\<rparr>) exampleApp) = Inr False
   \<and> logged (since exampleApp
         (snd (onInit (exampleEnv\<lparr>glfwCreateWindow_ok := False\<rparr>) exampleApp)))
       = [(Cerr, ''Could not open window!'')]
   \<and> fst (onInit (exampleEnv\<lparr>createInstance_ok := False\<rparr>) exampleApp) = Inr False
   \<and> logged (since exampleApp
         (snd (onInit (exampleEnv\<lparr>createInstance_ok := False\<rparr>) exampleApp)))
       = [(Cerr, ''Could not initialize WebGPU!'')]
   \<and> fst (onInit (exampleEnv\<lparr>stbi_load_result := None\<rparr>) exampleApp)
       = Inl (RuntimeError ''Could not load input texture!'')
   \<and> Cerr \<notin> fst ` set (logged (since exampleApp
         (snd (onInit (exampleEnv\<lparr>stbi_load_result := None\<rparr>) exampleApp))))"
  using onInit_failures [of "exampleEnv\<lparr>glfwInit_ok := False\<rparr>" exampleApp]
    onInit_failures [of "exampleEnv\<lparr>glfwCreateWindow_ok := False\<rparr>" exampleApp]
    onInit_failures [of "exampleEnv\<lparr>createInstance_ok := False\<rparr>" exampleApp]
    onInit_failures [of "exampleEnv\<lparr>stbi_load_result := None\<rparr>" exampleApp]
  by (simp add: exampleEnv_def)

text \<open>
  Claim C3 as stated fails for the missing image file: in the example world without the
  image, \<^verbatim>\<open>onInit\<close> does not return \<^verbatim>\<open>false\<close> but leaves by the exception, and the console
  has the six progress lines of \<^verbatim>\<open>initDevice\<close> and \<^verbatim>\<open>initSwapChain\<close> on \<^verbatim>\<open>std::cout\<close> and
  no report of the failure.
\<close>

theorem onInit_missing_image_counterexample:
  "fst (onInit (exampleEnv\<lparr>stbi_load_result := None\<rparr>) exampleApp)
     = Inl (RuntimeError ''Could not load input texture!'')
   \<and> fst (onInit (exampleEnv\<lparr>stbi_load_result := None\<rparr>) exampleApp) \<noteq> Inr False
   \<and> logged (since exampleApp (snd (onInit (exampleEnv\<lparr>stbi_load_result := None\<rparr>) exampleApp)))
     = [(Cout, ''Requesting adapter...''), (Cout, ''Got adapter: ''),
        (Cout, ''Requesting device...''), (Cout, ''Got device: ''),
        (Cout, ''Creating swapchain...''), (Cout, ''Swapchain: '')]"
proof -
  let ?env = "exampleEnv\<lparr>stbi_load_result := None\<rparr>"
  let ?a0 = "initBuffers (initComputePipeline (initBindGroupLayout (initGui (initSwapChain
                     (snd (initDevice ?env (snd (initWindow ?env exampleApp))))))))"
  have r: "onInit ?env exampleApp
      = (Inl (RuntimeError ''Could not load input texture!''), emit [Call ''stbi_load''] ?a0)"
    by (simp add: onInit_unfold initWindow_fields initDevice_fields initTextures_def Let_def
        exampleEnv_def)
  have "logged (drop (length (trace exampleApp)) (trace (emit [Call ''stbi_load''] ?a0)))
     = [(Cout, ''Requesting adapter...''), (Cout, ''Got adapter: ''),
        (Cout, ''Requesting device...''), (Cout, ''Got device: ''),
        (Cout, ''Creating swapchain...''), (Cout, ''Swapchain: '')]"
    by (simp add: initBuffers_def initComputePipeline_def initBindGroupLayout_def
        initGui_def initSwapChain_def initDevice_trace initWindow_def Let_def exampleEnv_def)
  with r show ?thesis by (simp add: since_def)
qed

section \<open>Creation and teardown\<close>

lemma created_layers:
  "created (map (\<lambda>j. Create (OutputTextureLayer j)) xs) = map OutputTextureLayer xs"
  by (induction xs) simp_all

lemma onInit_created:
  assumes "onInit env app = (Inr True, app1)"
  shows "created (since app app1) =
     [GlfwLibrary, Window, Instance, Surface]
     @ (if requestAdapter_ok env then [Adapter] else [])
     @ (if requestDevice_ok env then [Device] else [])
     @ [Queue, SwapChain, ImGuiContext, ImGuiGlfwBackend, ImGuiWgpuBackend,
        BindGroupLayout, ShaderModule, PipelineLayout, ComputePipeline, UniformBuffer,
        InputTexture, OutputTexture, InputTextureView,
        OutputTextureLayer 0, OutputTextureLayer 1, OutputTextureLayer 2,
        OutputTextureLayer 3, OutputTextureLayer 4, OutputTextureLayer 5,
        OutputTextureView, BindGroup]"
proof -
  let ?a0 = "initBuffers (initComputePipeline (initBindGroupLayout (initGui (initSwapChain
                     (snd (initDevice env (snd (initWindow env app))))))))"
  from assms have ok: "glfwInit_ok env" "glfwCreateWindow_ok env" "createInstance_ok env"
    by (auto simp: onInit_unfold initWindow_fields initDevice_fields split: if_splits)
  from assms ok obtain a3 where i: "initTextures env ?a0 = (Inr (), a3)"
    and app1: "app1 = initBindGroup (initTextureViews a3)"
    by (auto simp: onInit_unfold initWindow_fields initDevice_fields split: prod.splits sum.splits)
  from initTextures_Inr [OF i] obtain x where
    a3: "trace a3 = trace ?a0 @ [Call ''stbi_load'', Create InputTexture, Create OutputTexture,
             WriteTexture InputTexture 0 x, Call ''stbi_image_free'']"
    by auto
  have a0: "trace ?a0 = trace app @
     ([Create GlfwLibrary, Call ''glfwWindowHint'', Call ''glfwWindowHint'',
       Create Window, Call ''glfwSetWindowUserPointer'', Call ''glfwSetFramebufferSizeCallback'',
       Create Instance, Log Cout ''Requesting adapter...'', Create Surface]
      @ (if requestAdapter_ok env then [Create Adapter] else [])
      @ [Log Cout ''Got adapter: '', Log Cout ''Requesting device...'',
         Call ''Adapter::getLimits'']
      @ (if requestDevice_ok env then [Create Device] else [])
      @ [Log Cout ''Got device: '',
         Call ''Device::setUncapturedErrorCallback'',
         Call ''Device::setDeviceLostCallback'',
         Create Queue,
         Call (if WEBGPU_BACKEND_WGPU env then ''Queue::submit'' else ''Instance::processEvents''),
         Call ''glfwGetFramebufferSize'', Log Cout ''Creating swapchain...'',
         Create SwapChain, Log Cout ''Swapchain: '',
         Create ImGuiContext, Call ''ImGui::GetIO'', Create ImGuiGlfwBackend,
         Create ImGuiWgpuBackend,
         Create BindGroupLayout,
         Create ShaderModule, Create PipelineLayout, Create ComputePipeline,
         Create UniformBuffer])"
    using ok
    by (simp add: initBuffers_def initComputePipeline_def initBindGroupLayout_def
        initGui_def initSwapChain_def initDevice_trace initWindow_def Let_def)
  have t1: "trace app1 = trace a3 @ ([Create InputTextureView]
       @ map (\<lambda>j. Create (OutputTextureLayer j)) [0..<6]
       @ [Create OutputTextureView, Create BindGroup])"
    by (simp add: app1 initBindGroup_def Let_def initTextureViews_trace)
  have "since app app1 = drop (length (trace app)) (trace app1)" by (simp add: since_def)
  also have "\<dots> = drop (length (trace app)) (trace app @
     (([Create GlfwLibrary, Call ''glfwWindowHint'', Call ''glfwWindowHint'',
       Create Window, Call ''glfwSetWindowUserPointer'', Call ''glfwSetFramebufferSizeCallback'',
       Create Instance, Log Cout ''Requesting adapter...'', Create Surface]
      @ (if requestAdapter_ok env then [Create Adapter] else [])
      @ [Log Cout ''Got adapter: '', Log Cout ''Requesting device...'',
         Call ''Adapter::getLimits'']
      @ (if requestDevice_ok env then [Create Device] else [])
      @ [Log Cout ''Got device: '',
         Call ''Device::setUncapturedErrorCallback'',
         Call ''Device::setDeviceLostCallback'',
         Create Queue,
         Call (if WEBGPU_BACKEND_WGPU env then ''Queue::submit'' else ''Instance::processEvents''),
         Call ''glfwGetFramebufferSize'', Log Cout ''Creating swapchain...'',
         Create SwapChain, Log Cout ''Swapchain: '',
         Create ImGuiContext, Call ''ImGui::GetIO'', Create ImGuiGlfwBackend,
         Create ImGuiWgpuBackend,
         Create BindGroupLayout,
         Create ShaderModule, Create PipelineLayout, Create ComputePipeline,
         Create UniformBuffer])
      @ [Call ''stbi_load'', Create InputTexture, Create OutputTexture,
             WriteTexture InputTexture 0 x, Call ''stbi_image_free'']
      @ ([Create InputTextureView]
       @ map (\<lambda>j. Create (OutputTextureLayer j)) [0..<6]
       @ [Create OutputTextureView, Create BindGroup])))"
    unfolding t1 a3 a0 by (simp only: append_assoc)
  finally show ?thesis
    by (simp add: created_layers upt_0_6 del: upt_Suc)
qed

lemma onFinish_released:
  "released (since app (onFinish env app)) =
     [BindGroup, InputTextureView, OutputTextureView,
      OutputTextureLayer 0, OutputTextureLayer 1, OutputTextureLayer 2,
      OutputTextureLayer 3, OutputTextureLayer 4, OutputTextureLayer 5,
      InputTexture, OutputTexture, UniformBuffer, ComputePipeline, PipelineLayout,
      BindGroupLayout, ImGuiWgpuBackend, ImGuiGlfwBackend, SwapChain]
     @ (if WEBGPU_BACKEND_WGPU env then [] else [Queue])
     @ [Device, Instance, Window, GlfwLibrary]"
  by (simp add: onFinish_def terminateWindow_def terminateDevice_def terminateSwapChain_def
      terminateGui_def terminateBindGroupLayout_def terminateComputePipeline_def
      terminateBuffers_def terminateTextures_def terminateTextureViews_def terminateBindGroup_def
      since_def)

lemma released_layers:
  "released (map (\<lambda>j. Create (OutputTextureLayer j)) xs) = []"
  by (induction xs) simp_all

lemma onCompute_reallocation:
  assumes re: "m_shouldReallocateTextures app" and comp: "onCompute env app = (Inr u, app')"
  shows "\<exists>pre mid pass. since app app' = pre @ mid @ pass
     \<and> released pre =
         [BindGroup, InputTextureView, OutputTextureView,
          OutputTextureLayer 0, OutputTextureLayer 1, OutputTextureLayer 2,
          OutputTextureLayer 3, OutputTextureLayer 4, OutputTextureLayer 5,
          InputTexture, OutputTexture]
     \<and> created pre = []
     \<and> created mid =
         [InputTexture, OutputTexture, InputTextureView,
          OutputTextureLayer 0, OutputTextureLayer 1, OutputTextureLayer 2,
          OutputTextureLayer 3, OutputTextureLayer 4, OutputTextureLayer 5,
          OutputTextureView, BindGroup]
     \<and> released mid = []
     \<and> created pass = [CommandEncoder, ComputePassEncoder, CommandBuffer]
     \<and> released pass =
         (if WEBGPU_BACKEND_WGPU env then []
          else [CommandBuffer, CommandEncoder, ComputePassEncoder])"
proof -
  let ?a0 = "emit [Log Cout ''Computing...''] app"
  let ?b = "terminateTextures (terminateTextureViews (terminateBindGroup ?a0))"
  from comp obtain a1 where r: "reallocateTextures env ?a0 = (Inr (), a1)"
    by (auto simp: onCompute_def split: prod.splits sum.splits)
  with re obtain b1 where i: "initTextures env ?b = (Inr (), b1)"
    and a1: "a1 = (initBindGroup (initTextureViews b1))\<lparr>m_shouldReallocateTextures := False\<rparr>"
    by (auto simp: reallocateTextures_def split: prod.splits sum.splits)
  from initTextures_Inr [OF i] obtain x where
    b1: "trace b1 = trace ?b @ [Call ''stbi_load'', Create InputTexture, Create OutputTexture,
             WriteTexture InputTexture 0 x, Call ''stbi_image_free'']"
    by auto
  have tb: "trace ?b = trace app @ [Log Cout ''Computing...'',
      Release BindGroup, Release InputTextureView, Release OutputTextureView,
      Release (OutputTextureLayer 0), Release (OutputTextureLayer 1), Release (OutputTextureLayer 2),
      Release (OutputTextureLayer 3), Release (OutputTextureLayer 4), Release (OutputTextureLayer 5),
      Destroy InputTexture, Release InputTexture, Destroy OutputTexture, Release OutputTexture]"
    by (simp add: terminateTextures_def terminateTextureViews_def terminateBindGroup_def)
  have t1: "trace a1 = trace b1 @ ([Create InputTextureView]
       @ map (\<lambda>j. Create (OutputTextureLayer j)) [0..<6]
       @ [Create OutputTextureView, Create BindGroup])"
    by (simp add: a1 initBindGroup_def Let_def initTextureViews_trace)
  let ?a2 = "emit [WriteBuffer UniformBuffer, Create CommandEncoder,
                   Create ComputePassEncoder, SetPipeline ComputePipeline] a1"
  from comp r obtain a3 where l: "dispatchLoop 0 ?a2 = (Inr (), a3)"
    by (auto simp: onCompute_def split: prod.splits sum.splits)
  let ?post = "[Call ''ComputePassEncoder::end'', Create CommandBuffer, Call ''Queue::submit'']
                @ (if WEBGPU_BACKEND_WGPU env then []
                   else [Release CommandBuffer, Release CommandEncoder, Release ComputePassEncoder])"
  from comp r l have app': "app' = (emit ?post a3)\<lparr>m_shouldCompute := False\<rparr>"
    by (simp add: onCompute_def)
  from l have "dispatchBody ?a2 = (Inr (), a3)"
    by (auto simp: dispatchLoop_0 split: prod.splits sum.splits)
  from dispatchBody_Inr [OF this] obtain g x1 y1 where
    a3: "a3 = emit [SetBindGroup 0 g, DispatchWorkgroups x1 y1 1] ?a2"
    by auto
  let ?pre = "[Log Cout ''Computing...'',
      Release BindGroup, Release InputTextureView, Release OutputTextureView,
      Release (OutputTextureLayer 0), Release (OutputTextureLayer 1), Release (OutputTextureLayer 2),
      Release (OutputTextureLayer 3), Release (OutputTextureLayer 4), Release (OutputTextureLayer 5),
      Destroy InputTexture, Release InputTexture, Destroy OutputTexture, Release OutputTexture]"
  let ?mid = "[Call ''stbi_load'', Create InputTexture, Create OutputTexture,
             WriteTexture InputTexture 0 x, Call ''stbi_image_free'']
      @ ([Create InputTextureView]
       @ map (\<lambda>j. Create (OutputTextureLayer j)) [0..<6]
       @ [Create OutputTextureView, Create BindGroup])"
  let ?pass = "[WriteBuffer UniformBuffer, Create CommandEncoder,
                   Create ComputePassEncoder, SetPipeline ComputePipeline,
         SetBindGroup 0 g, DispatchWorkgroups x1 y1 1] @ ?post"
  have "trace app' = trace app @ (?pre @ ?mid @ ?pass)"
    by (simp add: app' a3 t1 b1 tb)
  then have s: "since app app' = ?pre @ ?mid @ ?pass" by (rule since_append)
  have p1: "released ?pre =
         [BindGroup, InputTextureView, OutputTextureView,
          OutputTextureLayer 0, OutputTextureLayer 1, OutputTextureLayer 2,
          OutputTextureLayer 3, OutputTextureLayer 4, OutputTextureLayer 5,
          InputTexture, OutputTexture]"
    and p2: "created ?pre = []"
    by simp_all
  have m1: "created ?mid =
         [InputTexture, OutputTexture, InputTextureView,
          OutputTextureLayer 0, OutputTextureLayer 1, OutputTextureLayer 2,
          OutputTextureLayer 3, OutputTextureLayer 4, OutputTextureLayer 5,
          OutputTextureView, BindGroup]"
    and m2: "released ?mid = []"
    by (simp_all add: created_layers released_layers upt_0_6 del: upt_Suc)
  have q1: "created ?pass = [CommandEncoder, ComputePassEncoder, CommandBuffer]"
    and q2: "released ?pass =
         (if WEBGPU_BACKEND_WGPU env then []
          else [CommandBuffer, CommandEncoder, ComputePassEncoder])"
    by simp_all
  from s p1 p2 m1 m2 q1 q2 show ?thesis by blast
qed

lemma onCompute_reallocation_throws:
  assumes re: "m_shouldReallocateTextures app" and comp: "onCompute env app = (Inl e, app')"
  shows "released (since app app') =
         [BindGroup, InputTextureView, OutputTextureView,
          OutputTextureLayer 0, OutputTextureLayer 1, OutputTextureLayer 2,
          OutputTextureLayer 3, OutputTextureLayer 4, OutputTextureLayer 5,
          InputTexture, OutputTexture]"
proof -
  let ?a0 = "emit [Log Cout ''Computing...''] app"
  let ?b = "terminateTextures (terminateTextureViews (terminateBindGroup ?a0))"
  obtain r a1 where r: "reallocateTextures env ?a0 = (r, a1)"
    by (cases "reallocateTextures env ?a0")
  have tb: "trace ?b = trace app @ [Log Cout ''Computing...'',
      Release BindGroup, Release InputTextureView, Release OutputTextureView,
      Release (OutputTextureLayer 0), Release (OutputTextureLayer 1), Release (OutputTextureLayer 2),
      Release (OutputTextureLayer 3), Release (OutputTextureLayer 4), Release (OutputTextureLayer 5),
      Destroy InputTexture, Release InputTexture, Destroy OutputTexture, Release OutputTexture]"
    by (simp add: terminateTextures_def terminateTextureViews_def terminateBindGroup_def)
  show ?thesis
  proof (cases r)
    case (Inl e1)
    from Inl r comp have app': "app' = a1"
      by (simp add: onCompute_def)
    from Inl r re have "initTextures env ?b = (Inl e1, a1)"
      by (auto simp: reallocateTextures_def split: prod.splits sum.splits if_splits)
    from initTextures_Inl [OF this] obtain cs where
      "trace a1 = trace ?b @ cs" and cs: "released cs = []" by blast
    then have "trace a1 = trace app @ ([Log Cout ''Computing...'',
      Release BindGroup, Release InputTextureView, Release OutputTextureView,
      Release (OutputTextureLayer 0), Release (OutputTextureLayer 1), Release (OutputTextureLayer 2),
      Release (OutputTextureLayer 3), Release (OutputTextureLayer 4), Release (OutputTextureLayer 5),
      Destroy InputTexture, Release InputTexture, Destroy OutputTexture, Release OutputTexture] @ cs)"
      by (simp add: tb)
    from since_append [OF this] cs show ?thesis by (simp add: app')
  next
    case (Inr u)
    let ?a2 = "emit [WriteBuffer UniformBuffer, Create CommandEncoder,
                   Create ComputePassEncoder, SetPipeline ComputePipeline] a1"
    from Inr r comp have "dispatchLoop 0 ?a2 = (Inl e, app')"
      by (auto simp: onCompute_def split: prod.splits sum.splits)
    then have b: "dispatchBody ?a2 = (Inl e, app')"
      by (auto simp: dispatchLoop_0 split: prod.splits sum.splits)
    from Inr r re obtain b1 where i: "initTextures env ?b = (Inr (), b1)"
      and a1: "a1 = (initBindGroup (initTextureViews b1))\<lparr>m_shouldReallocateTextures := False\<rparr>"
      by (auto simp: reallocateTextures_def split: prod.splits sum.splits)
    from initTextures_Inr [OF i] have "m_outputTexture b1 \<noteq> None" by auto
    then have "m_outputTexture ?a2 \<noteq> None"
      by (simp add: a1 initBindGroup_def Let_def initTextureViews_fields)
    with b show ?thesis
      by (auto simp: dispatchBody_def Let_def split: option.splits)
  qed
qed

text \<open>
  Claim C5, as the code has it. A teardown sequence is what the \<^verbatim>\<open>terminate\<close> functions
  release, in \<^verbatim>\<open>onFinish\<close> and in the reallocation of \<^verbatim>\<open>onCompute\<close>. \<^verbatim>\<open>onFinish\<close> releases
  exactly: the bind group; the input view, the array view of the output and its layer views
  0 to 5; the input and the output texture; the uniform buffer; the compute pipeline, the
  pipeline layout; the bind group layout; the two ImGui backends; the swap chain; the queue
  (not in a WGPU build); the device, the instance; the window and the window library. After
  a successful \<^verbatim>\<open>onInit\<close> this is, stage by stage, the exact reverse of the order in which
  \<^verbatim>\<open>onInit\<close> ran the stages, and nothing in it is released after an object it was built
  from. A reallocating \<^verbatim>\<open>onCompute\<close> first releases exactly the bind group, the eight views
  and the two textures in that same order, whether it returns or leaves by an exception;
  when it returns it has then created the textures, the views and the bind group in the
  order of \<^verbatim>\<open>onInit\<close>, nothing being created before the last release of the teardown and
  nothing released during the creation. The objects of the compute pass that follows are
  not part of a teardown sequence: the command encoder, the pass encoder and the command
  buffer are created in this order and, in a build that is not WGPU, released at the end
  of \<^verbatim>\<open>onCompute\<close> in the order command buffer, command encoder, pass encoder (the command
  encoder before the pass encoder that was begun from it); a WGPU build releases none of
  them.
\<close>

theorem teardown_reverses_stages:
  "released (since app0 (onFinish env0 app0)) =
     [BindGroup, InputTextureView, OutputTextureView,
      OutputTextureLayer 0, OutputTextureLayer 1, OutputTextureLayer 2,
      OutputTextureLayer 3, OutputTextureLayer 4, OutputTextureLayer 5,
      InputTexture, OutputTexture, UniformBuffer, ComputePipeline, PipelineLayout,
      BindGroupLayout, ImGuiWgpuBackend, ImGuiGlfwBackend, SwapChain]
     @ (if WEBGPU_BACKEND_WGPU env0 then [] else [Queue])
     @ [Device, Instance, Window, GlfwLibrary]
   \<and> dependantsFirst (released (since app0 (onFinish env0 app0)))
   \<and> (onInit env app = (Inr True, app1) \<longrightarrow>
      remdups_adj (map stage_of (released (since app1 (onFinish env app1))))
        = rev (remdups_adj (map stage_of (created (since app app1)))))
   \<and> (m_shouldReallocateTextures app2 \<and> onCompute env2 app2 = (Inr u, app3) \<longrightarrow>
      (\<exists>pre mid pass. since app2 app3 = pre @ mid @ pass
         \<and> released pre =
             [BindGroup, InputTextureView, OutputTextureView,
              OutputTextureLayer 0, OutputTextureLayer 1, OutputTextureLayer 2,
              OutputTextureLayer 3, OutputTextureLayer 4, OutputTextureLayer 5,
              InputTexture, OutputTexture]
         \<and> created pre = []
         \<and> created mid =
             [InputTexture, OutputTexture, InputTextureView,
              OutputTextureLayer 0, OutputTextureLayer 1, OutputTextureLayer 2,
              OutputTextureLayer 3, OutputTextureLayer 4, OutputTextureLayer 5,
              OutputTextureView, BindGroup]
         \<and> released mid = []
         \<and> remdups_adj (map stage_of (released pre))
             = rev (remdups_adj (map stage_of (created mid)))
         \<and> dependantsFirst (released pre)
         \<and> created pass = [CommandEncoder, ComputePassEncoder, CommandBuffer]
         \<and> released pass =
             (if WEBGPU_BACKEND_WGPU env2 then []
              else [CommandBuffer, CommandEncoder, ComputePassEncoder])))
   \<and> (m_shouldReallocateTextures app4 \<and> onCompute env4 app4 = (Inl e, app5) \<longrightarrow>
      released (since app4 app5) =
             [BindGroup, InputTextureView, OutputTextureView,
              OutputTextureLayer 0, OutputTextureLayer 1, OutputTextureLayer 2,
              OutputTextureLayer 3, OutputTextureLayer 4, OutputTextureLayer 5,
              InputTexture, OutputTexture])"
proof -
  have 1: "released (since app0 (onFinish env0 app0)) =
     [BindGroup, InputTextureView, OutputTextureView,
      OutputTextureLayer 0, OutputTextureLayer 1, OutputTextureLayer 2,
      OutputTextureLayer 3, OutputTextureLayer 4, OutputTextureLayer 5,
      InputTexture, OutputTexture, UniformBuffer, ComputePipeline, PipelineLayout,
      BindGroupLayout, ImGuiWgpuBackend, ImGuiGlfwBackend, SwapChain]
     @ (if WEBGPU_BACKEND_WGPU env0 then [] else [Queue])
     @ [Device, Instance, Window, GlfwLibrary]"
    by (rule onFinish_released)
  have 2: "dependantsFirst (released (since app0 (onFinish env0 app0)))"
    by (simp add: onFinish_released)
  have 3: "remdups_adj (map stage_of (released (since app1 (onFinish env app1))))
        = rev (remdups_adj (map stage_of (created (since app app1))))"
    if "onInit env app = (Inr True, app1)"
    by (simp add: onInit_created [OF that] onFinish_released)
  have 4: "\<exists>pre mid pass. since app2 app3 = pre @ mid @ pass
         \<and> released pre =
             [BindGroup, InputTextureView, OutputTextureView,
              OutputTextureLayer 0, OutputTextureLayer 1, OutputTextureLayer 2,
              OutputTextureLayer 3, OutputTextureLayer 4, OutputTextureLayer 5,
              InputTexture, OutputTexture]
         \<and> created pre = []
         \<and> created mid =
             [InputTexture, OutputTexture, InputTextureView,
              OutputTextureLayer 0, OutputTextureLayer 1, OutputTextureLayer 2,
              OutputTextureLayer 3, OutputTextureLayer 4, OutputTextureLayer 5,
              OutputTextureView, BindGroup]
         \<and> released mid = []
         \<and> remdups_adj (map stage_of (released pre))
             = rev (remdups_adj (map stage_of (created mid)))
         \<and> dependantsFirst (released pre)
         \<and> created pass = [CommandEncoder, ComputePassEncoder, CommandBuffer]
         \<and> released pass =
             (if WEBGPU_BACKEND_WGPU env2 then []
              else [CommandBuffer, CommandEncoder, ComputePassEncoder])"
    if h: "m_shouldReallocateTextures app2 \<and> onCompute env2 app2 = (Inr u, app3)"
  proof -
    from h onCompute_reallocation [of app2 env2 u app3] obtain pre mid pass where
      s: "since app2 app3 = pre @ mid @ pass"
      and p1: "released pre =
             [BindGroup, InputTextureView, OutputTextureView,
              OutputTextureLayer 0, OutputTextureLayer 1, OutputTextureLayer 2,
              OutputTextureLayer 3, OutputTextureLayer 4, OutputTextureLayer 5,
              InputTexture, OutputTexture]"
      and p2: "created pre = []"
      and m1: "created mid =
             [InputTexture, OutputTexture, InputTextureView,
              OutputTextureLayer 0, OutputTextureLayer 1, OutputTextureLayer 2,
              OutputTextureLayer 3, OutputTextureLayer 4, OutputTextureLayer 5,
              OutputTextureView, BindGroup]"
      and m2: "released mid = []"
      and q1: "created pass = [CommandEncoder, ComputePassEncoder, CommandBuffer]"
      and q2: "released pass =
             (if WEBGPU_BACKEND_WGPU env2 then []
              else [CommandBuffer, CommandEncoder, ComputePassEncoder])"
      by blast
    have r: "remdups_adj (map stage_of (released pre))
             = rev (remdups_adj (map stage_of (created mid)))"
      unfolding p1 m1 by simp
    have d: "dependantsFirst (released pre)"
      unfolding p1 by simp
    from s p1 p2 m1 m2 r d q1 q2 show ?thesis by blast
  qed
  have 5: "released (since app4 app5) =
             [BindGroup, InputTextureView, OutputTextureView,
              OutputTextureLayer 0, OutputTextureLayer 1, OutputTextureLayer 2,
              OutputTextureLayer 3, OutputTextureLayer 4, OutputTextureLayer 5,
              InputTexture, OutputTexture]"
    if "m_shouldReallocateTextures app4 \<and> onCompute env4 app4 = (Inl e, app5)"
    using onCompute_reallocation_throws [of app4 env4 e app5] that by simp
  from 1 2 3 4 5 show ?thesis by blast
qed

theorem teardown_reverses_stages_witness:
  "released (since exampleReady (onFinish exampleEnv exampleReady)) =
     [BindGroup, InputTextureView, OutputTextureView,
      OutputTextureLayer 0, OutputTextureLayer 1, OutputTextureLayer 2,
      OutputTextureLayer 3, OutputTextureLayer 4, OutputTextureLayer 5,
      InputTexture, OutputTexture, UniformBuffer, ComputePipeline, PipelineLayout,
      BindGroupLayout, ImGuiWgpuBackend, ImGuiGlfwBackend, SwapChain,
      Device, Instance, Window, GlfwLibrary]
   \<and> dependantsFirst (released (since exampleReady (onFinish exampleEnv exampleReady)))
   \<and> onInit exampleEnv exampleApp = (Inr True, exampleReady)
   \<and> remdups_adj (map stage_of (released (since exampleReady (onFinish exampleEnv exampleReady))))
       = rev (remdups_adj (map stage_of (created (since exampleApp exampleReady))))
   \<and> m_shouldReallocateTextures
        (onGui exampleEnv (idleGui\<lparr>slider_outputSizeLog := Some 8\<rparr>) exampleReady)
   \<and> fst (onCompute (exampleEnv\<lparr>WEBGPU_BACKEND_WGPU := False\<rparr>)
          (onGui exampleEnv (idleGui\<lparr>slider_outputSizeLog := Some 8\<rparr>) exampleReady)) = Inr ()
   \<and> (\<exists>pre mid pass.
         since (onGui exampleEnv (idleGui\<lparr>slider_outputSizeLog := Some 8\<rparr>) exampleReady)
            (snd (onCompute (exampleEnv\<lparr>WEBGPU_BACKEND_WGPU := False\<rparr>)
               (onGui exampleEnv (idleGui\<lparr>slider_outputSizeLog := Some 8\<rparr>) exampleReady)))
           = pre @ mid @ pass
         \<and> released pre =
             [BindGroup, InputTextureView, OutputTextureView,
              OutputTextureLayer 0, OutputTextureLayer 1, OutputTextureLayer 2,
              OutputTextureLayer 3, OutputTextureLayer 4, OutputTextureLayer 5,
              InputTexture, OutputTexture]
         \<and> created pre = []
         \<and> created mid =
             [InputTexture, OutputTexture, InputTextureView,
              OutputTextureLayer 0, OutputTextureLayer 1, OutputTextureLayer 2,
              OutputTextureLayer 3, OutputTextureLayer 4, OutputTextureLayer 5,
              OutputTextureView, BindGroup]
         \<and> released mid = []
         \<and> dependantsFirst (released pre)
         \<and> created pass = [CommandEncoder, ComputePassEncoder, CommandBuffer]
         \<and> released pass = [CommandBuffer, CommandEncoder, ComputePassEncoder])
   \<and> fst (onCompute (exampleEnv\<lparr>stbi_load_result := None\<rparr>)
          (onGui exampleEnv (idleGui\<lparr>slider_outputSizeLog := Some 8\<rparr>) exampleReady))
       = Inl (RuntimeError ''Could not load input texture!'')
   \<and> released
         (since (onGui exampleEnv (idleGui\<lparr>slider_outputSizeLog := Some 8\<rparr>) exampleReady)
            (snd (onCompute (exampleEnv\<lparr>stbi_load_result := None\<rparr>)
               (onGui exampleEnv (idleGui\<lparr>slider_outputSizeLog := Some 8\<rparr>) exampleReady))))
       = [BindGroup, InputTextureView, OutputTextureView,
          OutputTextureLayer 0, OutputTextureLayer 1, OutputTextureLayer 2,
          OutputTextureLayer 3, OutputTextureLayer 4, OutputTextureLayer 5,
          InputTexture, OutputTexture]"
proof -
  let ?app2 = "onGui exampleEnv (idleGui\<lparr>slider_outputSizeLog := Some 8\<rparr>) exampleReady"
  let ?env2 = "exampleEnv\<lparr>WEBGPU_BACKEND_WGPU := False\<rparr>"
  let ?env4 = "exampleEnv\<lparr>stbi_load_result := None\<rparr>"
  let ?app3 = "snd (onCompute ?env2 ?app2)"
  let ?app5 = "snd (onCompute ?env4 ?app2)"
  have init: "onInit exampleEnv exampleApp = (Inr True, exampleReady)"
    using onInit_example by (simp add: exampleReady_def prod_eq_iff)
  have re: "m_shouldReallocateTextures ?app2"
    by (simp add: onGui_fields)
  have ret: "fst (onCompute ?env2 ?app2) = Inr ()"
  proof (rule onCompute_returns)
    show "\<not> m_shouldReallocateTextures ?app2 \<longrightarrow> m_outputTexture ?app2 \<noteq> None"
      using re by simp
    show "m_shouldReallocateTextures ?app2 \<longrightarrow>
        stbi_load_result ?env2 \<noteq> None \<and> outputSizeLog (m_settings ?app2) < 32"
      by (simp add: onGui_outputSizeLog exampleEnv_def)
  qed
  then have comp: "onCompute ?env2 ?app2 = (Inr (), ?app3)"
    by (simp add: prod_eq_iff)
  have thr: "fst (onCompute ?env4 ?app2) = Inl (RuntimeError ''Could not load input texture!'')"
    by (rule onCompute_throws) (simp_all add: onGui_fields)
  then have comp4: "onCompute ?env4 ?app2
      = (Inl (RuntimeError ''Could not load input texture!''), ?app5)"
    by (simp add: prod_eq_iff)
  have wgpu: "WEBGPU_BACKEND_WGPU exampleEnv" "\<not> WEBGPU_BACKEND_WGPU ?env2"
    by (simp_all add: exampleEnv_def)
  note t = teardown_reverses_stages [where ?env0.0 = exampleEnv and ?app0.0 = exampleReady
      and env = exampleEnv and app = exampleApp and ?app1.0 = exampleReady
      and ?env2.0 = ?env2 and ?app2.0 = ?app2 and u = "()" and ?app3.0 = ?app3
      and ?env4.0 = ?env4 and ?app4.0 = ?app2
      and e = "RuntimeError ''Could not load input texture!''" and ?app5.0 = ?app5]
  from t wgpu have 1: "released (since exampleReady (onFinish exampleEnv exampleReady)) =
     [BindGroup, InputTextureView, OutputTextureView,
      OutputTextureLayer 0, OutputTextureLayer 1, OutputTextureLayer 2,
      OutputTextureLayer 3, OutputTextureLayer 4, OutputTextureLayer 5,
      InputTexture, OutputTexture, UniformBuffer, ComputePipeline, PipelineLayout,
      BindGroupLayout, ImGuiWgpuBackend, ImGuiGlfwBackend, SwapChain,
      Device, Instance, Window, GlfwLibrary]"
    by simp
  from t have 2: "dependantsFirst (released (since exampleReady (onFinish exampleEnv exampleReady)))"
    by blast
  from t init have 3:
    "remdups_adj (map stage_of (released (since exampleReady (onFinish exampleEnv exampleReady))))
       = rev (remdups_adj (map stage_of (created (since exampleApp exampleReady))))"
    by blast
  from t re comp wgpu have 4: "\<exists>pre mid pass. since ?app2 ?app3 = pre @ mid @ pass
         \<and> released pre =
             [BindGroup, InputTextureView, OutputTextureView,
              OutputTextureLayer 0, OutputTextureLayer 1, OutputTextureLayer 2,
              OutputTextureLayer 3, OutputTextureLayer 4, OutputTextureLayer 5,
              InputTexture, OutputTexture]
         \<and> created pre = []
         \<and> created mid =
             [InputTexture, OutputTexture, InputTextureView,
              OutputTextureLayer 0, OutputTextureLayer 1, OutputTextureLayer 2,
              OutputTextureLayer 3, OutputTextureLayer 4, OutputTextureLayer 5,
              OutputTextureView, BindGroup]
         \<and> released mid = []
         \<and> dependantsFirst (released pre)
         \<and> created pass = [CommandEncoder, ComputePassEncoder, CommandBuffer]
         \<and> released pass = [CommandBuffer, CommandEncoder, ComputePassEncoder]"
    by (simp only: if_False simp_thms) blast
  from t re comp4 have 5: "released (since ?app2 ?app5)
       = [BindGroup, InputTextureView, OutputTextureView,
          OutputTextureLayer 0, OutputTextureLayer 1, OutputTextureLayer 2,
          OutputTextureLayer 3, OutputTextureLayer 4, OutputTextureLayer 5,
          InputTexture, OutputTexture]"
    by blast
  from 1 2 init 3 re ret 4 thr 5 show ?thesis by blast
qed

text \<open>
  Claim C5 as stated fails inside two stages. \<^verbatim>\<open>initTextures\<close> creates the input texture
  before the output texture and \<^verbatim>\<open>terminateTextures\<close> releases them in that same order;
  \<^verbatim>\<open>initTextureViews\<close> creates the input view, the six layer views and then the array view,
  and \<^verbatim>\<open>terminateTextureViews\<close> releases the input view, the array view and then the six
  layer views from 0 to 5. So the releases of \<^verbatim>\<open>onFinish\<close> are not the creations of \<^verbatim>\<open>onInit\<close>
  in exact reverse.
\<close>

theorem teardown_not_exact_reverse_counterexample:
  "exampleCreated =
     [GlfwLibrary, Window, Instance, Surface, Adapter, Device, Queue, SwapChain,
      ImGuiContext, ImGuiGlfwBackend, ImGuiWgpuBackend,
      BindGroupLayout, ShaderModule, PipelineLayout, ComputePipeline, UniformBuffer,
      InputTexture, OutputTexture, InputTextureView,
      OutputTextureLayer 0, OutputTextureLayer 1, OutputTextureLayer 2,
      OutputTextureLayer 3, OutputTextureLayer 4, OutputTextureLayer 5,
      OutputTextureView, BindGroup]
   \<and> exampleReleased =
     [BindGroup, InputTextureView, OutputTextureView,
      OutputTextureLayer 0, OutputTextureLayer 1, OutputTextureLayer 2,
      OutputTextureLayer 3, OutputTextureLayer 4, OutputTextureLayer 5,
      InputTexture, OutputTexture, UniformBuffer, ComputePipeline, PipelineLayout,
      BindGroupLayout, ImGuiWgpuBackend, ImGuiGlfwBackend, SwapChain,
      Device, Instance, Window, GlfwLibrary]
   \<and> rev (filter (\<lambda>h. h \<in> set exampleReleased) exampleCreated) =
     [BindGroup, OutputTextureView,
      OutputTextureLayer 5, OutputTextureLayer 4, OutputTextureLayer 3,
      OutputTextureLayer 2, OutputTextureLayer 1, OutputTextureLayer 0,
      InputTextureView, OutputTexture, InputTexture, UniformBuffer, ComputePipeline,
      PipelineLayout, BindGroupLayout, ImGuiWgpuBackend, ImGuiGlfwBackend, SwapChain,
      Device, Instance, Window, GlfwLibrary]
   \<and> exampleReleased \<noteq> rev (filter (\<lambda>h. h \<in> set exampleReleased) exampleCreated)"
proof -
  have init: "onInit exampleEnv exampleApp = (Inr True, exampleReady)"
    using onInit_example by (simp add: exampleReady_def prod_eq_iff)
  have c: "exampleCreated =
     [GlfwLibrary, Window, Instance, Surface, Adapter, Device, Queue, SwapChain,
      ImGuiContext, ImGuiGlfwBackend, ImGuiWgpuBackend,
      BindGroupLayout, ShaderModule, PipelineLayout, ComputePipeline, UniformBuffer,
      InputTexture, OutputTexture, InputTextureView,
      OutputTextureLayer 0, OutputTextureLayer 1, OutputTextureLayer 2,
      OutputTextureLayer 3, OutputTextureLayer 4, OutputTextureLayer 5,
      OutputTextureView, BindGroup]"
    unfolding exampleCreated_def onInit_created [OF init] by (simp add: exampleEnv_def)
  have r: "exampleReleased =
     [BindGroup, InputTextureView, OutputTextureView,
      OutputTextureLayer 0, OutputTextureLayer 1, OutputTextureLayer 2,
      OutputTextureLayer 3, OutputTextureLayer 4, OutputTextureLayer 5,
      InputTexture, OutputTexture, UniformBuffer, ComputePipeline, PipelineLayout,
      BindGroupLayout, ImGuiWgpuBackend, ImGuiGlfwBackend, SwapChain,
      Device, Instance, Window, GlfwLibrary]"
    unfolding exampleReleased_def onFinish_released by (simp add: exampleEnv_def)
  show ?thesis
    unfolding c r by simp
qed

section \<open>Rounding to single precision\<close>

text \<open>
  What \<open>round_half_even\<close>, \<open>floor_log2\<close> and \<open>f32_round\<close> compute: a nearest integer, even
  at a tie; the exponent; and a nearest multiple of the spacing.
\<close>

lemma round_half_even_error: "\<bar>of_int (round_half_even r) - r\<bar> \<le> 1 / 2"
proof -
  have "of_int \<lfloor>r\<rfloor> \<le> r" "r < of_int \<lfloor>r\<rfloor> + 1" by linarith+
  then show ?thesis
    by (auto simp: round_half_even_def Let_def abs_le_iff)
qed

lemma bitlen_pow:
  assumes "0 < (p :: int)"
  shows "(2 :: rat) powi (bitlen p - 1) \<le> of_int p" "of_int p < (2 :: rat) powi (bitlen p)"
proof -
  from bitlen_bounds [OF assms] have a: "2 ^ nat (bitlen p - 1) \<le> p" and b: "p < 2 ^ nat (bitlen p)"
    by auto
  have pos: "0 < bitlen p" using assms bitlen_nonneg [of p] bitlen_eq_zero_iff [of p] by linarith
  from a have "(of_int (2 ^ nat (bitlen p - 1)) :: rat) \<le> of_int p" by (simp only: of_int_le_iff)
  then show "(2 :: rat) powi (bitlen p - 1) \<le> of_int p"
    using pos by (simp add: power_int_def)
  from b have "(of_int p :: rat) < of_int (2 ^ nat (bitlen p))" by (simp only: of_int_less_iff)
  then show "of_int p < (2 :: rat) powi (bitlen p)"
    using pos by (simp add: power_int_def)
qed

lemma floor_log2_bounds:
  assumes "0 < x"
  shows "2 powi (floor_log2 x) \<le> x" "x < 2 powi (floor_log2 x + 1)"
proof -
  obtain p q where pq: "quotient_of x = (p, q)" by (cases "quotient_of x")
  then have q: "0 < q" by (rule quotient_of_denom_pos)
  from pq have x: "x = of_int p / of_int q" by (rule quotient_of_div)
  with assms q have p: "0 < p" by (simp add: zero_less_divide_iff)
  let ?e = "bitlen p - bitlen q"
  from bitlen_pow [OF p] bitlen_pow [OF q]
  have P: "(2 :: rat) powi (bitlen p - 1) \<le> of_int p" "of_int p < (2 :: rat) powi (bitlen p)"
    and Q: "(2 :: rat) powi (bitlen q - 1) \<le> of_int q" "of_int q < (2 :: rat) powi (bitlen q)"
    by auto
  have qq: "(0 :: rat) < of_int q" using q by simp
  have up: "x < 2 powi (?e + 1)"
  proof -
    have "x * of_int q = of_int p" using x qq by simp
    also have "\<dots> < 2 powi (bitlen p)" by (rule P)
    also have "\<dots> = 2 powi (?e + 1) * 2 powi (bitlen q - 1)"
      by (simp add: power_int_add [symmetric])
    also have "\<dots> \<le> 2 powi (?e + 1) * of_int q"
      using Q(1) by (simp add: mult_left_mono)
    finally show ?thesis using qq by simp
  qed
  have lo: "2 powi (?e - 1) \<le> x"
  proof -
    have "(2 :: rat) powi (?e - 1) * of_int q \<le> 2 powi (?e - 1) * 2 powi (bitlen q)"
      using Q(2) by (simp add: mult_left_mono)
    also have "\<dots> = 2 powi (bitlen p - 1)"
      by (simp add: power_int_add [symmetric])
    also have "\<dots> \<le> of_int p" by (rule P)
    also have "\<dots> = x * of_int q" using x qq by simp
    finally show ?thesis using qq by simp
  qed
  show "2 powi (floor_log2 x) \<le> x"
    using lo by (simp add: floor_log2_def pq Let_def)
  show "x < 2 powi (floor_log2 x + 1)"
    using up by (auto simp add: floor_log2_def pq Let_def not_le)
qed

lemma round_half_even_nearest:
  "\<bar>of_int (round_half_even r) - r\<bar> \<le> \<bar>of_int m - r\<bar>"
proof (cases "m = round_half_even r")
  case True
  then show ?thesis by simp
next
  case False
  then have "1 \<le> \<bar>m - round_half_even r\<bar>" by linarith
  then have "(1 :: rat) \<le> \<bar>of_int m - of_int (round_half_even r)\<bar>"
    by (metis of_int_1 of_int_abs of_int_diff of_int_le_iff)
  with round_half_even_error [of r] show ?thesis by linarith
qed

lemma round_half_even_tie:
  assumes "r - of_int \<lfloor>r\<rfloor> = 1 / 2"
  shows "even (round_half_even r)"
  using assms by (simp add: round_half_even_def Let_def)


lemma pow_aux: "(2 :: rat) powi (e + 1) = 2 ^ 24 * 2 powi (e - 23)"
proof -
  have "e + 1 = 24 + (e - 23)" by simp
  then have "(2 :: rat) powi (e + 1) = 2 powi (24 + (e - 23))" by (rule arg_cong)
  also have "\<dots> = 2 powi 24 * 2 powi (e - 23)" by (rule power_int_add) simp
  also have "(2 :: rat) powi 24 = 2 ^ 24" by (simp add: power_int_def)
  finally show ?thesis .
qed

lemma int_bound_aux:
  assumes "\<bar>r\<bar> < 2 ^ 24" and "\<bar>(of_int n :: rat) - r\<bar> \<le> 1 / 2"
  shows "\<bar>n\<bar> \<le> 2 ^ 24"
proof -
  from assms have "\<bar>(of_int n :: rat)\<bar> < 2 ^ 24 + 1" by linarith
  then have "(of_int \<bar>n\<bar> :: rat) < of_int (2 ^ 24 + 1)" by simp
  then have "\<bar>n\<bar> < 2 ^ 24 + 1" by (simp only: of_int_less_iff)
  then show ?thesis by simp
qed

lemma scaled_bound_aux:
  assumes "0 < (u :: rat)" and "\<bar>x\<bar> < c * u"
  shows "\<bar>x / u\<bar> < c"
proof -
  from assms have "\<bar>x\<bar> / u < c" by (simp add: pos_divide_less_eq)
  with assms(1) show ?thesis by simp
qed

text \<open>
  \<open>f32_round x\<close> is a multiple of the spacing of the binary32 numbers around \<open>x\<close> with a
  significand of at most 24 bits, and as near to \<open>x\<close> as any such multiple.
\<close>

lemma f32_round_unfold:
  assumes "x \<noteq> 0"
  shows "f32_round x =
    of_int (round_half_even (x / 2 powi (max (floor_log2 \<bar>x\<bar>) (- 126) - 23)))
      * 2 powi (max (floor_log2 \<bar>x\<bar>) (- 126) - 23)"
  unfolding f32_round_def Let_def using assms by (simp only: if_False)

lemma f32_round_significand:
  assumes "x \<noteq> 0"
  shows "\<exists>n. f32_round x = of_int n * 2 powi (max (floor_log2 \<bar>x\<bar>) (- 126) - 23)
             \<and> \<bar>n\<bar> \<le> 2 ^ 24"
proof -
  define e where "e = max (floor_log2 \<bar>x\<bar>) (- 126)"
  define u where "u = (2 :: rat) powi (e - 23)"
  define n where "n = round_half_even (x / u)"
  have u: "0 < u" by (simp add: u_def)
  have le: "floor_log2 \<bar>x\<bar> + 1 \<le> e + 1" by (simp add: e_def)
  from assms have "\<bar>x\<bar> < 2 powi (floor_log2 \<bar>x\<bar> + 1)"
    by (intro floor_log2_bounds) simp
  also have "\<dots> \<le> 2 powi (e + 1)"
    using le by (intro power_int_increasing) simp_all
  also have "\<dots> = 2 ^ 24 * u"
    unfolding u_def by (rule pow_aux)
  finally have "\<bar>x / u\<bar> < 2 ^ 24" using u by (intro scaled_bound_aux)
  moreover have "\<bar>(of_int n :: rat) - x / u\<bar> \<le> 1 / 2"
    unfolding n_def by (rule round_half_even_error)
  ultimately have "\<bar>n\<bar> \<le> 2 ^ 24" by (rule int_bound_aux)
  moreover have "f32_round x = of_int n * u"
    unfolding n_def u_def e_def by (rule f32_round_unfold [OF assms])
  ultimately show ?thesis unfolding u_def e_def by blast
qed

lemma f32_round_nearest:
  assumes "x \<noteq> 0"
  shows "\<bar>f32_round x - x\<bar>
           \<le> \<bar>of_int m * 2 powi (max (floor_log2 \<bar>x\<bar>) (- 126) - 23) - x\<bar>"
proof -
  define u where "u = (2 :: rat) powi (max (floor_log2 \<bar>x\<bar>) (- 126) - 23)"
  define n where "n = round_half_even (x / u)"
  have u: "0 < u" by (simp add: u_def)
  have eq: "\<bar>of_int k * u - x\<bar> = \<bar>of_int k - x / u\<bar> * u" for k :: int
  proof -
    have "of_int k * u - x = (of_int k - x / u) * u"
      using u by (simp add: left_diff_distrib)
    then have "\<bar>of_int k * u - x\<bar> = \<bar>of_int k - x / u\<bar> * \<bar>u\<bar>"
      by (simp only: abs_mult)
    with u show ?thesis by simp
  qed
  have "f32_round x = of_int n * u"
    unfolding n_def u_def by (rule f32_round_unfold [OF assms])
  then have "\<bar>f32_round x - x\<bar> = \<bar>of_int n - x / u\<bar> * u"
    by (simp only: eq)
  also have "\<dots> \<le> \<bar>of_int m - x / u\<bar> * u"
    unfolding n_def using u by (intro mult_right_mono round_half_even_nearest) simp
  also have "\<dots> = \<bar>of_int m * u - x\<bar>"
    by (simp only: eq)
  finally show ?thesis unfolding u_def .
qed

section \<open>The normalisation of the kernel\<close>

lemma initWindow_parameters:
  "m_parameters (snd (initWindow env app)) = m_parameters app"
  "m_uniforms (snd (initWindow env app)) = m_uniforms app"
  by (simp_all add: initWindow_def Let_def)

lemma initDevice_parameters:
  "m_parameters (snd (initDevice env app)) = m_parameters app"
  "m_uniforms (snd (initDevice env app)) = m_uniforms app"
  by (simp_all add: initDevice_def)

lemma exampleReady_parameters:
  "m_parameters exampleReady = m_parameters exampleApp"
  "m_uniforms exampleReady = m_uniforms exampleApp"
proof -
  let ?a0 = "initBuffers (initComputePipeline (initBindGroupLayout (initGui (initSwapChain
      (snd (initDevice exampleEnv (snd (initWindow exampleEnv exampleApp))))))))"
  have a0: "m_parameters ?a0 = m_parameters exampleApp" "m_uniforms ?a0 = m_uniforms exampleApp"
    by (simp_all add: initBuffers_def initComputePipeline_def initBindGroupLayout_def
        initGui_def initSwapChain_def initDevice_parameters initWindow_parameters)
  have "onInit exampleEnv exampleApp = (Inr True, exampleReady)"
    using onInit_example by (simp add: exampleReady_def prod_eq_iff)
  then obtain a3 where i: "initTextures exampleEnv ?a0 = (Inr (), a3)"
    and r: "exampleReady = initBindGroup (initTextureViews a3)"
    by (auto simp: onInit_unfold split: if_splits prod.splits sum.splits)
  from initTextures_Inr [OF i] have "m_parameters a3 = m_parameters ?a0"
    "m_uniforms a3 = m_uniforms ?a0" by auto
  with a0 show "m_parameters exampleReady = m_parameters exampleApp"
    "m_uniforms exampleReady = m_uniforms exampleApp"
    by (simp_all add: r initBindGroup_def Let_def initTextureViews_fields)
qed

lemma edit_simps:
  "edit None write pc = pc"
  "edit (Some v) write pc = (write v (fst pc), True)"
  by (simp_all add: edit_def)

lemma editParameters_checkbox:
  "editParameters (idleGui\<lparr>checkbox_normalize := Some v\<rparr>) p = (p\<lparr>normalize := v\<rparr>, True)"
  by (simp add: editParameters_def idleGui_def edit_simps)

lemma editParameters_combo:
  "editParameters (idleGui\<lparr>combo_filterType := Some v\<rparr>) p = (p\<lparr>filterType := v\<rparr>, True)"
  by (simp add: editParameters_def idleGui_def edit_simps)

lemma editParameters_sliders:
  "editParameters (idleGui\<lparr>slider_kernelX := Some x, slider_kernelY := Some y,
       slider_kernelZ := Some z\<rparr>) \<lparr>filterType = f, kernel = (a, b, c), normalize = n\<rparr>
     = (\<lparr>filterType = f, kernel = (set_xyz x a, set_xyz y b, set_xyz z c), normalize = n\<rparr>, True)"
  by (simp add: editParameters_def idleGui_def edit_simps)

lemma exampleReady_kernel:
  "m_parameters exampleReady =
      \<lparr>filterType = 0,
       kernel = ((Num 1, Num 0, Num 0, Num 0), (Num 0, Num 1, Num 0, Num 0),
                 (Num 0, Num 0, Num 1, Num 0)),
       normalize = True\<rparr>"
  by (simp add: exampleReady_parameters exampleApp_def)

lemma negativeKernelApp_before:
  "m_parameters (onGui exampleEnv slideKernelDown (onGui exampleEnv untickNormalize exampleReady))
     = \<lparr>filterType = 0,
        kernel = ((Num (- 1), Num (- 1), Num (- 1), Num 0),
                  (Num (- 1), Num (- 1), Num (- 1), Num 0),
                  (Num (- 1), Num (- 1), Num (- 1), Num 0)),
        normalize = False\<rparr>"
proof -
  have p1: "m_parameters (onGui exampleEnv untickNormalize exampleReady) =
      \<lparr>filterType = 0,
       kernel = ((Num 1, Num 0, Num 0, Num 0), (Num 0, Num 1, Num 0, Num 0),
                 (Num 0, Num 0, Num 1, Num 0)),
       normalize = False\<rparr>"
    by (simp add: onGui_fields(5) exampleReady_kernel untickNormalize_def editParameters_checkbox)
  have "m_parameters (onGui exampleEnv slideKernelDown (onGui exampleEnv untickNormalize exampleReady))
      = fst (editParameters slideKernelDown
          (m_parameters (onGui exampleEnv untickNormalize exampleReady)))"
    by (rule onGui_fields(5))
  also have "\<dots> = fst (editParameters slideKernelDown
      \<lparr>filterType = 0,
       kernel = ((Num 1, Num 0, Num 0, Num 0), (Num 0, Num 1, Num 0, Num 0),
                 (Num 0, Num 0, Num 1, Num 0)),
       normalize = False\<rparr>)"
    by (simp only: p1)
  also have "\<dots> = \<lparr>filterType = 0,
        kernel = ((Num (- 1), Num (- 1), Num (- 1), Num 0),
                  (Num (- 1), Num (- 1), Num (- 1), Num 0),
                  (Num (- 1), Num (- 1), Num (- 1), Num 0)),
        normalize = False\<rparr>"
    by (simp add: slideKernelDown_def editParameters_sliders)
  finally show ?thesis .
qed

lemma negativeKernelApp_parameters:
  "m_parameters negativeKernelApp
     = \<lparr>filterType = 0,
        kernel = ((Num (- 1), Num (- 1), Num (- 1), Num 0),
                  (Num (- 1), Num (- 1), Num (- 1), Num 0),
                  (Num (- 1), Num (- 1), Num (- 1), Num 0)),
        normalize = True\<rparr>"
proof -
  have "m_parameters negativeKernelApp
      = fst (editParameters tickNormalize (m_parameters
          (onGui exampleEnv slideKernelDown (onGui exampleEnv untickNormalize exampleReady))))"
    unfolding negativeKernelApp_def by (rule onGui_fields(5))
  also have "\<dots> = fst (editParameters tickNormalize
      \<lparr>filterType = 0,
        kernel = ((Num (- 1), Num (- 1), Num (- 1), Num 0),
                  (Num (- 1), Num (- 1), Num (- 1), Num 0),
                  (Num (- 1), Num (- 1), Num (- 1), Num 0)),
        normalize = False\<rparr>)"
    by (simp only: negativeKernelApp_before)
  also have "\<dots> = \<lparr>filterType = 0,
        kernel = ((Num (- 1), Num (- 1), Num (- 1), Num 0),
                  (Num (- 1), Num (- 1), Num (- 1), Num 0),
                  (Num (- 1), Num (- 1), Num (- 1), Num 0)),
        normalize = True\<rparr>"
    by (simp add: tickNormalize_def editParameters_checkbox)
  finally show ?thesis .
qed

lemma tinyKernel_parameters:
  "m_parameters (onGui exampleEnv slideKernelTiny exampleReady)
     = \<lparr>filterType = 0,
        kernel = ((Num (8796093 / 2 ^ 43), Num (1 / 2 ^ 46), Num 0, Num 0),
                  (Num 0, Num 0, Num 0, Num 0),
                  (Num 0, Num 0, Num 0, Num 0)),
        normalize = True\<rparr>"
proof -
  have "m_parameters (onGui exampleEnv slideKernelTiny exampleReady)
      = fst (editParameters slideKernelTiny (m_parameters exampleReady))"
    by (rule onGui_fields(5))
  also have "\<dots> = fst (editParameters slideKernelTiny
      \<lparr>filterType = 0,
       kernel = ((Num 1, Num 0, Num 0, Num 0), (Num 0, Num 1, Num 0, Num 0),
                 (Num 0, Num 0, Num 1, Num 0)),
       normalize = True\<rparr>)"
    by (simp only: exampleReady_kernel)
  also have "\<dots> = \<lparr>filterType = 0,
        kernel = ((Num (8796093 / 2 ^ 43), Num (1 / 2 ^ 46), Num 0, Num 0),
                  (Num 0, Num 0, Num 0, Num 0),
                  (Num 0, Num 0, Num 0, Num 0)),
        normalize = True\<rparr>"
    by (simp add: slideKernelTiny_def editParameters_sliders)
  finally show ?thesis .
qed

lemma kernel_sum_unfold:
  "kernel_sum ((a0, a1, a2, a3), (b0, b1, b2, b3), (c0, c1, c2, c3)) =
     f32_add
       (f32_add
          (f32_mul (Num 1)
             (f32_add (f32_add (f32_mul a0 (Num 1)) (f32_mul b0 (Num 1))) (f32_mul c0 (Num 1))))
          (f32_mul (Num 1)
             (f32_add (f32_add (f32_mul a1 (Num 1)) (f32_mul b1 (Num 1))) (f32_mul c1 (Num 1)))))
       (f32_add
          (f32_mul (Num 1)
             (f32_add (f32_add (f32_mul a2 (Num 1)) (f32_mul b2 (Num 1))) (f32_mul c2 (Num 1))))
          (f32_mul (Num 0)
             (f32_add (f32_add (f32_mul a3 (Num 1)) (f32_mul b3 (Num 1))) (f32_mul c3 (Num 1)))))"
  by (simp add: kernel_sum_def)

lemma uniforms_kernel_update:
  "uniforms_kernel (updateUniforms p u) =
     (if normalize p \<and> exceeds_1e_6 (f32_abs (kernel_sum (kernel p)))
      then mat3x4_div (kernel p) (kernel_sum (kernel p)) else kernel p)"
  by (simp add: updateUniforms_def Let_def)

text \<open>The arithmetic of the examples, each operation rounded.\<close>

lemma minus_one_kernel:
  "(if True \<and> exceeds_1e_6 (f32_abs (kernel_sum
          ((Num (- 1), Num (- 1), Num (- 1), Num 0),
           (Num (- 1), Num (- 1), Num (- 1), Num 0),
           (Num (- 1), Num (- 1), Num (- 1), Num 0))))
    then mat3x4_div
          ((Num (- 1), Num (- 1), Num (- 1), Num 0),
           (Num (- 1), Num (- 1), Num (- 1), Num 0),
           (Num (- 1), Num (- 1), Num (- 1), Num 0))
          (kernel_sum
          ((Num (- 1), Num (- 1), Num (- 1), Num 0),
           (Num (- 1), Num (- 1), Num (- 1), Num 0),
           (Num (- 1), Num (- 1), Num (- 1), Num 0)))
    else ((Num (- 1), Num (- 1), Num (- 1), Num 0),
           (Num (- 1), Num (- 1), Num (- 1), Num 0),
           (Num (- 1), Num (- 1), Num (- 1), Num 0)))
   = ((Num (14913081 / 134217728), Num (14913081 / 134217728), Num (14913081 / 134217728),
         NegZero),
        (Num (14913081 / 134217728), Num (14913081 / 134217728), Num (14913081 / 134217728),
         NegZero),
        (Num (14913081 / 134217728), Num (14913081 / 134217728), Num (14913081 / 134217728),
         NegZero))"
  by code_simp

lemma diagonal_kernel:
  "(if True \<and> exceeds_1e_6 (f32_abs (kernel_sum
          ((Num 1, Num 0, Num 0, Num 0), (Num 0, Num 1, Num 0, Num 0),
           (Num 0, Num 0, Num 1, Num 0))))
    then mat3x4_div
          ((Num 1, Num 0, Num 0, Num 0), (Num 0, Num 1, Num 0, Num 0),
           (Num 0, Num 0, Num 1, Num 0))
          (kernel_sum
          ((Num 1, Num 0, Num 0, Num 0), (Num 0, Num 1, Num 0, Num 0),
           (Num 0, Num 0, Num 1, Num 0)))
    else ((Num 1, Num 0, Num 0, Num 0), (Num 0, Num 1, Num 0, Num 0),
           (Num 0, Num 0, Num 1, Num 0)))
   = ((Num (11184811 / 33554432), Num 0, Num 0, Num 0),
        (Num 0, Num (11184811 / 33554432), Num 0, Num 0),
        (Num 0, Num 0, Num (11184811 / 33554432), Num 0))"
  by code_simp

lemma negativeKernelApp_uniforms:
  "uniforms_kernel (m_uniforms negativeKernelApp)
     = ((Num (14913081 / 134217728), Num (14913081 / 134217728), Num (14913081 / 134217728),
         NegZero),
        (Num (14913081 / 134217728), Num (14913081 / 134217728), Num (14913081 / 134217728),
         NegZero),
        (Num (14913081 / 134217728), Num (14913081 / 134217728), Num (14913081 / 134217728),
         NegZero))"
proof -
  let ?before = "onGui exampleEnv slideKernelDown (onGui exampleEnv untickNormalize exampleReady)"
  have e: "editParameters tickNormalize (m_parameters ?before)
      = (\<lparr>filterType = 0,
        kernel = ((Num (- 1), Num (- 1), Num (- 1), Num 0),
                  (Num (- 1), Num (- 1), Num (- 1), Num 0),
                  (Num (- 1), Num (- 1), Num (- 1), Num 0)),
        normalize = True\<rparr>, True)"
    by (simp add: negativeKernelApp_before tickNormalize_def editParameters_checkbox)
  have "m_uniforms negativeKernelApp
      = (if snd (editParameters tickNormalize (m_parameters ?before))
         then updateUniforms (fst (editParameters tickNormalize (m_parameters ?before)))
                (m_uniforms ?before)
         else m_uniforms ?before)"
    unfolding negativeKernelApp_def by (rule onGui_fields(6))
  also have "\<dots> = updateUniforms
      \<lparr>filterType = 0,
        kernel = ((Num (- 1), Num (- 1), Num (- 1), Num 0),
                  (Num (- 1), Num (- 1), Num (- 1), Num 0),
                  (Num (- 1), Num (- 1), Num (- 1), Num 0)),
        normalize = True\<rparr> (m_uniforms ?before)"
    by (simp only: e fst_conv snd_conv if_True)
  finally show ?thesis
    by (simp only: uniforms_kernel_update Parameters.select_convs minus_one_kernel)
qed

lemma chooseMaximum_frame:
  "m_parameters (onGui exampleEnv chooseMaximum exampleReady)
     = \<lparr>filterType = 1,
        kernel = ((Num 1, Num 0, Num 0, Num 0), (Num 0, Num 1, Num 0, Num 0),
                  (Num 0, Num 0, Num 1, Num 0)),
        normalize = True\<rparr>"
  "uniforms_kernel (m_uniforms (onGui exampleEnv chooseMaximum exampleReady))
     = ((Num (11184811 / 33554432), Num 0, Num 0, Num 0),
        (Num 0, Num (11184811 / 33554432), Num 0, Num 0),
        (Num 0, Num 0, Num (11184811 / 33554432), Num 0))"
proof -
  have e: "editParameters chooseMaximum (m_parameters exampleReady)
      = (\<lparr>filterType = 1,
        kernel = ((Num 1, Num 0, Num 0, Num 0), (Num 0, Num 1, Num 0, Num 0),
                  (Num 0, Num 0, Num 1, Num 0)),
        normalize = True\<rparr>, True)"
    by (simp add: exampleReady_kernel chooseMaximum_def editParameters_combo)
  have "m_parameters (onGui exampleEnv chooseMaximum exampleReady)
      = fst (editParameters chooseMaximum (m_parameters exampleReady))"
    by (rule onGui_fields(5))
  then show "m_parameters (onGui exampleEnv chooseMaximum exampleReady)
     = \<lparr>filterType = 1,
        kernel = ((Num 1, Num 0, Num 0, Num 0), (Num 0, Num 1, Num 0, Num 0),
                  (Num 0, Num 0, Num 1, Num 0)),
        normalize = True\<rparr>"
    by (simp only: e fst_conv)
  have "m_uniforms (onGui exampleEnv chooseMaximum exampleReady)
      = (if snd (editParameters chooseMaximum (m_parameters exampleReady))
         then updateUniforms (fst (editParameters chooseMaximum (m_parameters exampleReady)))
                (m_uniforms exampleReady)
         else m_uniforms exampleReady)"
    by (rule onGui_fields(6))
  also have "\<dots> = updateUniforms
      \<lparr>filterType = 1,
        kernel = ((Num 1, Num 0, Num 0, Num 0), (Num 0, Num 1, Num 0, Num 0),
                  (Num 0, Num 0, Num 1, Num 0)),
        normalize = True\<rparr> (m_uniforms exampleReady)"
    by (simp only: e fst_conv snd_conv if_True)
  finally show "uniforms_kernel (m_uniforms (onGui exampleEnv chooseMaximum exampleReady))
     = ((Num (11184811 / 33554432), Num 0, Num 0, Num 0),
        (Num 0, Num (11184811 / 33554432), Num 0, Num 0),
        (Num 0, Num 0, Num (11184811 / 33554432), Num 0))"
    by (simp only: uniforms_kernel_update Parameters.select_convs diagonal_kernel)
qed

text \<open>
  Claim C1, as the code has it. In a frame in which a parameter widget reports a change, the
  uniform kernel becomes the parameter kernel with every component divided by \<open>s\<close>, as
  floats, when normalisation is enabled and the absolute value of \<open>s\<close> exceeds \<open>10\<^sup>-\<^sup>6\<close>, and
  the parameter kernel unchanged otherwise. Here \<open>s\<close> is the float that
  \<^verbatim>\<open>dot(vec4(1.0, 1.0, 1.0, 0.0), kernel * vec3(1.0))\<close> yields: for each of the four components
  the entries of the three columns are added from left to right (\<open>r0\<close> to \<open>r3\<close>, one for each
  row of the matrix), and \<open>s\<close> is \<open>(r0 + r1) + (r2 + 0 * r3)\<close>, every operation rounded. So
  the x, y and z components of all three columns enter the sum, nine numbers, and the
  fourth components enter it with the factor zero. In a frame without such a change the
  uniforms stay as they are.
\<close>

theorem onGui_uniform_kernel:
  "(snd (editParameters inp (m_parameters app))
      \<and> kernel (m_parameters (onGui env inp app))
          = ((a0, a1, a2, a3), (b0, b1, b2, b3), (c0, c1, c2, c3))
      \<and> r0 = f32_add (f32_add (f32_mul a0 (Num 1)) (f32_mul b0 (Num 1))) (f32_mul c0 (Num 1))
      \<and> r1 = f32_add (f32_add (f32_mul a1 (Num 1)) (f32_mul b1 (Num 1))) (f32_mul c1 (Num 1))
      \<and> r2 = f32_add (f32_add (f32_mul a2 (Num 1)) (f32_mul b2 (Num 1))) (f32_mul c2 (Num 1))
      \<and> r3 = f32_add (f32_add (f32_mul a3 (Num 1)) (f32_mul b3 (Num 1))) (f32_mul c3 (Num 1))
      \<and> s = f32_add (f32_add (f32_mul (Num 1) r0) (f32_mul (Num 1) r1))
                     (f32_add (f32_mul (Num 1) r2) (f32_mul (Num 0) r3)) \<longrightarrow>
      uniforms_kernel (m_uniforms (onGui env inp app)) =
        (if normalize (m_parameters (onGui env inp app)) \<and> exceeds_1e_6 (f32_abs s)
         then ((f32_div a0 s, f32_div a1 s, f32_div a2 s, f32_div a3 s),
               (f32_div b0 s, f32_div b1 s, f32_div b2 s, f32_div b3 s),
               (f32_div c0 s, f32_div c1 s, f32_div c2 s, f32_div c3 s))
         else ((a0, a1, a2, a3), (b0, b1, b2, b3), (c0, c1, c2, c3))))
   \<and> (\<not> snd (editParameters inp (m_parameters app)) \<longrightarrow>
        m_uniforms (onGui env inp app) = m_uniforms app)"
  by (auto simp: onGui_fields updateUniforms_def Let_def kernel_sum_unfold)


theorem onGui_uniform_kernel_witness:
  "snd (editParameters tickNormalize (m_parameters
        (onGui exampleEnv slideKernelDown (onGui exampleEnv untickNormalize exampleReady))))
   \<and> kernel (m_parameters negativeKernelApp)
       = ((Num (- 1), Num (- 1), Num (- 1), Num 0),
          (Num (- 1), Num (- 1), Num (- 1), Num 0),
          (Num (- 1), Num (- 1), Num (- 1), Num 0))
   \<and> normalize (m_parameters negativeKernelApp)
   \<and> uniforms_kernel (m_uniforms negativeKernelApp)
       = ((Num (14913081 / 134217728), Num (14913081 / 134217728),
           Num (14913081 / 134217728), NegZero),
          (Num (14913081 / 134217728), Num (14913081 / 134217728),
           Num (14913081 / 134217728), NegZero),
          (Num (14913081 / 134217728), Num (14913081 / 134217728),
           Num (14913081 / 134217728), NegZero))
   \<and> snd (editParameters slideKernelTiny (m_parameters exampleReady))
   \<and> kernel (m_parameters (onGui exampleEnv slideKernelTiny exampleReady))
       = ((Num (8796093 / 2 ^ 43), Num (1 / 2 ^ 46), Num 0, Num 0),
          (Num 0, Num 0, Num 0, Num 0),
          (Num 0, Num 0, Num 0, Num 0))
   \<and> normalize (m_parameters (onGui exampleEnv slideKernelTiny exampleReady))
   \<and> (8796093 / 2 ^ 43 + 1 / 2 ^ 46 :: rat) > 1 / 1000000
   \<and> uniforms_kernel (m_uniforms (onGui exampleEnv slideKernelTiny exampleReady))
       = ((Num (8796093 / 2 ^ 43), Num (1 / 2 ^ 46), Num 0, Num 0),
          (Num 0, Num 0, Num 0, Num 0),
          (Num 0, Num 0, Num 0, Num 0))
   \<and> \<not> snd (editParameters idleGui (m_parameters exampleReady))
   \<and> m_uniforms (onGui exampleEnv idleGui exampleReady) = m_uniforms exampleReady"
proof -
  let ?before = "onGui exampleEnv slideKernelDown (onGui exampleEnv untickNormalize exampleReady)"
  let ?tiny = "onGui exampleEnv slideKernelTiny exampleReady"
  have ch: "snd (editParameters tickNormalize (m_parameters ?before))"
    by (simp add: editParameters_changed tickNormalize_def idleGui_def)
  have k: "kernel (m_parameters (onGui exampleEnv tickNormalize ?before))
       = ((Num (- 1), Num (- 1), Num (- 1), Num 0),
          (Num (- 1), Num (- 1), Num (- 1), Num 0),
          (Num (- 1), Num (- 1), Num (- 1), Num 0))"
    and n: "normalize (m_parameters (onGui exampleEnv tickNormalize ?before))"
    using negativeKernelApp_parameters by (simp_all only: negativeKernelApp_def, simp_all)
  have r: "Num (- 3) = f32_add (f32_add (f32_mul (Num (- 1)) (Num 1))
                (f32_mul (Num (- 1)) (Num 1))) (f32_mul (Num (- 1)) (Num 1))"
    and r3: "Num 0 = f32_add (f32_add (f32_mul (Num 0) (Num 1))
                (f32_mul (Num 0) (Num 1))) (f32_mul (Num 0) (Num 1))"
    and s: "Num (- 9) = f32_add (f32_add (f32_mul (Num 1) (Num (- 3)))
                                         (f32_mul (Num 1) (Num (- 3))))
                     (f32_add (f32_mul (Num 1) (Num (- 3))) (f32_mul (Num 0) (Num 0)))"
    and ex: "exceeds_1e_6 (f32_abs (Num (- 9)))"
    and d: "f32_div (Num (- 1)) (Num (- 9)) = Num (14913081 / 134217728)"
      "f32_div (Num 0) (Num (- 9)) = NegZero"
    by code_simp+
  from onGui_uniform_kernel [where inp = tickNormalize and app = ?before and env = exampleEnv
      and ?a0.0 = "Num (- 1)" and ?a1.0 = "Num (- 1)" and ?a2.0 = "Num (- 1)" and ?a3.0 = "Num 0"
      and ?b0.0 = "Num (- 1)" and ?b1.0 = "Num (- 1)" and ?b2.0 = "Num (- 1)" and ?b3.0 = "Num 0"
      and ?c0.0 = "Num (- 1)" and ?c1.0 = "Num (- 1)" and ?c2.0 = "Num (- 1)" and ?c3.0 = "Num 0"
      and ?r0.0 = "Num (- 3)" and ?r1.0 = "Num (- 3)" and ?r2.0 = "Num (- 3)" and ?r3.0 = "Num 0"
      and s = "Num (- 9)"] ch k r r3 s
  have "uniforms_kernel (m_uniforms (onGui exampleEnv tickNormalize ?before)) =
        (if normalize (m_parameters (onGui exampleEnv tickNormalize ?before))
            \<and> exceeds_1e_6 (f32_abs (Num (- 9)))
         then ((f32_div (Num (- 1)) (Num (- 9)), f32_div (Num (- 1)) (Num (- 9)),
                f32_div (Num (- 1)) (Num (- 9)), f32_div (Num 0) (Num (- 9))),
               (f32_div (Num (- 1)) (Num (- 9)), f32_div (Num (- 1)) (Num (- 9)),
                f32_div (Num (- 1)) (Num (- 9)), f32_div (Num 0) (Num (- 9))),
               (f32_div (Num (- 1)) (Num (- 9)), f32_div (Num (- 1)) (Num (- 9)),
                f32_div (Num (- 1)) (Num (- 9)), f32_div (Num 0) (Num (- 9))))
         else ((Num (- 1), Num (- 1), Num (- 1), Num 0),
               (Num (- 1), Num (- 1), Num (- 1), Num 0),
               (Num (- 1), Num (- 1), Num (- 1), Num 0)))"
    by blast
  then have 1: "uniforms_kernel (m_uniforms (onGui exampleEnv tickNormalize ?before))
       = ((Num (14913081 / 134217728), Num (14913081 / 134217728),
           Num (14913081 / 134217728), NegZero),
          (Num (14913081 / 134217728), Num (14913081 / 134217728),
           Num (14913081 / 134217728), NegZero),
          (Num (14913081 / 134217728), Num (14913081 / 134217728),
           Num (14913081 / 134217728), NegZero))"
    by (simp only: n ex d simp_thms if_True)
  have cht: "snd (editParameters slideKernelTiny (m_parameters exampleReady))"
    by (simp add: editParameters_changed slideKernelTiny_def idleGui_def)
  have kt: "kernel (m_parameters ?tiny)
       = ((Num (8796093 / 2 ^ 43), Num (1 / 2 ^ 46), Num 0, Num 0),
          (Num 0, Num 0, Num 0, Num 0),
          (Num 0, Num 0, Num 0, Num 0))"
    and nt: "normalize (m_parameters ?tiny)"
    by (simp_all only: tinyKernel_parameters Parameters.select_convs)
  have t0: "Num (8796093 / 2 ^ 43) = f32_add (f32_add (f32_mul (Num (8796093 / 2 ^ 43)) (Num 1))
                (f32_mul (Num 0) (Num 1))) (f32_mul (Num 0) (Num 1))"
    and t1: "Num (1 / 2 ^ 46) = f32_add (f32_add (f32_mul (Num (1 / 2 ^ 46)) (Num 1))
                (f32_mul (Num 0) (Num 1))) (f32_mul (Num 0) (Num 1))"
    and ts: "Num (8796093 / 2 ^ 43) =
        f32_add (f32_add (f32_mul (Num 1) (Num (8796093 / 2 ^ 43)))
                         (f32_mul (Num 1) (Num (1 / 2 ^ 46))))
                (f32_add (f32_mul (Num 1) (Num 0)) (f32_mul (Num 0) (Num 0)))"
    and tex: "\<not> exceeds_1e_6 (f32_abs (Num (8796093 / 2 ^ 43)))"
    and exact: "(8796093 / 2 ^ 43 + 1 / 2 ^ 46 :: rat) > 1 / 1000000"
    by code_simp+
  from onGui_uniform_kernel [where inp = slideKernelTiny and app = exampleReady
      and env = exampleEnv
      and ?a0.0 = "Num (8796093 / 2 ^ 43)" and ?a1.0 = "Num (1 / 2 ^ 46)"
      and ?a2.0 = "Num 0" and ?a3.0 = "Num 0"
      and ?b0.0 = "Num 0" and ?b1.0 = "Num 0" and ?b2.0 = "Num 0" and ?b3.0 = "Num 0"
      and ?c0.0 = "Num 0" and ?c1.0 = "Num 0" and ?c2.0 = "Num 0" and ?c3.0 = "Num 0"
      and ?r0.0 = "Num (8796093 / 2 ^ 43)" and ?r1.0 = "Num (1 / 2 ^ 46)"
      and ?r2.0 = "Num 0" and ?r3.0 = "Num 0"
      and s = "Num (8796093 / 2 ^ 43)"] cht kt t0 t1 r3 ts
  have "uniforms_kernel (m_uniforms ?tiny) =
        (if normalize (m_parameters ?tiny)
            \<and> exceeds_1e_6 (f32_abs (Num (8796093 / 2 ^ 43)))
         then ((f32_div (Num (8796093 / 2 ^ 43)) (Num (8796093 / 2 ^ 43)),
                f32_div (Num (1 / 2 ^ 46)) (Num (8796093 / 2 ^ 43)),
                f32_div (Num 0) (Num (8796093 / 2 ^ 43)),
                f32_div (Num 0) (Num (8796093 / 2 ^ 43))),
               (f32_div (Num 0) (Num (8796093 / 2 ^ 43)),
                f32_div (Num 0) (Num (8796093 / 2 ^ 43)),
                f32_div (Num 0) (Num (8796093 / 2 ^ 43)),
                f32_div (Num 0) (Num (8796093 / 2 ^ 43))),
               (f32_div (Num 0) (Num (8796093 / 2 ^ 43)),
                f32_div (Num 0) (Num (8796093 / 2 ^ 43)),
                f32_div (Num 0) (Num (8796093 / 2 ^ 43)),
                f32_div (Num 0) (Num (8796093 / 2 ^ 43))))
         else ((Num (8796093 / 2 ^ 43), Num (1 / 2 ^ 46), Num 0, Num 0),
               (Num 0, Num 0, Num 0, Num 0),
               (Num 0, Num 0, Num 0, Num 0)))"
    by blast
  then have 2: "uniforms_kernel (m_uniforms ?tiny)
       = ((Num (8796093 / 2 ^ 43), Num (1 / 2 ^ 46), Num 0, Num 0),
          (Num 0, Num 0, Num 0, Num 0),
          (Num 0, Num 0, Num 0, Num 0))"
    by (simp only: nt tex simp_thms if_False)
  have idle: "\<not> snd (editParameters idleGui (m_parameters exampleReady))"
    by (simp add: editParameters_changed idleGui_def)
  from onGui_uniform_kernel [where inp = idleGui and app = exampleReady and env = exampleEnv] idle
  have 3: "m_uniforms (onGui exampleEnv idleGui exampleReady) = m_uniforms exampleReady"
    by blast
  from ch k n 1 cht kt nt exact 2 idle 3 show ?thesis
    unfolding negativeKernelApp_def by blast
qed

text \<open>
  Claim C1 as stated fails on both counts. After the three frames the kernel is \<open>-1\<close>
  throughout and normalisation is on: the sum is negative, so it does not exceed
  \<open>10\<^sup>-\<^sup>6\<close> and the claim leaves the kernel unchanged, whichever two rows are summed; the
  code tests the absolute value of the sum, \<open>9\<close>, and divides by \<open>-9\<close>, which gives the
  float nearest to \<open>1/9\<close> nine times and the negative zero in the fourth components. And in
  a frame that changes the filter type with the diagonal kernel of the example, the code
  divides by the sum of all three rows, \<open>3\<close>, where two rows sum to \<open>2\<close>: the code's entries
  are the float nearest to \<open>1/3\<close>, the claim's are \<open>1/2\<close>. All sums here are small integers,
  which no rounding changes.
\<close>

theorem normalisation_counterexample:
  "m_parameters negativeKernelApp
     = \<lparr>filterType = 0,
        kernel = ((Num (- 1), Num (- 1), Num (- 1), Num 0),
                  (Num (- 1), Num (- 1), Num (- 1), Num 0),
                  (Num (- 1), Num (- 1), Num (- 1), Num 0)),
        normalize = True\<rparr>
   \<and> uniforms_kernel (m_uniforms negativeKernelApp)
       = ((Num (14913081 / 134217728), Num (14913081 / 134217728),
           Num (14913081 / 134217728), NegZero),
          (Num (14913081 / 134217728), Num (14913081 / 134217728),
           Num (14913081 / 134217728), NegZero),
          (Num (14913081 / 134217728), Num (14913081 / 134217728),
           Num (14913081 / 134217728), NegZero))
   \<and> spec_uniform_kernel first_two_rows (m_parameters negativeKernelApp)
       = ((Num (- 1), Num (- 1), Num (- 1), Num 0),
          (Num (- 1), Num (- 1), Num (- 1), Num 0),
          (Num (- 1), Num (- 1), Num (- 1), Num 0))
   \<and> spec_uniform_kernel first_two_sliders (m_parameters negativeKernelApp)
       = ((Num (- 1), Num (- 1), Num (- 1), Num 0),
          (Num (- 1), Num (- 1), Num (- 1), Num 0),
          (Num (- 1), Num (- 1), Num (- 1), Num 0))
   \<and> m_parameters (onGui exampleEnv chooseMaximum exampleReady)
       = \<lparr>filterType = 1,
          kernel = ((Num 1, Num 0, Num 0, Num 0), (Num 0, Num 1, Num 0, Num 0),
                    (Num 0, Num 0, Num 1, Num 0)),
          normalize = True\<rparr>
   \<and> uniforms_kernel (m_uniforms (onGui exampleEnv chooseMaximum exampleReady))
       = ((Num (11184811 / 33554432), Num 0, Num 0, Num 0),
          (Num 0, Num (11184811 / 33554432), Num 0, Num 0),
          (Num 0, Num 0, Num (11184811 / 33554432), Num 0))
   \<and> spec_uniform_kernel first_two_rows (m_parameters (onGui exampleEnv chooseMaximum exampleReady))
       = ((Num (1 / 2), Num 0, Num 0, Num 0), (Num 0, Num (1 / 2), Num 0, Num 0),
          (Num 0, Num 0, Num (1 / 2), Num 0))
   \<and> spec_uniform_kernel first_two_sliders (m_parameters (onGui exampleEnv chooseMaximum exampleReady))
       = ((Num (1 / 2), Num 0, Num 0, Num 0), (Num 0, Num (1 / 2), Num 0, Num 0),
          (Num 0, Num 0, Num (1 / 2), Num 0))"
proof -
  have 1: "spec_uniform_kernel first_two_rows
        \<lparr>filterType = 0,
        kernel = ((Num (- 1), Num (- 1), Num (- 1), Num 0),
                  (Num (- 1), Num (- 1), Num (- 1), Num 0),
                  (Num (- 1), Num (- 1), Num (- 1), Num 0)),
        normalize = True\<rparr>
       = ((Num (- 1), Num (- 1), Num (- 1), Num 0),
          (Num (- 1), Num (- 1), Num (- 1), Num 0),
          (Num (- 1), Num (- 1), Num (- 1), Num 0))"
    and 2: "spec_uniform_kernel first_two_sliders
        \<lparr>filterType = 0,
        kernel = ((Num (- 1), Num (- 1), Num (- 1), Num 0),
                  (Num (- 1), Num (- 1), Num (- 1), Num 0),
                  (Num (- 1), Num (- 1), Num (- 1), Num 0)),
        normalize = True\<rparr>
       = ((Num (- 1), Num (- 1), Num (- 1), Num 0),
          (Num (- 1), Num (- 1), Num (- 1), Num 0),
          (Num (- 1), Num (- 1), Num (- 1), Num 0))"
    and 3: "spec_uniform_kernel first_two_rows
        \<lparr>filterType = 1,
          kernel = ((Num 1, Num 0, Num 0, Num 0), (Num 0, Num 1, Num 0, Num 0),
                    (Num 0, Num 0, Num 1, Num 0)),
          normalize = True\<rparr>
       = ((Num (1 / 2), Num 0, Num 0, Num 0), (Num 0, Num (1 / 2), Num 0, Num 0),
          (Num 0, Num 0, Num (1 / 2), Num 0))"
    and 4: "spec_uniform_kernel first_two_sliders
        \<lparr>filterType = 1,
          kernel = ((Num 1, Num 0, Num 0, Num 0), (Num 0, Num 1, Num 0, Num 0),
                    (Num 0, Num 0, Num 1, Num 0)),
          normalize = True\<rparr>
       = ((Num (1 / 2), Num 0, Num 0, Num 0), (Num 0, Num (1 / 2), Num 0, Num 0),
          (Num 0, Num 0, Num (1 / 2), Num 0))"
    by code_simp+
  show ?thesis
    unfolding negativeKernelApp_uniforms chooseMaximum_frame negativeKernelApp_parameters
    using 1 2 3 4 by (simp only: simp_thms)
qed

end
